theory Spec2Isabelle
  imports Complex_Main "HOL-Library.Multiset"
begin

section \<open>Numbers\<close>

text \<open>
  The program computes with JavaScript numbers. They are modelled as \<^typ>\<open>real\<close>:
  rounding is left out, and a division by zero, which gives the program a non-finite
  number, is written out as a missing result (\<open>None\<close>) where the source divides.
\<close>

section \<open>The geometric algebra (math.js)\<close>

text \<open>
  math.js is imported by both source files and is not among them. Its classes and
  functions are modelled from the specification, sections 3 and 4.1.
\<close>

text \<open>Modelled from the spec: class Point of math.js, a position \<open>(x,y,z)\<close>.\<close>

datatype Point = Point (Point_x: real) (Point_y: real) (Point_z: real)

text \<open>Modelled from the spec: class Vector of math.js, a free direction and magnitude.\<close>

datatype Vector = Vector (Vector_x: real) (Vector_y: real) (Vector_z: real)

text \<open>Modelled from the spec: class Line of math.js, a point and a direction vector.\<close>

datatype Line = Line (Line_point: Point) (Line_vector: Vector)

text \<open>
  Modelled from the spec: class Plane of math.js, the coefficients \<open>(a,b,c,d)\<close> of
  \<open>ax+by+cz+d=0\<close>.
\<close>

datatype Plane = Plane (Plane_a: real) (Plane_b: real) (Plane_c: real) (Plane_d: real)

text \<open>
  Modelled from the spec: Point.move of math.js, the translation of a point by a vector.
  The program mutates the point in place; the model returns the moved point.
\<close>

definition Point_move :: "Point \<Rightarrow> Vector \<Rightarrow> Point" where
  "Point_move p v = Point (Point_x p + Vector_x v) (Point_y p + Vector_y v) (Point_z p + Vector_z v)"

text \<open>Modelled from the spec: getVectorFrom2Points of math.js, the vector from the first point to the second.\<close>

definition getVectorFrom2Points :: "Point \<Rightarrow> Point \<Rightarrow> Vector" where
  "getVectorFrom2Points p q = Vector (Point_x q - Point_x p) (Point_y q - Point_y p) (Point_z q - Point_z p)"

text \<open>Modelled from the spec: getInnerProduct of math.js.\<close>

definition getInnerProduct :: "Vector \<Rightarrow> Vector \<Rightarrow> real" where
  "getInnerProduct u v = Vector_x u * Vector_x v + Vector_y u * Vector_y v + Vector_z u * Vector_z v"

text \<open>Modelled from the spec: getCrossProduct of math.js.\<close>

definition getCrossProduct :: "Vector \<Rightarrow> Vector \<Rightarrow> Vector" where
  "getCrossProduct u v = Vector (Vector_y u * Vector_z v - Vector_z u * Vector_y v)
                                (Vector_z u * Vector_x v - Vector_x u * Vector_z v)
                                (Vector_x u * Vector_y v - Vector_y u * Vector_x v)"

text \<open>Modelled from the spec: the length of a vector (math.js).\<close>

definition Vector_length :: "Vector \<Rightarrow> real" where
  "Vector_length v = sqrt (Vector_x v * Vector_x v + Vector_y v * Vector_y v + Vector_z v * Vector_z v)"

text \<open>Modelled from the spec: getLengthFrom2Points of math.js, the distance of two points.\<close>

definition getLengthFrom2Points :: "Point \<Rightarrow> Point \<Rightarrow> real" where
  "getLengthFrom2Points p q = Vector_length (getVectorFrom2Points p q)"

text \<open>Modelled from the spec: Vector.multiplication of math.js, the scalar multiple.\<close>

definition Vector_multiplication :: "Vector \<Rightarrow> real \<Rightarrow> Vector" where
  "Vector_multiplication v k = Vector (Vector_x v * k) (Vector_y v * k) (Vector_z v * k)"

text \<open>
  Modelled from the spec: Vector.changeLength of math.js, which scales the vector to the
  given signed length and keeps its direction. The zero vector has no direction: the
  program divides by its length 0, the model gives no result.
\<close>

definition Vector_changeLength :: "Vector \<Rightarrow> real \<Rightarrow> Vector option" where
  "Vector_changeLength v len =
     (if Vector_length v = 0 then None
      else Some (Vector_multiplication v (len / Vector_length v)))"

text \<open>
  Modelled from the spec: getPlaneFromVectorAndPoint of math.js, the plane through the
  point with the given normal, \<open>d = -(a\<cdot>x+b\<cdot>y+c\<cdot>z)\<close>.
\<close>

definition getPlaneFromVectorAndPoint :: "Vector \<Rightarrow> Point \<Rightarrow> Plane" where
  "getPlaneFromVectorAndPoint n p =
     Plane (Vector_x n) (Vector_y n) (Vector_z n)
           (- (Vector_x n * Point_x p + Vector_y n * Point_y p + Vector_z n * Point_z p))"

text \<open>The plane equation evaluated at a point.\<close>

definition Plane_value :: "Plane \<Rightarrow> Point \<Rightarrow> real" where
  "Plane_value pl p = Plane_a pl * Point_x p + Plane_b pl * Point_y p + Plane_c pl * Point_z p + Plane_d pl"

text \<open>
  Modelled from the spec: Plane.isPointInFrontOf of math.js. The point is in front when
  the plane equation has, at the point, the sign it has on the side the normal points to,
  which is the positive one; a point on the plane is not in front.
\<close>

definition isPointInFrontOf :: "Plane \<Rightarrow> Point \<Rightarrow> bool" where
  "isPointInFrontOf pl p = (Plane_value pl p > 0)"

text \<open>
  Modelled from the spec: getIntersectionFromLineAndPlane of math.js. It solves
  \<open>line.point + t\<cdot>line.vector\<close> on the plane for \<open>t\<close>. When the line is parallel to
  the plane the denominator is 0 and there is no intersection.
\<close>

definition getIntersectionFromLineAndPlane :: "Line \<Rightarrow> Plane \<Rightarrow> Point option" where
  "getIntersectionFromLineAndPlane l pl =
     (let p = Line_point l; v = Line_vector l;
          denominator = Plane_a pl * Vector_x v + Plane_b pl * Vector_y v + Plane_c pl * Vector_z v
      in if denominator = 0 then None
         else let t = - Plane_value pl p / denominator
              in Some (Point (Point_x p + t * Vector_x v) (Point_y p + t * Vector_y v) (Point_z p + t * Vector_z v)))"

section \<open>Vertex (shape.js)\<close>

text \<open>
  A vertex holds its coordinates twice, as the fields \<open>x\<close>, \<open>y\<close>, \<open>z\<close> and as the
  point made by the constructor, and the number \<open>i\<close>.
\<close>

record Vertex =
  Vertex_x :: real
  Vertex_y :: real
  Vertex_z :: real
  Vertex_i :: nat
  Vertex_point :: Point

text \<open>The constructor.\<close>

definition new_Vertex :: "real \<Rightarrow> real \<Rightarrow> real \<Rightarrow> nat \<Rightarrow> Vertex" where
  "new_Vertex x y z i =
     \<lparr> Vertex_x = x, Vertex_y = y, Vertex_z = z, Vertex_i = i, Vertex_point = Point x y z \<rparr>"

definition Vertex_getClone :: "Vertex \<Rightarrow> Vertex" where
  "Vertex_getClone v = new_Vertex (Vertex_x v) (Vertex_y v) (Vertex_z v) (Vertex_i v)"

text \<open>
  \<open>move\<close> changes the vertex itself and returns a clone of it: the model returns the
  changed vertex first and the returned clone second.
\<close>

definition Vertex_move :: "Vertex \<Rightarrow> Vector \<Rightarrow> Vertex \<times> Vertex" where
  "Vertex_move v vec =
     (let this = v\<lparr> Vertex_x := Vertex_x v + Vector_x vec \<rparr>;
          this = this\<lparr> Vertex_y := Vertex_y this + Vector_y vec \<rparr>;
          this = this\<lparr> Vertex_z := Vertex_z this + Vector_z vec \<rparr>;
          this = this\<lparr> Vertex_point := Point_move (Vertex_point this) vec \<rparr>
      in (this, Vertex_getClone this))"

text \<open>The scalar fields of a vertex are the coordinates of its point.\<close>

definition Vertex_inv :: "Vertex \<Rightarrow> bool" where
  "Vertex_inv v = (Vertex_point v = Point (Vertex_x v) (Vertex_y v) (Vertex_z v))"

section \<open>Edge (shape.js)\<close>

text \<open>
  An edge holds its two vertices, and the direction vector and the line that the
  constructor derives from them.
\<close>

record Edge =
  Edge_vertex1 :: Vertex
  Edge_vertex2 :: Vertex
  Edge_vector :: Vector
  Edge_line :: Line

text \<open>The constructor.\<close>

definition new_Edge :: "Vertex \<Rightarrow> Vertex \<Rightarrow> Edge" where
  "new_Edge vertex1 vertex2 =
     (let vector = getVectorFrom2Points (Vertex_point vertex1) (Vertex_point vertex2)
      in \<lparr> Edge_vertex1 = vertex1, Edge_vertex2 = vertex2, Edge_vector = vector,
           Edge_line = Line (Vertex_point vertex1) vector \<rparr>)"

definition Edge_getClone :: "Edge \<Rightarrow> Edge" where
  "Edge_getClone e = new_Edge (Vertex_getClone (Edge_vertex1 e)) (Vertex_getClone (Edge_vertex2 e))"

definition Edge_isPointInRange :: "Edge \<Rightarrow> Point \<Rightarrow> bool" where
  "Edge_isPointInRange e point =
     (min (Vertex_x (Edge_vertex1 e)) (Vertex_x (Edge_vertex2 e)) \<le> Point_x point \<and>
      max (Vertex_x (Edge_vertex1 e)) (Vertex_x (Edge_vertex2 e)) \<ge> Point_x point \<and>
      min (Vertex_y (Edge_vertex1 e)) (Vertex_y (Edge_vertex2 e)) \<le> Point_y point \<and>
      max (Vertex_y (Edge_vertex1 e)) (Vertex_y (Edge_vertex2 e)) \<ge> Point_y point \<and>
      min (Vertex_z (Edge_vertex1 e)) (Vertex_z (Edge_vertex2 e)) \<le> Point_z point \<and>
      max (Vertex_z (Edge_vertex1 e)) (Vertex_z (Edge_vertex2 e)) \<ge> Point_z point)"

text \<open>
  The source hands the result of \<open>getIntersectionFromLineAndPlane\<close> to
  \<open>isPointInRange\<close> as it is. For a parallel line the coordinates are not finite
  numbers, every comparison of the range test fails, and the result is \<open>null\<close>: the
  first case below.
\<close>

definition Edge_getIntersectionWithPlane :: "Edge \<Rightarrow> Plane \<Rightarrow> Point option" where
  "Edge_getIntersectionWithPlane e plane =
     (case getIntersectionFromLineAndPlane (Edge_line e) plane of
        None \<Rightarrow> None
      | Some intersection \<Rightarrow>
          if Edge_isPointInRange e intersection then Some intersection else None)"

text \<open>
  \<open>setVertexInFrontOfCamera\<close> assigns to a vertex field of the edge it is called on and
  returns a new edge made from the two vertices. The model returns both: first the edge
  the method was called on, as it is afterwards, then the returned edge. The vector and
  the line of the former are not assigned; whether \<open>changeLength\<close> rescales the
  vector it is called on in place is for math.js to say, and the model leaves the vector
  as it is. Where the vector of the edge has length 0, \<open>changeLength\<close> has no result
  and neither has the model.
\<close>

definition Edge_setVertexInFrontOfCamera :: "Edge \<Rightarrow> Plane \<Rightarrow> (Edge \<times> Edge) option" where
  "Edge_setVertexInFrontOfCamera e plane =
     (case Edge_getIntersectionWithPlane e plane of
        None \<Rightarrow> Some (e, new_Edge (Edge_vertex1 e) (Edge_vertex2 e))
      | Some intersection \<Rightarrow>
          if isPointInFrontOf plane (Vertex_point (Edge_vertex1 e)) then
            (case Vector_changeLength (Edge_vector e) (- 0.0001) of
               None \<Rightarrow> None
             | Some fixVector \<Rightarrow>
                 let intersection = Point_move intersection fixVector;
                     this = e\<lparr> Edge_vertex2 :=
                               new_Vertex (Point_x intersection) (Point_y intersection) (Point_z intersection)
                                          (Vertex_i (Edge_vertex2 e)) \<rparr>
                 in Some (this, new_Edge (Edge_vertex1 this) (Edge_vertex2 this)))
          else
            (case Vector_changeLength (Edge_vector e) 0.0001 of
               None \<Rightarrow> None
             | Some fixVector \<Rightarrow>
                 let intersection = Point_move intersection fixVector;
                     this = e\<lparr> Edge_vertex1 :=
                               new_Vertex (Point_x intersection) (Point_y intersection) (Point_z intersection)
                                          (Vertex_i (Edge_vertex1 e)) \<rparr>
                 in Some (this, new_Edge (Edge_vertex1 this) (Edge_vertex2 this))))"

text \<open>The direction vector of an edge is its second vertex minus its first.\<close>

definition Edge_inv :: "Edge \<Rightarrow> bool" where
  "Edge_inv e =
     (Edge_vector e = Vector (Vertex_x (Edge_vertex2 e) - Vertex_x (Edge_vertex1 e))
                             (Vertex_y (Edge_vertex2 e) - Vertex_y (Edge_vertex1 e))
                             (Vertex_z (Edge_vertex2 e) - Vertex_z (Edge_vertex1 e)))"

section \<open>HalfLine (shape.js)\<close>

text \<open>A half-line is a line of math.js with a third field, the line itself.\<close>

record HalfLine =
  HalfLine_point :: Point
  HalfLine_vector :: Vector
  HalfLine_line :: Line

definition new_HalfLine :: "Point \<Rightarrow> Vector \<Rightarrow> HalfLine" where
  "new_HalfLine point vector =
     \<lparr> HalfLine_point = point, HalfLine_vector = vector, HalfLine_line = Line point vector \<rparr>"

text \<open>\<open>Math.sign\<close> is \<^const>\<open>sgn\<close>.\<close>

definition HalfLine_isPointInRange :: "HalfLine \<Rightarrow> Point \<Rightarrow> bool" where
  "HalfLine_isPointInRange h point =
     (sgn (Vector_x (HalfLine_vector h)) = sgn (Point_x point - Point_x (HalfLine_point h)) \<and>
      sgn (Vector_y (HalfLine_vector h)) = sgn (Point_y point - Point_y (HalfLine_point h)) \<and>
      sgn (Vector_z (HalfLine_vector h)) = sgn (Point_z point - Point_z (HalfLine_point h)))"

text \<open>
  The source hands the result of \<open>getIntersectionFromLineAndPlane\<close> to
  \<open>isPointInRange\<close> as it is. For a parallel line the coordinates are not finite
  numbers. Unlike the range test of an edge, the test of signs can pass such a point: it
  does when no component of the vector is 0 and the parameter is \<open>+Infinity\<close>, so that
  every coordinate is infinite with the sign of the vector. The source then returns
  that point, and \<open>null\<close> otherwise. The model has no point in either case: \<open>None\<close>
  in the first case below stands for \<open>null\<close> or for a point that is not finite.
\<close>

definition HalfLine_getIntersectionWithPlane :: "HalfLine \<Rightarrow> Plane \<Rightarrow> Point option" where
  "HalfLine_getIntersectionWithPlane h plane =
     (case getIntersectionFromLineAndPlane (HalfLine_line h) plane of
        None \<Rightarrow> None
      | Some intersection \<Rightarrow>
          if HalfLine_isPointInRange h intersection then Some intersection else None)"

section \<open>Face (shape.js)\<close>

text \<open>Modelled from the spec: class Color of math.js, of which the spec says nothing.\<close>

typedecl Color

text \<open>
  Modelled from the spec: getSTFrom3Vectors of math.js, which solves
  \<open>point = s\<cdot>v1 + t\<cdot>v2\<close> for \<open>s\<close> and \<open>t\<close> by a linear system of two equations.
  The two equations are the inner products of the equation with \<open>v1\<close> and with \<open>v2\<close>.
  When the determinant is 0 the program divides by 0 and the model gives no result.
\<close>

definition getSTFrom3Vectors :: "Vector \<Rightarrow> Vector \<Rightarrow> Vector \<Rightarrow> (real \<times> real) option" where
  "getSTFrom3Vectors point v1 v2 =
     (let a = getInnerProduct v1 v1; b = getInnerProduct v1 v2; c = getInnerProduct v2 v2;
          e = getInnerProduct point v1; f = getInnerProduct point v2;
          det = a * c - b * b
      in if det = 0 then None
         else Some ((e * c - f * b) / det, (a * f - b * e) / det))"

text \<open>A field that the caller leaves out is \<open>undefined\<close> in the program and \<open>None\<close> here.\<close>

record Face =
  Face_vertex1 :: Vertex
  Face_vertex2 :: Vertex
  Face_vertex3 :: Vertex
  Face_color :: "Color option"
  Face_roughness :: "real option"
  Face_vector1 :: Vector
  Face_vector2 :: Vector
  Face_normalVector :: Vector
  Face_plane :: Plane

definition new_Face :: "Vertex \<Rightarrow> Vertex \<Rightarrow> Vertex \<Rightarrow> Color option \<Rightarrow> real option \<Rightarrow> Face" where
  "new_Face vertex1 vertex2 vertex3 color roughness =
     (let vector1 = getVectorFrom2Points (Vertex_point vertex1) (Vertex_point vertex2);
          vector2 = getVectorFrom2Points (Vertex_point vertex1) (Vertex_point vertex3);
          normalVector = getCrossProduct vector1 vector2
      in \<lparr> Face_vertex1 = vertex1, Face_vertex2 = vertex2, Face_vertex3 = vertex3,
           Face_color = color, Face_roughness = roughness,
           Face_vector1 = vector1, Face_vector2 = vector2, Face_normalVector = normalVector,
           Face_plane = getPlaneFromVectorAndPoint normalVector (Vertex_point vertex1) \<rparr>)"

definition Face_getClone :: "Face \<Rightarrow> Face" where
  "Face_getClone f =
     new_Face (Vertex_getClone (Face_vertex1 f)) (Vertex_getClone (Face_vertex2 f))
              (Vertex_getClone (Face_vertex3 f)) (Face_color f) None"

text \<open>
  The comparisons of \<open>isPointOnFace\<close> fail when \<open>s\<close> and \<open>t\<close> are not numbers: the
  first case below.
\<close>

definition Face_isPointOnFace :: "Face \<Rightarrow> Point \<Rightarrow> bool" where
  "Face_isPointOnFace f point =
     (case getSTFrom3Vectors (getVectorFrom2Points (Vertex_point (Face_vertex1 f)) point)
                             (Face_vector1 f) (Face_vector2 f) of
        None \<Rightarrow> False
      | Some (s, t) \<Rightarrow> s \<ge> 0 \<and> t \<ge> 0 \<and> s + t \<le> 1)"

section \<open>Intersections of an edge or a half-line with faces (shape.js)\<close>

text \<open>The argument \<open>edgeOrHalfLine\<close> is an object of one of two classes.\<close>

datatype EdgeOrHalfLine = IsEdge Edge | IsHalfLine HalfLine

fun getIntersectionWithPlane :: "EdgeOrHalfLine \<Rightarrow> Plane \<Rightarrow> Point option" where
  "getIntersectionWithPlane (IsEdge e) plane = Edge_getIntersectionWithPlane e plane"
| "getIntersectionWithPlane (IsHalfLine h) plane = HalfLine_getIntersectionWithPlane h plane"

text \<open>
  What \<open>getIntersectionWithPlane\<close> returns is handed to \<open>isPointOnFace\<close> unless it
  is \<open>null\<close>. For a half-line parallel to the plane it can be a point that is not
  finite; with it \<open>s\<close> and \<open>t\<close> are not finite, the comparisons of \<open>isPointOnFace\<close>
  fail, and the result is \<open>null\<close>, as it is when \<open>getIntersectionWithPlane\<close> returns
  \<open>null\<close>: the second case below.
\<close>

definition getIntersectionEdgeOrHalfLineAndFace :: "EdgeOrHalfLine \<Rightarrow> Face \<Rightarrow> Point option" where
  "getIntersectionEdgeOrHalfLineAndFace edgeOrHalfLine face =
     (case getIntersectionWithPlane edgeOrHalfLine (Face_plane face) of
        Some intersection \<Rightarrow>
          if Face_isPointOnFace face intersection then Some intersection else None
      | None \<Rightarrow> None)"

text \<open>An element of the list that \<open>getIntersectionsEdgeOrHalfLineAndFaces\<close> returns.\<close>

record Hit =
  Hit_face :: Face
  Hit_intersection :: Point
  Hit_length :: real

text \<open>The loop over the faces; \<open>returnsList\<close> is the list built so far.\<close>

fun collectIntersections :: "EdgeOrHalfLine \<Rightarrow> Face list \<Rightarrow> Hit list \<Rightarrow> Hit list" where
  "collectIntersections edgeOrHalfLine [] returnsList = returnsList"
| "collectIntersections edgeOrHalfLine (face # faces) returnsList =
     (case getIntersectionEdgeOrHalfLineAndFace edgeOrHalfLine face of
        None \<Rightarrow> collectIntersections edgeOrHalfLine faces returnsList
      | Some intersection \<Rightarrow>
          let length = (case edgeOrHalfLine of
                          IsEdge e \<Rightarrow> getLengthFrom2Points (Vertex_point (Edge_vertex1 e)) intersection
                        | IsHalfLine h \<Rightarrow> getLengthFrom2Points (HalfLine_point h) intersection)
          in collectIntersections edgeOrHalfLine faces
               (returnsList @ [\<lparr> Hit_face = face, Hit_intersection = intersection, Hit_length = length \<rparr>]))"

text \<open>
  \<open>Array.prototype.sort\<close> with the comparator \<open>a.length - b.length\<close> is a stable sort
  by the key \<open>length\<close>, which is what \<^const>\<open>sort_key\<close> computes.
\<close>

definition getIntersectionsEdgeOrHalfLineAndFaces :: "EdgeOrHalfLine \<Rightarrow> Face list \<Rightarrow> Hit list" where
  "getIntersectionsEdgeOrHalfLineAndFaces edgeOrHalfLine faces =
     sort_key Hit_length (collectIntersections edgeOrHalfLine faces [])"

section \<open>Camera (second class Camera of main.js)\<close>

text \<open>
  Modelled from the spec: sin and cos of math.js, which take the angle in degrees.
\<close>

definition sin_deg :: "real \<Rightarrow> real" where
  "sin_deg a = sin (a * pi / 180)"

definition cos_deg :: "real \<Rightarrow> real" where
  "cos_deg a = cos (a * pi / 180)"

text \<open>
  Modelled from the spec: Vector.rotate of math.js, with both angles in degrees. It
  turns the \<open>y\<close> and \<open>z\<close> components by \<open>rx\<close> and then the resulting \<open>x\<close> and
  \<open>y\<close> components by \<open>rz\<close>, from the \<open>y\<close> axis toward the \<open>x\<close> axis. Section 4.1
  of the spec names the two rotations in both orders. The order and the senses taken
  here are those of section 4.3, where the conversion of \<open>getConvertedVertex\<close> is the
  inverse rotation, by \<open>rz\<close> and then by \<open>-rx\<close>, in the reverse order: the conversion
  of the source undoes this rotation. They are also those of \<open>move\<close> in the source: a
  camera turned by \<open>rz\<close> looks along \<open>(sin rz, cos rz, 0)\<close>, the way it walks on the
  key \<open>w\<close>, and has \<open>(cos rz, -sin rz, 0)\<close> to its right, the way it walks on \<open>d\<close>.
\<close>

definition Vector_rotate :: "Vector \<Rightarrow> real \<Rightarrow> real \<Rightarrow> Vector" where
  "Vector_rotate v rx rz =
     (let y1 = cos_deg rx * Vector_y v - sin_deg rx * Vector_z v;
          z1 = sin_deg rx * Vector_y v + cos_deg rx * Vector_z v;
          x2 = cos_deg rz * Vector_x v + sin_deg rz * y1;
          y2 = - sin_deg rz * Vector_x v + cos_deg rz * y1
      in Vector x2 y2 z1)"

text \<open>
  Modelled from the spec: \<open>isOnIntersectionWithPlane\<close>, which \<open>getProjectedVertex\<close>
  calls on a half-line. Class HalfLine of shape.js has no method of this name, and no
  other file under src/ defines one; class HalfLine extends class Line of math.js. The
  spec (section 4.3, step 2) has the ray from the focus through the vertex intersected
  with the view plane; that is the intersection of the half-line with the plane, within
  the range of the half-line.
\<close>

definition HalfLine_isOnIntersectionWithPlane :: "HalfLine \<Rightarrow> Plane \<Rightarrow> Point option" where
  "HalfLine_isOnIntersectionWithPlane h plane = HalfLine_getIntersectionWithPlane h plane"

text \<open>
  The fields of the camera that the projection and the drawing of vertices and edges
  read. The fields \<open>normalVector\<close>, \<open>focus\<close> and \<open>plane\<close> are assigned by the update
  methods. The corner vectors and points, the faces and the lights are left out, and so
  are the keys and \<open>move\<close>: a camera is taken as it is after \<open>move\<close>.
\<close>

record Camera =
  Camera_pos :: Point
  Camera_rx :: real
  Camera_rz :: real
  Camera_focalLength :: real
  Camera_width :: real
  Camera_height :: real
  Camera_canW :: real
  Camera_canH :: real
  Camera_expandingRatio :: real
  Camera_normalVector :: Vector
  Camera_focus :: Point
  Camera_plane :: Plane
  Camera_importedVertexes :: "Vertex list"
  Camera_importedEdges :: "Edge list"

definition Camera_updateNormalVector :: "Camera \<Rightarrow> Camera" where
  "Camera_updateNormalVector this =
     this\<lparr> Camera_normalVector :=
             Vector_rotate (Vector 0 (Camera_focalLength this) 0) (Camera_rx this) (Camera_rz this) \<rparr>"

definition Camera_updateFocusPoint :: "Camera \<Rightarrow> Camera" where
  "Camera_updateFocusPoint this =
     this\<lparr> Camera_focus :=
             Point (Point_x (Camera_pos this) - Vector_x (Camera_normalVector this))
                   (Point_y (Camera_pos this) - Vector_y (Camera_normalVector this))
                   (Point_z (Camera_pos this) - Vector_z (Camera_normalVector this)) \<rparr>"

definition Camera_updatePlane :: "Camera \<Rightarrow> Camera" where
  "Camera_updatePlane this =
     this\<lparr> Camera_plane := getPlaneFromVectorAndPoint (Camera_normalVector this) (Camera_pos this) \<rparr>"

text \<open>
  The three assignments in the order in which \<open>update\<close> makes them, after \<open>move\<close> and
  before the drawing.
\<close>

definition Camera_updateGeometry :: "Camera \<Rightarrow> Camera" where
  "Camera_updateGeometry this =
     Camera_updatePlane (Camera_updateFocusPoint (Camera_updateNormalVector this))"

text \<open>
  What the program throws when it reads a property of \<open>null\<close>.
\<close>

datatype error = TypeError

text \<open>
  \<open>getProjectedVertex\<close> returns \<open>null\<close> (\<open>Inr None\<close>) or a vertex, or throws when
  the intersection is \<open>null\<close> and its \<open>x\<close> is read. The ray to a vertex in front of
  the plane is not parallel to the plane when the focus and the plane are those that
  the update methods assign (lemma \<open>ray_not_parallel\<close>), so that the intersection is
  a finite point or \<open>null\<close>.
\<close>

definition Camera_getProjectedVertex :: "Camera \<Rightarrow> Vertex \<Rightarrow> error + Vertex option" where
  "Camera_getProjectedVertex this vertex =
     (if isPointInFrontOf (Camera_plane this) (Vertex_point vertex) = False then Inr None
      else
        let rayVector = getVectorFrom2Points (Camera_focus this) (Vertex_point vertex);
            rayHalfLine = new_HalfLine (Camera_focus this) rayVector
        in case HalfLine_isOnIntersectionWithPlane rayHalfLine (Camera_plane this) of
             None \<Rightarrow> Inl TypeError
           | Some intersection \<Rightarrow>
               Inr (Some (new_Vertex (Point_x intersection) (Point_y intersection) (Point_z intersection)
                                     (Vertex_i vertex))))"

definition Camera_getConvertedVertex :: "Camera \<Rightarrow> Vertex \<Rightarrow> Vertex" where
  "Camera_getConvertedVertex this vertex =
     (let vectorFromCamPos = getVectorFrom2Points (Camera_pos this) (Vertex_point vertex);
          x = Vector_x vectorFromCamPos; y = Vector_y vectorFromCamPos; z = Vector_z vectorFromCamPos;
          sinRZ = sin_deg (Camera_rz this);
          cosRZ = cos_deg (Camera_rz this);
          sinRX = sin_deg (- Camera_rx this);
          cosRX = cos_deg (- Camera_rx this);
          x1 = cosRZ * x - sinRZ * y;
          y1 = sinRZ * x + cosRZ * y;
          z1 = z;
          x2 = x1;
          y2 = cosRX * y1 - sinRX * z1;
          z2 = sinRX * y1 + cosRX * z1;
          x3 = x2 + Point_x (Camera_pos this);
          y3 = y2 + Point_y (Camera_pos this);
          z3 = z2 + Point_z (Camera_pos this)
      in new_Vertex x3 y3 z3 (Vertex_i vertex))"

text \<open>The result \<open>{x, y}\<close> is a pair.\<close>

definition Camera_getToDrawVertex :: "Camera \<Rightarrow> Vertex \<Rightarrow> error + (real \<times> real) option" where
  "Camera_getToDrawVertex this vertex =
     (case Camera_getProjectedVertex this vertex of
        Inl e \<Rightarrow> Inl e
      | Inr None \<Rightarrow> Inr None
      | Inr (Some projectedVertex) \<Rightarrow>
          let convertedVertex = Camera_getConvertedVertex this projectedVertex;
              x = (Vertex_x convertedVertex - Point_x (Camera_pos this)) * Camera_expandingRatio this
                    + Camera_canW this / 2;
              y = (Vertex_z convertedVertex - Point_z (Camera_pos this)) * - Camera_expandingRatio this
                    + Camera_canH this / 2
          in Inr (Some (x, y)))"

text \<open>
  The calls of the drawing functions of context.js, in the order in which they are made.
\<close>

datatype DrawCall = DrawLine real real real real | DrawCircle real real real | FillText nat real real

text \<open>
  The loop of \<open>drawEdges\<close>, from the reading of the vertices of the clipped edge to
  the call of \<open>drawLine\<close>: the calls it makes, none when it goes on to the next edge,
  or the error it throws when it reads \<open>x\<close> of a \<open>null\<close>.
\<close>

definition Camera_drawConvertedEdge :: "Camera \<Rightarrow> Edge \<Rightarrow> error + DrawCall list" where
  "Camera_drawConvertedEdge this convertedEdge =
     (let vertex1 = Edge_vertex1 convertedEdge;
          vertex2 = Edge_vertex2 convertedEdge
      in case Camera_getToDrawVertex this vertex1 of
           Inl e \<Rightarrow> Inl e
         | Inr toDrawVertex1 \<Rightarrow>
            (case Camera_getToDrawVertex this vertex2 of
               Inl e \<Rightarrow> Inl e
             | Inr toDrawVertex2 \<Rightarrow>
                if toDrawVertex1 = None \<and> toDrawVertex2 = None then Inr []
                else
                  (case toDrawVertex1 of
                     None \<Rightarrow> Inl TypeError
                   | Some (dx1, dy1) \<Rightarrow>
                      (case toDrawVertex2 of
                         None \<Rightarrow> Inl TypeError
                       | Some (dx2, dy2) \<Rightarrow> Inr [DrawLine dx1 dy1 dx2 dy2]))))"

text \<open>
  The body of the loop of \<open>drawEdges\<close> for one edge. The outer \<open>None\<close> stands for
  numbers that are not finite.
\<close>

definition Camera_drawEdge :: "Camera \<Rightarrow> Edge \<Rightarrow> (error + DrawCall list) option" where
  "Camera_drawEdge this edge =
     (case Edge_setVertexInFrontOfCamera (Edge_getClone edge) (Camera_plane this) of
        None \<Rightarrow> None
      | Some (clone, convertedEdge) \<Rightarrow> Some (Camera_drawConvertedEdge this convertedEdge))"

text \<open>
  The loop of \<open>drawEdges\<close>: the calls made so far are passed on, and an error ends the
  loop with the calls made before it.
\<close>

fun Camera_drawEdges_loop :: "Camera \<Rightarrow> Edge list \<Rightarrow> DrawCall list \<Rightarrow> (DrawCall list \<times> error option) option" where
  "Camera_drawEdges_loop this [] calls = Some (calls, None)"
| "Camera_drawEdges_loop this (edge # edges) calls =
     (case Camera_drawEdge this edge of
        None \<Rightarrow> None
      | Some (Inl e) \<Rightarrow> Some (calls, Some e)
      | Some (Inr new) \<Rightarrow> Camera_drawEdges_loop this edges (calls @ new))"

definition Camera_drawEdges :: "Camera \<Rightarrow> DrawCall list \<Rightarrow> (DrawCall list \<times> error option) option" where
  "Camera_drawEdges this calls = Camera_drawEdges_loop this (Camera_importedEdges this) calls"

text \<open>
  The loop of \<open>drawVertexes\<close>: a vertex with no place on the canvas is passed over,
  the others get a circle and their number.
\<close>

fun Camera_drawVertexes_loop :: "Camera \<Rightarrow> Vertex list \<Rightarrow> DrawCall list \<Rightarrow> DrawCall list \<times> error option" where
  "Camera_drawVertexes_loop this [] calls = (calls, None)"
| "Camera_drawVertexes_loop this (vertex # vertexes) calls =
     (case Camera_getToDrawVertex this vertex of
        Inl e \<Rightarrow> (calls, Some e)
      | Inr None \<Rightarrow> Camera_drawVertexes_loop this vertexes calls
      | Inr (Some (dx, dy)) \<Rightarrow>
          Camera_drawVertexes_loop this vertexes
            (calls @ [DrawCircle dx dy 2.5, FillText (Vertex_i vertex) dx dy]))"

definition Camera_drawVertexes :: "Camera \<Rightarrow> DrawCall list \<Rightarrow> DrawCall list \<times> error option" where
  "Camera_drawVertexes this calls = Camera_drawVertexes_loop this (Camera_importedVertexes this) calls"

text \<open>
  The end of \<open>update\<close>: \<open>drawEdges\<close>, then \<open>drawVertexes\<close>. An error thrown by the
  first ends the update.
\<close>

definition Camera_update_draw :: "Camera \<Rightarrow> DrawCall list \<Rightarrow> (DrawCall list \<times> error option) option" where
  "Camera_update_draw this calls =
     (case Camera_drawEdges this calls of
        None \<Rightarrow> None
      | Some (calls, Some e) \<Rightarrow> Some (calls, Some e)
      | Some (calls, None) \<Rightarrow> Some (Camera_drawVertexes this calls))"

section \<open>The store of vertex and edge objects\<close>

text \<open>
  Vertex and edge objects are shared: the edges of a scene refer to the vertices of its
  vertex list, and \<open>setVertexInFrontOfCamera\<close> assigns to a field of the edge it is
  called on. For what the program does to these objects they are kept in a store, by
  address; a new object gets the next free address. An edge object holds the addresses
  of its vertices. Points, vectors and lines stay values inside the object that holds
  them: the constructor of a vertex makes its point from three numbers and that of an
  edge its vector from two points, so that a clone shares no point and no vector with
  the object it was made from.
\<close>

record EdgeObject =
  EdgeObject_vertex1 :: nat
  EdgeObject_vertex2 :: nat
  EdgeObject_vector :: Vector
  EdgeObject_line :: Line

record Store =
  Store_vertexes :: "nat \<Rightarrow> Vertex"
  Store_vertexes_next :: nat
  Store_edges :: "nat \<Rightarrow> EdgeObject"
  Store_edges_next :: nat

text \<open>\<open>new Vertex(x, y, z, i)\<close>: the store afterwards and the address of the new object.\<close>

definition Store_new_Vertex :: "Store \<Rightarrow> real \<Rightarrow> real \<Rightarrow> real \<Rightarrow> nat \<Rightarrow> Store \<times> nat" where
  "Store_new_Vertex s x y z i =
     (let a = Store_vertexes_next s
      in (s\<lparr> Store_vertexes := (Store_vertexes s)(a := new_Vertex x y z i),
              Store_vertexes_next := a + 1 \<rparr>, a))"

definition Store_Vertex_getClone :: "Store \<Rightarrow> nat \<Rightarrow> Store \<times> nat" where
  "Store_Vertex_getClone s this =
     (let v = Store_vertexes s this
      in Store_new_Vertex s (Vertex_x v) (Vertex_y v) (Vertex_z v) (Vertex_i v))"

text \<open>\<open>new Edge(vertex1, vertex2)\<close>.\<close>

definition Store_new_Edge :: "Store \<Rightarrow> nat \<Rightarrow> nat \<Rightarrow> Store \<times> nat" where
  "Store_new_Edge s vertex1 vertex2 =
     (let vector = getVectorFrom2Points (Vertex_point (Store_vertexes s vertex1))
                                        (Vertex_point (Store_vertexes s vertex2));
          a = Store_edges_next s
      in (s\<lparr> Store_edges := (Store_edges s)
                (a := \<lparr> EdgeObject_vertex1 = vertex1, EdgeObject_vertex2 = vertex2,
                        EdgeObject_vector = vector,
                        EdgeObject_line = Line (Vertex_point (Store_vertexes s vertex1)) vector \<rparr>),
              Store_edges_next := a + 1 \<rparr>, a))"

definition Store_Edge_getClone :: "Store \<Rightarrow> nat \<Rightarrow> Store \<times> nat" where
  "Store_Edge_getClone s this =
     (let (s, c1) = Store_Vertex_getClone s (EdgeObject_vertex1 (Store_edges s this));
          (s, c2) = Store_Vertex_getClone s (EdgeObject_vertex2 (Store_edges s this))
      in Store_new_Edge s c1 c2)"

text \<open>The edge object at an address, read with its vertices.\<close>

definition Store_Edge :: "Store \<Rightarrow> nat \<Rightarrow> Edge" where
  "Store_Edge s a =
     \<lparr> Edge_vertex1 = Store_vertexes s (EdgeObject_vertex1 (Store_edges s a)),
       Edge_vertex2 = Store_vertexes s (EdgeObject_vertex2 (Store_edges s a)),
       Edge_vector = EdgeObject_vector (Store_edges s a),
       Edge_line = EdgeObject_line (Store_edges s a) \<rparr>"

text \<open>
  \<open>setVertexInFrontOfCamera\<close> on the edge object at the address \<open>this\<close>: the store
  afterwards and the address of the returned edge.
\<close>

definition Store_Edge_setVertexInFrontOfCamera :: "Store \<Rightarrow> nat \<Rightarrow> Plane \<Rightarrow> (Store \<times> nat) option" where
  "Store_Edge_setVertexInFrontOfCamera s this plane =
     (case Edge_getIntersectionWithPlane (Store_Edge s this) plane of
        None \<Rightarrow>
          Some (Store_new_Edge s (EdgeObject_vertex1 (Store_edges s this))
                                 (EdgeObject_vertex2 (Store_edges s this)))
      | Some intersection \<Rightarrow>
          if isPointInFrontOf plane (Vertex_point (Store_vertexes s (EdgeObject_vertex1 (Store_edges s this)))) then
            (case Vector_changeLength (EdgeObject_vector (Store_edges s this)) (- 0.0001) of
               None \<Rightarrow> None
             | Some fixVector \<Rightarrow>
                 let intersection = Point_move intersection fixVector;
                     (s, v) = Store_new_Vertex s (Point_x intersection) (Point_y intersection) (Point_z intersection)
                                (Vertex_i (Store_vertexes s (EdgeObject_vertex2 (Store_edges s this))));
                     s = s\<lparr> Store_edges := (Store_edges s)
                               (this := (Store_edges s this)\<lparr> EdgeObject_vertex2 := v \<rparr>) \<rparr>
                 in Some (Store_new_Edge s (EdgeObject_vertex1 (Store_edges s this))
                                           (EdgeObject_vertex2 (Store_edges s this))))
          else
            (case Vector_changeLength (EdgeObject_vector (Store_edges s this)) 0.0001 of
               None \<Rightarrow> None
             | Some fixVector \<Rightarrow>
                 let intersection = Point_move intersection fixVector;
                     (s, v) = Store_new_Vertex s (Point_x intersection) (Point_y intersection) (Point_z intersection)
                                (Vertex_i (Store_vertexes s (EdgeObject_vertex1 (Store_edges s this))));
                     s = s\<lparr> Store_edges := (Store_edges s)
                               (this := (Store_edges s this)\<lparr> EdgeObject_vertex1 := v \<rparr>) \<rparr>
                 in Some (Store_new_Edge s (EdgeObject_vertex1 (Store_edges s this))
                                           (EdgeObject_vertex2 (Store_edges s this)))))"

text \<open>
  \<open>vertexes.map(vertex => vertex.getClone())\<close> and
  \<open>edges.map(edge => edge.getClone())\<close>: the store afterwards and the new array.
\<close>

fun Store_map_Vertex_getClone :: "Store \<Rightarrow> nat list \<Rightarrow> Store \<times> nat list" where
  "Store_map_Vertex_getClone s [] = (s, [])"
| "Store_map_Vertex_getClone s (vertex # vertexes) =
     (let (s, c) = Store_Vertex_getClone s vertex;
          (s, cs) = Store_map_Vertex_getClone s vertexes
      in (s, c # cs))"

fun Store_map_Edge_getClone :: "Store \<Rightarrow> nat list \<Rightarrow> Store \<times> nat list" where
  "Store_map_Edge_getClone s [] = (s, [])"
| "Store_map_Edge_getClone s (edge # edges) =
     (let (s, c) = Store_Edge_getClone s edge;
          (s, cs) = Store_map_Edge_getClone s edges
      in (s, c # cs))"

text \<open>
  The arrays of the scene, which the caller of the camera holds: the addresses of its
  vertices and of its edges.
\<close>

record Scene =
  Scene_vertexes :: "nat list"
  Scene_edges :: "nat list"

text \<open>
  \<open>importShapes\<close> of both classes, for the vertices and the edges: the store afterwards
  and the arrays \<open>importedVertexes\<close> and \<open>importedEdges\<close>.
\<close>

definition Store_importShapes :: "Store \<Rightarrow> Scene \<Rightarrow> Store \<times> nat list \<times> nat list" where
  "Store_importShapes s scene =
     (let (s, importedVertexes) = Store_map_Vertex_getClone s (Scene_vertexes scene);
          (s, importedEdges) = Store_map_Edge_getClone s (Scene_edges scene)
      in (s, importedVertexes, importedEdges))"


text \<open>
  The loop of \<open>drawEdges\<close> of the second class, for what it does to the store. An
  error ends the loop.
\<close>

fun Store_drawEdges :: "Camera \<Rightarrow> Store \<Rightarrow> nat list \<Rightarrow> (Store \<times> error option) option" where
  "Store_drawEdges this s [] = Some (s, None)"
| "Store_drawEdges this s (edge # edges) =
     (let (s, clone) = Store_Edge_getClone s edge
      in case Store_Edge_setVertexInFrontOfCamera s clone (Camera_plane this) of
           None \<Rightarrow> None
         | Some (s, convertedEdge) \<Rightarrow>
             (case Camera_drawConvertedEdge this (Store_Edge s convertedEdge) of
                Inl e \<Rightarrow> Some (s, Some e)
              | Inr calls \<Rightarrow> Store_drawEdges this s edges))"

text \<open>
  The frames of the second class: the constructor imports the scene, and every
  \<open>update\<close> draws the imported edges, with the camera as it is in that frame. An error
  ends a frame and not the sequence of frames. \<open>drawVertexes\<close> does nothing to the
  store.
\<close>

fun Store_updates :: "Camera list \<Rightarrow> nat list \<Rightarrow> Store \<Rightarrow> Store option" where
  "Store_updates [] importedEdges s = Some s"
| "Store_updates (this # cameras) importedEdges s =
     (case Store_drawEdges this s importedEdges of
        None \<Rightarrow> None
      | Some (s, e) \<Rightarrow> Store_updates cameras importedEdges s)"

definition Store_Camera_frames :: "Camera list \<Rightarrow> Scene \<Rightarrow> Store \<Rightarrow> Store option" where
  "Store_Camera_frames cameras scene s =
     (let (s, importedVertexes, importedEdges) = Store_importShapes s scene
      in Store_updates cameras importedEdges s)"

text \<open>
  The second loop of \<open>draw\<close> of the first class, for what it does to the store: it
  calls \<open>setVertexInFrontOfCamera\<close> on the imported edge itself and clones the two
  vertices of an edge that it draws. The first loop, over the vertices, does nothing to
  the store.
\<close>

fun Store_draw_first :: "Plane \<Rightarrow> Store \<Rightarrow> nat list \<Rightarrow> Store option" where
  "Store_draw_first plane s [] = Some s"
| "Store_draw_first plane s (edge # edges) =
     (case Store_Edge_setVertexInFrontOfCamera s edge plane of
        None \<Rightarrow> None
      | Some (s, returned) \<Rightarrow>
          let v1 = Store_vertexes s (EdgeObject_vertex1 (Store_edges s edge));
              v2 = Store_vertexes s (EdgeObject_vertex2 (Store_edges s edge))
          in if \<not> isPointInFrontOf plane (Point (Vertex_x v1) (Vertex_y v1) (Vertex_z v1)) \<and>
                \<not> isPointInFrontOf plane (Point (Vertex_x v2) (Vertex_y v2) (Vertex_z v2))
             then Store_draw_first plane s edges
             else
               let (s, vertex1) = Store_Vertex_getClone s (EdgeObject_vertex1 (Store_edges s edge));
                   (s, vertex2) = Store_Vertex_getClone s (EdgeObject_vertex2 (Store_edges s edge))
               in Store_draw_first plane s edges)"

text \<open>
  The frames of the first class: every \<open>update\<close> imports the scene and draws, with the
  plane of the camera as it is in that frame.
\<close>

fun Store_updates_first :: "Plane list \<Rightarrow> Scene \<Rightarrow> Store \<Rightarrow> Store option" where
  "Store_updates_first [] scene s = Some s"
| "Store_updates_first (plane # planes) scene s =
     (let (s, importedVertexes, importedEdges) = Store_importShapes s scene
      in case Store_draw_first plane s importedEdges of
           None \<Rightarrow> None
         | Some s \<Rightarrow> Store_updates_first planes scene s)"

text \<open>
  What is kept from one store to a later one: the objects at the vertex addresses below
  \<open>nv\<close> and at the edge addresses below \<open>ne\<close>, and no address is freed.
\<close>

definition Store_keeps :: "nat \<Rightarrow> nat \<Rightarrow> Store \<Rightarrow> Store \<Rightarrow> bool" where
  "Store_keeps nv ne s s' =
     ((\<forall>a < nv. Store_vertexes s' a = Store_vertexes s a) \<and>
      (\<forall>a < ne. Store_edges s' a = Store_edges s a) \<and>
      Store_vertexes_next s \<le> Store_vertexes_next s' \<and>
      Store_edges_next s \<le> Store_edges_next s')"

text \<open>
  Every edge object of the store was made by the constructor: its line has its vector.
\<close>

definition Store_inv :: "Store \<Rightarrow> bool" where
  "Store_inv s =
     (\<forall>a < Store_edges_next s.
        Line_vector (EdgeObject_line (Store_edges s a)) = EdgeObject_vector (Store_edges s a))"


text \<open>
  The objects of a scene are in the store: the addresses of its arrays are in use, and
  so are the vertex addresses of its edges.
\<close>

definition Scene_allocated :: "Scene \<Rightarrow> Store \<Rightarrow> bool" where
  "Scene_allocated scene s =
     ((\<forall>v \<in> set (Scene_vertexes scene). v < Store_vertexes_next s) \<and>
      (\<forall>e \<in> set (Scene_edges scene).
          e < Store_edges_next s \<and>
          EdgeObject_vertex1 (Store_edges s e) < Store_vertexes_next s \<and>
          EdgeObject_vertex2 (Store_edges s e) < Store_vertexes_next s))"

text \<open>
  What the caller reads from its scene: the vertices of the vertex array, the edges of
  the edge array with their vertices, vectors and lines, and for every edge the
  addresses of its two vertices.
\<close>

definition Scene_read :: "Store \<Rightarrow> Scene \<Rightarrow> Vertex list \<times> Edge list \<times> (nat \<times> nat) list" where
  "Scene_read s scene =
     (map (Store_vertexes s) (Scene_vertexes scene),
      map (Store_Edge s) (Scene_edges scene),
      map (\<lambda>e. (EdgeObject_vertex1 (Store_edges s e), EdgeObject_vertex2 (Store_edges s e)))
          (Scene_edges scene))"

text \<open>
  A store with the vertices \<open>(0,1,0)\<close> and \<open>(0,-1,0)\<close> and the edge between them, made
  by the constructors from the empty store, and the scene of these three objects.
\<close>

definition empty_Store :: Store where
  "empty_Store =
     \<lparr> Store_vertexes = (\<lambda>a. new_Vertex 0 0 0 0), Store_vertexes_next = 0,
       Store_edges = (\<lambda>a. \<lparr> EdgeObject_vertex1 = 0, EdgeObject_vertex2 = 0,
                             EdgeObject_vector = Vector 0 0 0,
                             EdgeObject_line = Line (Point 0 0 0) (Vector 0 0 0) \<rparr>),
       Store_edges_next = 0 \<rparr>"

definition example_Store :: Store where
  "example_Store =
     (let (s, a) = Store_new_Vertex empty_Store 0 1 0 0;
          (s, b) = Store_new_Vertex s 0 (- 1) 0 1;
          (s, e) = Store_new_Edge s a b
      in s)"

definition example_Scene :: Scene where
  "example_Scene = \<lparr> Scene_vertexes = [0, 1], Scene_edges = [0] \<rparr>"

section \<open>The example scenario\<close>

text \<open>
  The camera of the end-to-end scenario of the spec (section 8), which is the camera
  that main.js makes: at \<open>(0,-1,0)\<close>, not rotated, with focal length 3, a view plane
  of 3.2 by 1.8, the expanding ratio 64 and a canvas of 204.8 by 115.2, after the update
  of its normal vector, focus and plane.
\<close>

definition scenario_Camera :: Camera where
  "scenario_Camera =
     Camera_updateGeometry
       \<lparr> Camera_pos = Point 0 (- 1) 0, Camera_rx = 0, Camera_rz = 0, Camera_focalLength = 3,
         Camera_width = 3.2, Camera_height = 1.8, Camera_canW = 204.8, Camera_canH = 115.2,
         Camera_expandingRatio = 64,
         Camera_normalVector = undefined, Camera_focus = undefined, Camera_plane = undefined,
         Camera_importedVertexes = [], Camera_importedEdges = [] \<rparr>"

text \<open>
  The same camera after a turn of 90 degrees to the right (the key \<open>ArrowRight\<close>
  adds to \<open>rz\<close>) and the update that follows it.
\<close>

definition turned_Camera :: Camera where
  "turned_Camera = Camera_updateGeometry (scenario_Camera\<lparr> Camera_rz := 90 \<rparr>)"

section \<open>Auxiliary notions\<close>

text \<open>
  The change of the plane equation along a vector; for the vector of a line it is the
  denominator of \<open>getIntersectionFromLineAndPlane\<close>.
\<close>

definition Plane_slope :: "Plane \<Rightarrow> Vector \<Rightarrow> real" where
  "Plane_slope pl v = Plane_a pl * Vector_x v + Plane_b pl * Vector_y v + Plane_c pl * Vector_z v"

text \<open>The sum \<open>s\<cdot>v1 + t\<cdot>v2\<close>.\<close>

definition Vector_combination :: "real \<Rightarrow> Vector \<Rightarrow> real \<Rightarrow> Vector \<Rightarrow> Vector" where
  "Vector_combination s v1 t v2 =
     Vector (s * Vector_x v1 + t * Vector_x v2) (s * Vector_y v1 + t * Vector_y v2)
            (s * Vector_z v1 + t * Vector_z v2)"

text \<open>The vertex with the given number at a point.\<close>

definition Vertex_at :: "Point \<Rightarrow> nat \<Rightarrow> Vertex" where
  "Vertex_at p i = new_Vertex (Point_x p) (Point_y p) (Point_z p) i"

text \<open>
  The point that has the given coordinates in the frame of the camera: the first to the
  right, the second along the direction of view, the third upward, from the position of
  the camera.
\<close>

definition Camera_local :: "Camera \<Rightarrow> Vector \<Rightarrow> Point" where
  "Camera_local this w = Point_move (Camera_pos this) (Vector_rotate w (Camera_rx this) (Camera_rz this))"

text \<open>The coordinates of a point in the frame of the camera.\<close>

definition Camera_coordinates :: "Camera \<Rightarrow> Point \<Rightarrow> Vector" where
  "Camera_coordinates this p =
     getVectorFrom2Points (Camera_pos this)
       (Vertex_point (Camera_getConvertedVertex this (new_Vertex (Point_x p) (Point_y p) (Point_z p) 0)))"

text \<open>The determinant of the linear system of \<open>getSTFrom3Vectors\<close>.\<close>

definition Gram_det :: "Vector \<Rightarrow> Vector \<Rightarrow> real" where
  "Gram_det v1 v2 = getInnerProduct v1 v1 * getInnerProduct v2 v2 - getInnerProduct v1 v2 * getInnerProduct v1 v2"

text \<open>The point from which \<open>getIntersectionsEdgeOrHalfLineAndFaces\<close> measures the distance.\<close>

definition origin :: "EdgeOrHalfLine \<Rightarrow> Point" where
  "origin r = (case r of IsEdge e \<Rightarrow> Vertex_point (Edge_vertex1 e) | IsHalfLine h \<Rightarrow> HalfLine_point h)"

text \<open>The element that the loop pushes for a face, if it pushes one.\<close>

definition hit_of :: "EdgeOrHalfLine \<Rightarrow> Face \<Rightarrow> Hit option" where
  "hit_of r face =
     (case getIntersectionEdgeOrHalfLineAndFace r face of
        None \<Rightarrow> None
      | Some p \<Rightarrow> Some \<lparr> Hit_face = face, Hit_intersection = p,
                         Hit_length = getLengthFrom2Points (origin r) p \<rparr>)"

text \<open>
  The vectors, the normal vector and the plane of a face are those of its vertices, as
  the constructor derives them.
\<close>

definition Face_inv :: "Face \<Rightarrow> bool" where
  "Face_inv f =
     (Face_vector1 f = getVectorFrom2Points (Vertex_point (Face_vertex1 f)) (Vertex_point (Face_vertex2 f)) \<and>
      Face_vector2 f = getVectorFrom2Points (Vertex_point (Face_vertex1 f)) (Vertex_point (Face_vertex3 f)) \<and>
      Face_normalVector f = getCrossProduct (Face_vector1 f) (Face_vector2 f) \<and>
      Face_plane f = getPlaneFromVectorAndPoint (Face_normalVector f) (Vertex_point (Face_vertex1 f)))"

text \<open>
  The point lies inside the triangle of the face, in the words of the spec (section 4.5):
  it is \<open>vertex1 + s\<cdot>vector1 + t\<cdot>vector2\<close> with \<open>s \<ge> 0\<close>, \<open>t \<ge> 0\<close> and \<open>s + t \<le> 1\<close>.
\<close>

definition inside_triangle :: "Face \<Rightarrow> Point \<Rightarrow> bool" where
  "inside_triangle f p =
     (\<exists>s t. p = Point_move (Vertex_point (Face_vertex1 f))
                    (Vector_combination s (Face_vector1 f) t (Face_vector2 f))
            \<and> s \<ge> 0 \<and> t \<ge> 0 \<and> s + t \<le> 1)"

section \<open>Properties of Vertex\<close>

lemma Vertex_inv_new: "Vertex_inv (new_Vertex x y z i)"
  by (simp add: Vertex_inv_def new_Vertex_def)

lemma Vertex_inv_eq: "Vertex_inv v \<Longrightarrow> v = new_Vertex (Vertex_x v) (Vertex_y v) (Vertex_z v) (Vertex_i v)"
  by (simp add: Vertex_inv_def new_Vertex_def)

text \<open>
  Claim C10. Every vertex keeps its fields \<open>x\<close>, \<open>y\<close>, \<open>z\<close> equal to the coordinates of
  its point: the constructor establishes it; \<open>getClone\<close> gives a vertex with the same
  \<open>x\<close>, \<open>y\<close>, \<open>z\<close> and \<open>i\<close> for which it holds; and on a vertex for which it holds,
  \<open>move\<close> adds the vector to the fields and to the point, keeps \<open>i\<close>, keeps the
  invariant, and returns a clone that equals the moved vertex.
\<close>

theorem Vertex_invariant:
  "Vertex_inv (new_Vertex x y z i)
   \<and> Vertex_x (Vertex_getClone v) = Vertex_x v \<and> Vertex_y (Vertex_getClone v) = Vertex_y v
   \<and> Vertex_z (Vertex_getClone v) = Vertex_z v \<and> Vertex_i (Vertex_getClone v) = Vertex_i v
   \<and> Vertex_inv (Vertex_getClone v)
   \<and> (Vertex_inv v \<longrightarrow>
        (let (this, clone) = Vertex_move v vec in
           Vertex_x this = Vertex_x v + Vector_x vec
         \<and> Vertex_y this = Vertex_y v + Vector_y vec
         \<and> Vertex_z this = Vertex_z v + Vector_z vec
         \<and> Vertex_point this = Point_move (Vertex_point v) vec
         \<and> Vertex_i this = Vertex_i v
         \<and> Vertex_inv this
         \<and> clone = this))"
  by (simp add: Vertex_inv_def new_Vertex_def Vertex_getClone_def Vertex_move_def Point_move_def)

theorem Vertex_invariant_witness:
  "Vertex_inv (new_Vertex 1 2 3 7)
   \<and> Vertex_move (new_Vertex 1 2 3 7) (Vector 1 1 1) = (new_Vertex 2 3 4 7, new_Vertex 2 3 4 7)"
  using Vertex_invariant [of 1 2 3 7 "new_Vertex 1 2 3 7" "Vector 1 1 1"]
  by (simp add: Vertex_inv_def new_Vertex_def Vertex_getClone_def Vertex_move_def Point_move_def)


section \<open>Properties of the algebra\<close>

lemma Plane_value_move:
  "Plane_value pl (Point_move p v) = Plane_value pl p + Plane_slope pl v"
  by (simp add: Plane_value_def Point_move_def Plane_slope_def algebra_simps)

lemma Plane_slope_diff:
  "Plane_slope pl (getVectorFrom2Points p q) = Plane_value pl q - Plane_value pl p"
  by (simp add: Plane_value_def getVectorFrom2Points_def Plane_slope_def algebra_simps)

lemma Plane_slope_multiplication:
  "Plane_slope pl (Vector_multiplication v k) = k * Plane_slope pl v"
  by (simp add: Vector_multiplication_def Plane_slope_def algebra_simps)

lemma Vector_length_nonneg: "0 \<le> Vector_length v"
  by (simp add: Vector_length_def)

lemma Vector_length_zero_iff: "Vector_length v = 0 \<longleftrightarrow> v = Vector 0 0 0"
proof -
  have "Vector_x v * Vector_x v + Vector_y v * Vector_y v + Vector_z v * Vector_z v = 0
        \<longleftrightarrow> Vector_x v = 0 \<and> Vector_y v = 0 \<and> Vector_z v = 0"
    by (auto simp: add_nonneg_eq_0_iff)
  then show ?thesis
    by (cases v) (simp add: Vector_length_def)
qed

lemma Plane_slope_length_pos:
  assumes "Plane_slope pl v \<noteq> 0"
  shows "0 < Vector_length v"
proof -
  from assms have "v \<noteq> Vector 0 0 0" by (auto simp: Plane_slope_def)
  then have "Vector_length v \<noteq> 0" by (simp add: Vector_length_zero_iff)
  with Vector_length_nonneg [of v] show ?thesis by simp
qed

lemma getIntersectionFromLineAndPlane_Some:
  assumes "getIntersectionFromLineAndPlane l pl = Some p"
  shows "Plane_slope pl (Line_vector l) \<noteq> 0"
    and "p = Point_move (Line_point l)
               (Vector_multiplication (Line_vector l)
                  (- Plane_value pl (Line_point l) / Plane_slope pl (Line_vector l)))"
    and "Plane_value pl p = 0"
proof -
  show n0: "Plane_slope pl (Line_vector l) \<noteq> 0"
    using assms
    by (auto simp: getIntersectionFromLineAndPlane_def Plane_slope_def Let_def split: if_splits)
  show eq: "p = Point_move (Line_point l)
               (Vector_multiplication (Line_vector l)
                  (- Plane_value pl (Line_point l) / Plane_slope pl (Line_vector l)))"
    using assms
    by (auto simp: getIntersectionFromLineAndPlane_def Plane_slope_def Let_def Point_move_def
          Vector_multiplication_def mult.commute split: if_splits)
  show "Plane_value pl p = 0"
    using n0 by (simp add: eq Plane_value_move Plane_slope_multiplication)
qed

lemma getIntersectionFromLineAndPlane_None:
  "getIntersectionFromLineAndPlane l pl = None \<longleftrightarrow> Plane_slope pl (Line_vector l) = 0"
  by (simp add: getIntersectionFromLineAndPlane_def Plane_slope_def Let_def)

section \<open>Properties of Edge\<close>

lemma Edge_getIntersectionWithPlane_Some:
  assumes "Edge_getIntersectionWithPlane e pl = Some p"
  shows "getIntersectionFromLineAndPlane (Edge_line e) pl = Some p" and "Edge_isPointInRange e p"
  using assms by (auto simp: Edge_getIntersectionWithPlane_def split: option.splits if_splits)

lemma new_Edge_sel [simp]:
  "Edge_vertex1 (new_Edge v1 v2) = v1" "Edge_vertex2 (new_Edge v1 v2) = v2"
  "Edge_vector (new_Edge v1 v2) = getVectorFrom2Points (Vertex_point v1) (Vertex_point v2)"
  "Edge_line (new_Edge v1 v2) = Line (Vertex_point v1) (getVectorFrom2Points (Vertex_point v1) (Vertex_point v2))"
  by (simp_all add: new_Edge_def Let_def)

lemma new_Vertex_sel [simp]:
  "Vertex_x (new_Vertex x y z i) = x" "Vertex_y (new_Vertex x y z i) = y" "Vertex_z (new_Vertex x y z i) = z"
  "Vertex_i (new_Vertex x y z i) = i" "Vertex_point (new_Vertex x y z i) = Point x y z"
  by (simp_all add: new_Vertex_def)

lemma Vector_length_multiplication:
  "Vector_length (Vector_multiplication v c) = \<bar>c\<bar> * Vector_length v"
proof -
  have "Vector_x v * c * (Vector_x v * c) + Vector_y v * c * (Vector_y v * c) + Vector_z v * c * (Vector_z v * c)
        = c\<^sup>2 * (Vector_x v * Vector_x v + Vector_y v * Vector_y v + Vector_z v * Vector_z v)"
    by (simp add: power2_eq_square algebra_simps)
  then show ?thesis
    by (simp add: Vector_length_def Vector_multiplication_def real_sqrt_mult)
qed

lemma getLengthFrom2Points_move:
  "getLengthFrom2Points p (Point_move p v) = Vector_length v"
  by (cases v) (simp add: getLengthFrom2Points_def getVectorFrom2Points_def Point_move_def Vector_length_def)

lemma nudge_distance:
  assumes "0 < Vector_length v"
  shows "getLengthFrom2Points p (Point_move p (Vector_multiplication v (k / Vector_length v))) = \<bar>k\<bar>"
  using assms by (simp add: getLengthFrom2Points_move Vector_length_multiplication)

lemma nudge_in_front:
  assumes I: "Edge_getIntersectionWithPlane e pl = Some I"
    and pos: "0 < k * Plane_slope pl (Edge_vector e)"
  shows "Vector_changeLength (Edge_vector e) k =
           Some (Vector_multiplication (Edge_vector e) (k / Vector_length (Edge_vector e)))"
    and "isPointInFrontOf pl
           (Point_move I (Vector_multiplication (Edge_vector e) (k / Vector_length (Edge_vector e))))"
    and "getLengthFrom2Points I
           (Point_move I (Vector_multiplication (Edge_vector e) (k / Vector_length (Edge_vector e)))) = \<bar>k\<bar>"
proof -
  from I have "getIntersectionFromLineAndPlane (Edge_line e) pl = Some I"
    by (rule Edge_getIntersectionWithPlane_Some)
  then have on: "Plane_value pl I = 0"
    by (rule getIntersectionFromLineAndPlane_Some)
  from pos have "Plane_slope pl (Edge_vector e) \<noteq> 0" by auto
  then have L: "0 < Vector_length (Edge_vector e)" by (rule Plane_slope_length_pos)
  then show "Vector_changeLength (Edge_vector e) k =
           Some (Vector_multiplication (Edge_vector e) (k / Vector_length (Edge_vector e)))"
    by (simp add: Vector_changeLength_def)
  have "Plane_value pl (Point_move I (Vector_multiplication (Edge_vector e) (k / Vector_length (Edge_vector e))))
     = (k * Plane_slope pl (Edge_vector e)) / Vector_length (Edge_vector e)"
    by (simp add: Plane_value_move Plane_slope_multiplication on)
  moreover have "0 < (k * Plane_slope pl (Edge_vector e)) / Vector_length (Edge_vector e)"
    using L pos by (rule_tac divide_pos_pos)
  ultimately show "isPointInFrontOf pl
           (Point_move I (Vector_multiplication (Edge_vector e) (k / Vector_length (Edge_vector e))))"
    by (simp add: isPointInFrontOf_def)
  show "getLengthFrom2Points I
           (Point_move I (Vector_multiplication (Edge_vector e) (k / Vector_length (Edge_vector e)))) = \<bar>k\<bar>"
    using L by (rule nudge_distance)
qed

lemma Point_collapse [simp]: "Point (Point_x p) (Point_y p) (Point_z p) = p"
  by (cases p) simp


lemma box_param:
  fixes a b t :: real
  assumes "a \<noteq> b" and lo: "min a b \<le> a + t * (b - a)" and hi: "a + t * (b - a) \<le> max a b"
  shows "0 \<le> t \<and> t \<le> 1"
proof (cases "a < b")
  case True
  then have d: "0 < b - a" by simp
  from True lo have "a \<le> a + t * (b - a)" by simp
  then have "0 \<le> t * (b - a)" by linarith
  with d have t0: "0 \<le> t" by (simp add: zero_le_mult_iff)
  from True hi have "a + t * (b - a) \<le> b" by simp
  then have "t * (b - a) \<le> b - a" by linarith
  with d have "t \<le> 1" by (simp add: mult_le_cancel_right2)
  with t0 show ?thesis by simp
next
  case False
  with assms(1) have ba: "b < a" by simp
  then have d: "0 < a - b" by simp
  from ba hi have "a + t * (b - a) \<le> a" by simp
  moreover have "t * (b - a) = - (t * (a - b))" by (simp add: algebra_simps)
  ultimately have "0 \<le> t * (a - b)" by linarith
  with d have t0: "0 \<le> t" by (simp add: zero_le_mult_iff)
  from ba lo have "b \<le> a + t * (b - a)" by simp
  moreover have "t * (b - a) = - (t * (a - b))" by (simp add: algebra_simps)
  ultimately have "t * (a - b) \<le> a - b" by linarith
  with d have "t \<le> 1" by (simp add: mult_le_cancel_right2)
  with t0 show ?thesis by simp
qed

lemma convex_pos:
  fixes f1 f2 t :: real
  assumes "0 \<le> t" "t \<le> 1" "0 < f1" "0 < f2"
  shows "0 < f1 + t * (f2 - f1)"
proof -
  have eq: "f1 + t * (f2 - f1) = (1 - t) * f1 + t * f2" by (simp add: algebra_simps)
  show ?thesis
  proof (cases "t = 0")
    case True
    with assms show ?thesis by simp
  next
    case False
    with assms have "0 < t * f2" by simp
    moreover from assms have "0 \<le> (1 - t) * f1" by simp
    ultimately show ?thesis unfolding eq by simp
  qed
qed

lemma Edge_intersection_param:
  assumes inv: "Vertex_inv v1" "Vertex_inv v2"
    and I: "Edge_getIntersectionWithPlane (new_Edge v1 v2) pl = Some I"
  shows "\<exists>t. 0 \<le> t \<and> t \<le> 1 \<and>
           Plane_value pl (Vertex_point v1)
             + t * (Plane_value pl (Vertex_point v2) - Plane_value pl (Vertex_point v1)) = 0"
proof -
  let ?e = "new_Edge v1 v2"
  let ?f1 = "Plane_value pl (Vertex_point v1)"
  let ?f2 = "Plane_value pl (Vertex_point v2)"
  define t where "t = - ?f1 / (?f2 - ?f1)"
  from I have g: "getIntersectionFromLineAndPlane (Edge_line ?e) pl = Some I"
    and r: "Edge_isPointInRange ?e I"
    by (rule Edge_getIntersectionWithPlane_Some)+
  from getIntersectionFromLineAndPlane_Some(1) [OF g]
  have den: "?f2 - ?f1 \<noteq> 0" by (simp add: Plane_slope_diff)
  from getIntersectionFromLineAndPlane_Some(2) [OF g]
  have Ieq: "I = Point_move (Vertex_point v1)
                  (Vector_multiplication (getVectorFrom2Points (Vertex_point v1) (Vertex_point v2)) t)"
    by (simp add: Plane_slope_diff t_def)
  have zero: "?f1 + t * (?f2 - ?f1) = 0" using den by (simp add: t_def)
  have p1: "Vertex_point v1 = Point (Vertex_x v1) (Vertex_y v1) (Vertex_z v1)"
    and p2: "Vertex_point v2 = Point (Vertex_x v2) (Vertex_y v2) (Vertex_z v2)"
    using inv by (simp_all add: Vertex_inv_def)
  have ne: "Vertex_x v1 \<noteq> Vertex_x v2 \<or> Vertex_y v1 \<noteq> Vertex_y v2 \<or> Vertex_z v1 \<noteq> Vertex_z v2"
    using den p1 p2 by auto
  have X: "min (Vertex_x v1) (Vertex_x v2) \<le> Vertex_x v1 + t * (Vertex_x v2 - Vertex_x v1)"
          "Vertex_x v1 + t * (Vertex_x v2 - Vertex_x v1) \<le> max (Vertex_x v1) (Vertex_x v2)"
    and Y: "min (Vertex_y v1) (Vertex_y v2) \<le> Vertex_y v1 + t * (Vertex_y v2 - Vertex_y v1)"
          "Vertex_y v1 + t * (Vertex_y v2 - Vertex_y v1) \<le> max (Vertex_y v1) (Vertex_y v2)"
    and Z: "min (Vertex_z v1) (Vertex_z v2) \<le> Vertex_z v1 + t * (Vertex_z v2 - Vertex_z v1)"
          "Vertex_z v1 + t * (Vertex_z v2 - Vertex_z v1) \<le> max (Vertex_z v1) (Vertex_z v2)"
    using r unfolding Ieq p1 p2
    by (simp_all add: Edge_isPointInRange_def Point_move_def Vector_multiplication_def
          getVectorFrom2Points_def mult.commute)
  from ne have "0 \<le> t \<and> t \<le> 1"
    using box_param [OF _ X] box_param [OF _ Y] box_param [OF _ Z] by blast
  with zero show ?thesis by blast
qed

lemma Edge_in_front_no_intersection:
  assumes inv: "Vertex_inv v1" "Vertex_inv v2"
    and front: "isPointInFrontOf pl (Vertex_point v1)" "isPointInFrontOf pl (Vertex_point v2)"
  shows "Edge_getIntersectionWithPlane (new_Edge v1 v2) pl = None"
proof (cases "Edge_getIntersectionWithPlane (new_Edge v1 v2) pl")
  case None
  then show ?thesis .
next
  case (Some I)
  from Edge_intersection_param [OF inv Some] obtain t where
    "0 \<le> t" "t \<le> 1"
    "Plane_value pl (Vertex_point v1)
       + t * (Plane_value pl (Vertex_point v2) - Plane_value pl (Vertex_point v1)) = 0"
    by blast
  with convex_pos [of t "Plane_value pl (Vertex_point v1)" "Plane_value pl (Vertex_point v2)"] front
  show ?thesis by (simp add: isPointInFrontOf_def)
qed


lemma param_box:
  fixes a b t :: real
  assumes "0 \<le> t" "t \<le> 1"
  shows "min a b \<le> a + t * (b - a) \<and> a + t * (b - a) \<le> max a b"
proof (cases "a \<le> b")
  case True
  then have d: "0 \<le> b - a" by simp
  have A: "0 \<le> t * (b - a)" using assms(1) d by (rule mult_nonneg_nonneg)
  have "t * (b - a) \<le> 1 * (b - a)" using assms(2) d by (rule mult_right_mono)
  then have B: "t * (b - a) \<le> b - a" by simp
  have "a \<le> a + t * (b - a)" and "a + t * (b - a) \<le> b" using A B by linarith+
  with True show ?thesis by simp
next
  case False
  then have d: "0 \<le> a - b" by simp
  have A: "0 \<le> t * (a - b)" using assms(1) d by (rule mult_nonneg_nonneg)
  have "t * (a - b) \<le> 1 * (a - b)" using assms(2) d by (rule mult_right_mono)
  then have B: "t * (a - b) \<le> a - b" by simp
  have C: "t * (b - a) = - (t * (a - b))" by (simp add: algebra_simps)
  have "b \<le> a + t * (b - a)" and "a + t * (b - a) \<le> a" using A B C by linarith+
  with False show ?thesis by simp
qed

text \<open>
  For an edge made by the constructor from vertices whose fields agree with their
  points, the range test is met as soon as the vertices are on the two sides of the
  plane.
\<close>

lemma straddling_edge_intersects:
  assumes inv: "Vertex_inv v1" "Vertex_inv v2"
    and straddle:
      "isPointInFrontOf pl (Vertex_point v1) \<and> Plane_value pl (Vertex_point v2) < 0
       \<or> Plane_value pl (Vertex_point v1) < 0 \<and> isPointInFrontOf pl (Vertex_point v2)"
  shows "\<exists>I. Edge_getIntersectionWithPlane (new_Edge v1 v2) pl = Some I"
proof -
  let ?f1 = "Plane_value pl (Vertex_point v1)"
  let ?f2 = "Plane_value pl (Vertex_point v2)"
  let ?vec = "getVectorFrom2Points (Vertex_point v1) (Vertex_point v2)"
  define t where "t = - ?f1 / (?f2 - ?f1)"
  from straddle have s: "0 < ?f1 \<and> ?f2 < 0 \<or> ?f1 < 0 \<and> 0 < ?f2"
    by (simp add: isPointInFrontOf_def)
  then have den: "?f2 - ?f1 \<noteq> 0" by auto
  from s have t: "0 \<le> t" "t \<le> 1"
    unfolding t_def by (auto simp: field_simps)
  have slope: "Plane_slope pl ?vec = ?f2 - ?f1" by (rule Plane_slope_diff)
  have g: "getIntersectionFromLineAndPlane (Edge_line (new_Edge v1 v2)) pl
             = Some (Point_move (Vertex_point v1) (Vector_multiplication ?vec t))"
    using den slope
    by (simp add: getIntersectionFromLineAndPlane_def Let_def Plane_slope_def t_def
          Point_move_def Vector_multiplication_def mult.commute)
  have p1: "Vertex_point v1 = Point (Vertex_x v1) (Vertex_y v1) (Vertex_z v1)"
    and p2: "Vertex_point v2 = Point (Vertex_x v2) (Vertex_y v2) (Vertex_z v2)"
    using inv by (simp_all add: Vertex_inv_def)
  have "Edge_isPointInRange (new_Edge v1 v2) (Point_move (Vertex_point v1) (Vector_multiplication ?vec t))"
    unfolding p1 p2
    using param_box [OF t, of "Vertex_x v1" "Vertex_x v2"]
      param_box [OF t, of "Vertex_y v1" "Vertex_y v2"]
      param_box [OF t, of "Vertex_z v1" "Vertex_z v2"]
    by (simp add: Edge_isPointInRange_def Point_move_def Vector_multiplication_def
          getVectorFrom2Points_def mult.commute)
  with g show ?thesis
    by (simp add: Edge_getIntersectionWithPlane_def)
qed

text \<open>
  Claim C1. An edge made by the constructor straddles the plane: one vertex is in front
  of it, the other strictly behind, and \<open>getIntersectionWithPlane\<close> finds the
  intersection within the range of the edge. Then \<open>setVertexInFrontOfCamera\<close> returns
  an edge whose vertices have the numbers \<open>i\<close> of the two given vertices and are both
  in front of the plane: the vertex in front is the given one, and the other is at the
  intersection moved by the edge's vector rescaled to the length \<open>0.0001\<close>, against
  the vector when the second vertex is replaced and along it when the first is, at the
  distance \<open>0.0001\<close> from the intersection.
\<close>

theorem setVertexInFrontOfCamera_straddling:
  assumes straddle:
      "isPointInFrontOf pl (Vertex_point v1) \<and> Plane_value pl (Vertex_point v2) < 0
       \<or> Plane_value pl (Vertex_point v1) < 0 \<and> isPointInFrontOf pl (Vertex_point v2)"
    and I: "Edge_getIntersectionWithPlane (new_Edge v1 v2) pl = Some I"
  shows "\<exists>this r. Edge_setVertexInFrontOfCamera (new_Edge v1 v2) pl = Some (this, r)
      \<and> Vertex_i (Edge_vertex1 r) = Vertex_i v1 \<and> Vertex_i (Edge_vertex2 r) = Vertex_i v2
      \<and> isPointInFrontOf pl (Vertex_point (Edge_vertex1 r))
      \<and> isPointInFrontOf pl (Vertex_point (Edge_vertex2 r))
      \<and> (isPointInFrontOf pl (Vertex_point v1) \<longrightarrow>
            Edge_vertex1 r = v1 \<and>
            Vertex_point (Edge_vertex2 r) =
              Point_move I (Vector_multiplication (Edge_vector (new_Edge v1 v2))
                              (- 0.0001 / Vector_length (Edge_vector (new_Edge v1 v2)))) \<and>
            getLengthFrom2Points I (Vertex_point (Edge_vertex2 r)) = 0.0001)
      \<and> (\<not> isPointInFrontOf pl (Vertex_point v1) \<longrightarrow>
            Edge_vertex2 r = v2 \<and>
            Vertex_point (Edge_vertex1 r) =
              Point_move I (Vector_multiplication (Edge_vector (new_Edge v1 v2))
                              (0.0001 / Vector_length (Edge_vector (new_Edge v1 v2)))) \<and>
            getLengthFrom2Points I (Vertex_point (Edge_vertex1 r)) = 0.0001)"
proof (cases "isPointInFrontOf pl (Vertex_point v1)")
  case True
  with straddle have "Plane_value pl (Vertex_point v2) < 0" and "0 < Plane_value pl (Vertex_point v1)"
    by (auto simp: isPointInFrontOf_def)
  then have "0 < (- 0.0001) * Plane_slope pl (Edge_vector (new_Edge v1 v2))"
    by (simp add: Plane_slope_diff)
  from nudge_in_front [OF I this] True
  show ?thesis
    by (simp add: Edge_setVertexInFrontOfCamera_def I Let_def)
next
  case False
  with straddle have "Plane_value pl (Vertex_point v1) < 0" and f2: "isPointInFrontOf pl (Vertex_point v2)"
    by (auto simp: isPointInFrontOf_def)
  then have "0 < 0.0001 * Plane_slope pl (Edge_vector (new_Edge v1 v2))"
    by (simp add: Plane_slope_diff isPointInFrontOf_def)
  from nudge_in_front [OF I this] False f2
  show ?thesis
    by (simp add: Edge_setVertexInFrontOfCamera_def I Let_def)
qed

theorem setVertexInFrontOfCamera_straddling_witness:
  "isPointInFrontOf (Plane 0 1 0 0) (Vertex_point (new_Vertex 0 1 0 1))
   \<and> Plane_value (Plane 0 1 0 0) (Vertex_point (new_Vertex 0 (- 1) 0 2)) < 0
   \<and> Edge_getIntersectionWithPlane (new_Edge (new_Vertex 0 1 0 1) (new_Vertex 0 (- 1) 0 2)) (Plane 0 1 0 0)
       = Some (Point 0 0 0)
   \<and> (\<exists>this r. Edge_setVertexInFrontOfCamera
                   (new_Edge (new_Vertex 0 1 0 1) (new_Vertex 0 (- 1) 0 2)) (Plane 0 1 0 0) = Some (this, r)
         \<and> Vertex_i (Edge_vertex1 r) = 1 \<and> Vertex_i (Edge_vertex2 r) = 2
         \<and> isPointInFrontOf (Plane 0 1 0 0) (Vertex_point (Edge_vertex1 r))
         \<and> isPointInFrontOf (Plane 0 1 0 0) (Vertex_point (Edge_vertex2 r))
         \<and> Edge_vertex1 r = new_Vertex 0 1 0 1
         \<and> Vertex_point (Edge_vertex2 r) = Point 0 (1 / 10000) 0)"
proof -
  let ?pl = "Plane 0 1 0 0"
  let ?v1 = "new_Vertex 0 1 0 1"
  let ?v2 = "new_Vertex 0 (- 1) 0 2"
  have front: "isPointInFrontOf ?pl (Vertex_point ?v1)"
    and behind: "Plane_value ?pl (Vertex_point ?v2) < 0"
    by (simp_all add: isPointInFrontOf_def Plane_value_def)
  have I: "Edge_getIntersectionWithPlane (new_Edge ?v1 ?v2) ?pl = Some (Point 0 0 0)"
    by (simp add: Edge_getIntersectionWithPlane_def getIntersectionFromLineAndPlane_def
          getVectorFrom2Points_def Plane_value_def Edge_isPointInRange_def)
  have len: "Vector_length (Edge_vector (new_Edge ?v1 ?v2)) = 2"
    by (simp add: Vector_length_def getVectorFrom2Points_def)
  from front behind have "isPointInFrontOf ?pl (Vertex_point ?v1) \<and> Plane_value ?pl (Vertex_point ?v2) < 0
       \<or> Plane_value ?pl (Vertex_point ?v1) < 0 \<and> isPointInFrontOf ?pl (Vertex_point ?v2)"
    by simp
  from setVertexInFrontOfCamera_straddling [OF this I] obtain this r where
    "Edge_setVertexInFrontOfCamera (new_Edge ?v1 ?v2) ?pl = Some (this, r)"
    "Vertex_i (Edge_vertex1 r) = Vertex_i ?v1" "Vertex_i (Edge_vertex2 r) = Vertex_i ?v2"
    "isPointInFrontOf ?pl (Vertex_point (Edge_vertex1 r))"
    "isPointInFrontOf ?pl (Vertex_point (Edge_vertex2 r))"
    "Edge_vertex1 r = ?v1"
    "Vertex_point (Edge_vertex2 r) =
       Point_move (Point 0 0 0) (Vector_multiplication (Edge_vector (new_Edge ?v1 ?v2))
                              (- 0.0001 / Vector_length (Edge_vector (new_Edge ?v1 ?v2))))"
    using front by blast
  moreover have "Point_move (Point 0 0 0) (Vector_multiplication (Edge_vector (new_Edge ?v1 ?v2))
                              (- 0.0001 / Vector_length (Edge_vector (new_Edge ?v1 ?v2))))
        = Point 0 (1 / 10000) 0"
    unfolding len by (simp add: Point_move_def Vector_multiplication_def getVectorFrom2Points_def)
  ultimately show ?thesis using front behind I by auto
qed


lemma setVertexInFrontOfCamera_no_intersection:
  assumes "Edge_getIntersectionWithPlane e pl = None"
  shows "Edge_setVertexInFrontOfCamera e pl = Some (e, new_Edge (Edge_vertex1 e) (Edge_vertex2 e))"
  using assms by (simp add: Edge_setVertexInFrontOfCamera_def)

text \<open>
  Claim C7. When the line of an edge has no intersection with the plane (it is parallel
  to the plane), or the intersection fails the range test of the edge,
  \<open>setVertexInFrontOfCamera\<close> leaves the edge as it is and returns an edge made from the
  same two vertices. In particular, for an edge made by the constructor from two vertices
  in front of the plane, it returns an equal edge.
\<close>

theorem setVertexInFrontOfCamera_unchanged:
  "((getIntersectionFromLineAndPlane (Edge_line e) pl = None
      \<or> (\<exists>p. getIntersectionFromLineAndPlane (Edge_line e) pl = Some p \<and> \<not> Edge_isPointInRange e p))
     \<longrightarrow> Edge_setVertexInFrontOfCamera e pl = Some (e, new_Edge (Edge_vertex1 e) (Edge_vertex2 e))
         \<and> Edge_vertex1 (new_Edge (Edge_vertex1 e) (Edge_vertex2 e)) = Edge_vertex1 e
         \<and> Edge_vertex2 (new_Edge (Edge_vertex1 e) (Edge_vertex2 e)) = Edge_vertex2 e)
   \<and> (Vertex_inv v1 \<and> Vertex_inv v2
        \<and> isPointInFrontOf pl' (Vertex_point v1) \<and> isPointInFrontOf pl' (Vertex_point v2)
     \<longrightarrow> Edge_setVertexInFrontOfCamera (new_Edge v1 v2) pl' = Some (new_Edge v1 v2, new_Edge v1 v2))"
proof (intro conjI impI)
  assume "getIntersectionFromLineAndPlane (Edge_line e) pl = None
      \<or> (\<exists>p. getIntersectionFromLineAndPlane (Edge_line e) pl = Some p \<and> \<not> Edge_isPointInRange e p)"
  then have "Edge_getIntersectionWithPlane e pl = None"
    by (auto simp: Edge_getIntersectionWithPlane_def)
  then show "Edge_setVertexInFrontOfCamera e pl = Some (e, new_Edge (Edge_vertex1 e) (Edge_vertex2 e))"
    by (rule setVertexInFrontOfCamera_no_intersection)
next
  assume "Vertex_inv v1 \<and> Vertex_inv v2
        \<and> isPointInFrontOf pl' (Vertex_point v1) \<and> isPointInFrontOf pl' (Vertex_point v2)"
  then have "Edge_getIntersectionWithPlane (new_Edge v1 v2) pl' = None"
    by (simp add: Edge_in_front_no_intersection)
  then show "Edge_setVertexInFrontOfCamera (new_Edge v1 v2) pl' = Some (new_Edge v1 v2, new_Edge v1 v2)"
    using setVertexInFrontOfCamera_no_intersection [of "new_Edge v1 v2" pl'] by simp
qed simp_all

theorem setVertexInFrontOfCamera_unchanged_witness:
  "getIntersectionFromLineAndPlane (Edge_line (new_Edge (new_Vertex 0 1 0 5) (new_Vertex 1 1 0 6))) (Plane 0 1 0 0) = None
   \<and> Edge_setVertexInFrontOfCamera (new_Edge (new_Vertex 0 1 0 5) (new_Vertex 1 1 0 6)) (Plane 0 1 0 0)
       = Some (new_Edge (new_Vertex 0 1 0 5) (new_Vertex 1 1 0 6), new_Edge (new_Vertex 0 1 0 5) (new_Vertex 1 1 0 6))
   \<and> getIntersectionFromLineAndPlane (Edge_line (new_Edge (new_Vertex 0 (- 1) 0 5) (new_Vertex 0 (- 2) 0 6))) (Plane 0 1 0 0)
       = Some (Point 0 0 0)
   \<and> \<not> Edge_isPointInRange (new_Edge (new_Vertex 0 (- 1) 0 5) (new_Vertex 0 (- 2) 0 6)) (Point 0 0 0)
   \<and> Edge_setVertexInFrontOfCamera (new_Edge (new_Vertex 0 (- 1) 0 5) (new_Vertex 0 (- 2) 0 6)) (Plane 0 1 0 0)
       = Some (new_Edge (new_Vertex 0 (- 1) 0 5) (new_Vertex 0 (- 2) 0 6),
               new_Edge (new_Vertex 0 (- 1) 0 5) (new_Vertex 0 (- 2) 0 6))
   \<and> Vertex_inv (new_Vertex 0 1 0 5) \<and> Vertex_inv (new_Vertex 0 2 0 6)
   \<and> isPointInFrontOf (Plane 0 1 0 0) (Vertex_point (new_Vertex 0 1 0 5))
   \<and> isPointInFrontOf (Plane 0 1 0 0) (Vertex_point (new_Vertex 0 2 0 6))
   \<and> Edge_setVertexInFrontOfCamera (new_Edge (new_Vertex 0 1 0 5) (new_Vertex 0 2 0 6)) (Plane 0 1 0 0)
       = Some (new_Edge (new_Vertex 0 1 0 5) (new_Vertex 0 2 0 6), new_Edge (new_Vertex 0 1 0 5) (new_Vertex 0 2 0 6))"
proof -
  let ?pl = "Plane 0 1 0 0"
  let ?a = "new_Vertex 0 1 0 5"
  let ?b = "new_Vertex 1 1 0 6"
  let ?c = "new_Vertex 0 2 0 6"
  let ?e = "new_Edge (new_Vertex 0 (- 1) 0 5) (new_Vertex 0 (- 2) 0 6)"
  have par: "getIntersectionFromLineAndPlane (Edge_line (new_Edge ?a ?b)) ?pl = None"
    by (simp add: getIntersectionFromLineAndPlane_def getVectorFrom2Points_def)
  have out: "getIntersectionFromLineAndPlane (Edge_line ?e) ?pl = Some (Point 0 0 0)"
      "\<not> Edge_isPointInRange ?e (Point 0 0 0)"
    by (simp_all add: getIntersectionFromLineAndPlane_def getVectorFrom2Points_def Plane_value_def
          Edge_isPointInRange_def)
  have front: "Vertex_inv ?a" "Vertex_inv ?c"
      "isPointInFrontOf ?pl (Vertex_point ?a)" "isPointInFrontOf ?pl (Vertex_point ?c)"
    by (simp_all add: Vertex_inv_new isPointInFrontOf_def Plane_value_def)
  from setVertexInFrontOfCamera_unchanged [of "new_Edge ?a ?b" ?pl ?a ?c ?pl] par front
  have 1: "Edge_setVertexInFrontOfCamera (new_Edge ?a ?b) ?pl = Some (new_Edge ?a ?b, new_Edge ?a ?b)"
    and 3: "Edge_setVertexInFrontOfCamera (new_Edge ?a ?c) ?pl = Some (new_Edge ?a ?c, new_Edge ?a ?c)"
    by simp_all
  from out have "\<exists>p. getIntersectionFromLineAndPlane (Edge_line ?e) ?pl = Some p \<and> \<not> Edge_isPointInRange ?e p"
    by blast
  with setVertexInFrontOfCamera_unchanged [of ?e ?pl]
  have 2: "Edge_setVertexInFrontOfCamera ?e ?pl = Some (?e, ?e)"
    by simp
  from par 1 out 2 front 3 show ?thesis by blast
qed


lemma Edge_inv_new:
  assumes "Vertex_inv v1" "Vertex_inv v2"
  shows "Edge_inv (new_Edge v1 v2)"
  using assms by (simp add: Edge_inv_def Vertex_inv_def getVectorFrom2Points_def)

text \<open>
  Claim C4, as stated, fails: the edge on which \<open>setVertexInFrontOfCamera\<close> is called
  gets a new second vertex and keeps its vector. For the edge from \<open>(0,1,0)\<close> to
  \<open>(0,-1,0)\<close> and the plane \<open>y = 0\<close>, the second vertex becomes \<open>(0,0.0001,0)\<close>,
  the vector stays \<open>(0,-2,0)\<close>, and the difference of the vertices is
  \<open>(0,-0.9999,0)\<close>. The rescaled vector \<open>(0,0.0001,0)\<close> that \<open>changeLength\<close>
  makes of the stored one is not the difference either.
\<close>

theorem Edge_vector_counterexample:
  "map_option fst (Edge_setVertexInFrontOfCamera
                     (new_Edge (new_Vertex 0 1 0 1) (new_Vertex 0 (- 1) 0 2)) (Plane 0 1 0 0))
     = Some \<lparr> Edge_vertex1 = new_Vertex 0 1 0 1, Edge_vertex2 = new_Vertex 0 (1 / 10000) 0 2,
              Edge_vector = Vector 0 (- 2) 0, Edge_line = Line (Point 0 1 0) (Vector 0 (- 2) 0) \<rparr>
   \<and> \<not> Edge_inv \<lparr> Edge_vertex1 = new_Vertex 0 1 0 1, Edge_vertex2 = new_Vertex 0 (1 / 10000) 0 2,
                   Edge_vector = Vector 0 (- 2) 0, Edge_line = Line (Point 0 1 0) (Vector 0 (- 2) 0) \<rparr>
   \<and> Vector_changeLength (Vector 0 (- 2) 0) (- 0.0001) = Some (Vector 0 (1 / 10000) 0)
   \<and> \<not> Edge_inv \<lparr> Edge_vertex1 = new_Vertex 0 1 0 1, Edge_vertex2 = new_Vertex 0 (1 / 10000) 0 2,
                   Edge_vector = Vector 0 (1 / 10000) 0, Edge_line = Line (Point 0 1 0) (Vector 0 (1 / 10000) 0) \<rparr>"
  by (simp add: Edge_setVertexInFrontOfCamera_def Edge_getIntersectionWithPlane_def
        getIntersectionFromLineAndPlane_def Edge_isPointInRange_def isPointInFrontOf_def
        Plane_value_def getVectorFrom2Points_def Vector_changeLength_def Vector_length_def
        Vector_multiplication_def Point_move_def Edge_inv_def new_Edge_def new_Vertex_def Let_def)

text \<open>
  Claim C4, amended. The direction vector equals the second vertex minus the first in
  every edge that the constructor makes, that \<open>getClone\<close> makes, and that
  \<open>setVertexInFrontOfCamera\<close> returns, the vertices being such that their fields agree
  with their points.
\<close>

theorem Edge_vector_invariant:
  "(Vertex_inv v1 \<and> Vertex_inv v2 \<longrightarrow> Edge_inv (new_Edge v1 v2))
   \<and> Edge_inv (Edge_getClone e)
   \<and> (Vertex_inv (Edge_vertex1 e') \<and> Vertex_inv (Edge_vertex2 e')
        \<and> Edge_setVertexInFrontOfCamera e' pl = Some (this, r) \<longrightarrow> Edge_inv r)"
proof (intro conjI impI)
  assume "Vertex_inv v1 \<and> Vertex_inv v2"
  then show "Edge_inv (new_Edge v1 v2)" by (simp add: Edge_inv_new)
next
  show "Edge_inv (Edge_getClone e)"
    by (simp add: Edge_getClone_def Edge_inv_new Vertex_getClone_def Vertex_inv_new)
next
  assume a: "Vertex_inv (Edge_vertex1 e') \<and> Vertex_inv (Edge_vertex2 e')
        \<and> Edge_setVertexInFrontOfCamera e' pl = Some (this, r)"
  then have "r = new_Edge (Edge_vertex1 this) (Edge_vertex2 this)"
    and "Vertex_inv (Edge_vertex1 this)" and "Vertex_inv (Edge_vertex2 this)"
    by (auto simp: Edge_setVertexInFrontOfCamera_def Let_def Vertex_inv_new
          split: option.splits if_splits)
  then show "Edge_inv r" by (simp add: Edge_inv_new)
qed

theorem Edge_vector_invariant_witness:
  "Vertex_inv (new_Vertex 0 1 0 1) \<and> Vertex_inv (new_Vertex 0 (- 1) 0 2)
   \<and> Edge_inv (new_Edge (new_Vertex 0 1 0 1) (new_Vertex 0 (- 1) 0 2))
   \<and> Edge_inv (Edge_getClone (new_Edge (new_Vertex 0 1 0 1) (new_Vertex 0 (- 1) 0 2)))
   \<and> map_option snd (Edge_setVertexInFrontOfCamera
                        (new_Edge (new_Vertex 0 1 0 1) (new_Vertex 0 (- 1) 0 2)) (Plane 0 1 0 0))
       = Some (new_Edge (new_Vertex 0 1 0 1) (new_Vertex 0 (1 / 10000) 0 2))
   \<and> Edge_inv (new_Edge (new_Vertex 0 1 0 1) (new_Vertex 0 (1 / 10000) 0 2))"
proof -
  let ?v1 = "new_Vertex 0 1 0 1"
  let ?v2 = "new_Vertex 0 (- 1) 0 2"
  let ?recv = "\<lparr> Edge_vertex1 = ?v1, Edge_vertex2 = new_Vertex 0 (1 / 10000) 0 2,
                 Edge_vector = Vector 0 (- 2) 0, Edge_line = Line (Point 0 1 0) (Vector 0 (- 2) 0) \<rparr>"
  let ?r = "new_Edge ?v1 (new_Vertex 0 (1 / 10000) 0 2)"
  have run: "Edge_setVertexInFrontOfCamera (new_Edge ?v1 ?v2) (Plane 0 1 0 0) = Some (?recv, ?r)"
    by (simp add: Edge_setVertexInFrontOfCamera_def Edge_getIntersectionWithPlane_def
          getIntersectionFromLineAndPlane_def Edge_isPointInRange_def isPointInFrontOf_def
          Plane_value_def getVectorFrom2Points_def Vector_changeLength_def Vector_length_def
          Vector_multiplication_def Point_move_def new_Edge_def new_Vertex_def Let_def)
  have inv: "Vertex_inv ?v1" "Vertex_inv ?v2" by (simp_all add: Vertex_inv_new)
  from Edge_vector_invariant [of ?v1 ?v2 "new_Edge ?v1 ?v2" "new_Edge ?v1 ?v2" "Plane 0 1 0 0" ?recv ?r]
    inv run
  have "Edge_inv (new_Edge ?v1 ?v2)" "Edge_inv (Edge_getClone (new_Edge ?v1 ?v2))" "Edge_inv ?r"
    by simp_all
  with inv run show ?thesis by simp
qed


section \<open>Properties of Face and of the intersections\<close>

lemma Gram_det_cross:
  "Gram_det v1 v2 = getInnerProduct (getCrossProduct v1 v2) (getCrossProduct v1 v2)"
  by (simp add: Gram_det_def getInnerProduct_def getCrossProduct_def algebra_simps)

lemma Gram_det_zero_iff: "Gram_det v1 v2 = 0 \<longleftrightarrow> getCrossProduct v1 v2 = Vector 0 0 0"
proof -
  have "getInnerProduct n n = 0 \<longleftrightarrow> n = Vector 0 0 0" for n
    by (cases n) (auto simp: getInnerProduct_def add_nonneg_eq_0_iff)
  then show ?thesis by (simp add: Gram_det_cross)
qed

lemma getSTFrom3Vectors_combination:
  assumes "getCrossProduct v1 v2 \<noteq> Vector 0 0 0"
  shows "getSTFrom3Vectors (Vector_combination s v1 t v2) v1 v2 = Some (s, t)"
proof -
  let ?a = "getInnerProduct v1 v1" and ?b = "getInnerProduct v1 v2" and ?c = "getInnerProduct v2 v2"
  have d: "?a * ?c - ?b * ?b \<noteq> 0"
    using assms Gram_det_zero_iff [of v1 v2] by (simp add: Gram_det_def)
  have e: "getInnerProduct (Vector_combination s v1 t v2) v1 = s * ?a + t * ?b"
    and f: "getInnerProduct (Vector_combination s v1 t v2) v2 = s * ?b + t * ?c"
    by (simp_all add: getInnerProduct_def Vector_combination_def algebra_simps)
  have "(s * ?a + t * ?b) * ?c - (s * ?b + t * ?c) * ?b = s * (?a * ?c - ?b * ?b)"
    and "?a * (s * ?b + t * ?c) - ?b * (s * ?a + t * ?b) = t * (?a * ?c - ?b * ?b)"
    by (simp_all add: algebra_simps)
  with d show ?thesis
    unfolding getSTFrom3Vectors_def Let_def e f by simp
qed

lemma Gram_expansion:
  fixes q v1 v2
  defines "n \<equiv> getCrossProduct v1 v2"
  defines "S \<equiv> getInnerProduct q v1 * getInnerProduct v2 v2 - getInnerProduct q v2 * getInnerProduct v1 v2"
  defines "T \<equiv> getInnerProduct v1 v1 * getInnerProduct q v2 - getInnerProduct v1 v2 * getInnerProduct q v1"
  shows "Gram_det v1 v2 * Vector_x q = getInnerProduct q n * Vector_x n + S * Vector_x v1 + T * Vector_x v2"
    and "Gram_det v1 v2 * Vector_y q = getInnerProduct q n * Vector_y n + S * Vector_y v1 + T * Vector_y v2"
    and "Gram_det v1 v2 * Vector_z q = getInnerProduct q n * Vector_z n + S * Vector_z v1 + T * Vector_z v2"
  unfolding n_def S_def T_def Gram_det_def getInnerProduct_def getCrossProduct_def
  by (simp_all add: algebra_simps)


lemma divide_combination:
  fixes d x S T a b :: real
  assumes "d \<noteq> 0" and "d * x = S * a + T * b"
  shows "x = S / d * a + T / d * b"
proof -
  have "x = (d * x) / d" using assms(1) by simp
  also have "\<dots> = (S * a + T * b) / d" by (simp only: assms(2))
  also have "\<dots> = S / d * a + T / d * b" by (simp add: add_divide_distrib)
  finally show ?thesis .
qed

lemma getSTFrom3Vectors_Some:
  assumes st: "getSTFrom3Vectors q v1 v2 = Some (s, t)"
    and plane: "getInnerProduct q (getCrossProduct v1 v2) = 0"
  shows "q = Vector_combination s v1 t v2"
proof -
  let ?d = "Gram_det v1 v2"
  let ?S = "getInnerProduct q v1 * getInnerProduct v2 v2 - getInnerProduct q v2 * getInnerProduct v1 v2"
  let ?T = "getInnerProduct v1 v1 * getInnerProduct q v2 - getInnerProduct v1 v2 * getInnerProduct q v1"
  from st have d: "?d \<noteq> 0" and s: "s = ?S / ?d" and t: "t = ?T / ?d"
    by (auto simp: getSTFrom3Vectors_def Let_def Gram_det_def split: if_splits)
  have x: "?d * Vector_x q = ?S * Vector_x v1 + ?T * Vector_x v2"
    and y: "?d * Vector_y q = ?S * Vector_y v1 + ?T * Vector_y v2"
    and z: "?d * Vector_z q = ?S * Vector_z v1 + ?T * Vector_z v2"
    using Gram_expansion [of v1 v2 q] plane by simp_all
  have "Vector_x q = s * Vector_x v1 + t * Vector_x v2"
    unfolding s t using d x by (rule divide_combination)
  moreover have "Vector_y q = s * Vector_y v1 + t * Vector_y v2"
    unfolding s t using d y by (rule divide_combination)
  moreover have "Vector_z q = s * Vector_z v1 + t * Vector_z v2"
    unfolding s t using d z by (rule divide_combination)
  ultimately show ?thesis
    by (cases q) (simp add: Vector_combination_def)
qed

lemma Plane_value_getPlane:
  "Plane_value (getPlaneFromVectorAndPoint n p0) p = getInnerProduct (getVectorFrom2Points p0 p) n"
  by (simp add: Plane_value_def getPlaneFromVectorAndPoint_def getInnerProduct_def
        getVectorFrom2Points_def algebra_simps)

lemma getVectorFrom2Points_move:
  "getVectorFrom2Points p0 p = v \<longleftrightarrow> p = Point_move p0 v"
  by (cases p; cases p0; cases v) (auto simp: getVectorFrom2Points_def Point_move_def)

lemma Face_isPointOnFace_iff:
  assumes nondeg: "getCrossProduct (Face_vector1 f) (Face_vector2 f) \<noteq> Vector 0 0 0"
    and plane: "getInnerProduct (getVectorFrom2Points (Vertex_point (Face_vertex1 f)) p)
                  (getCrossProduct (Face_vector1 f) (Face_vector2 f)) = 0"
  shows "Face_isPointOnFace f p \<longleftrightarrow>
         (\<exists>s t. p = Point_move (Vertex_point (Face_vertex1 f))
                      (Vector_combination s (Face_vector1 f) t (Face_vector2 f))
                \<and> s \<ge> 0 \<and> t \<ge> 0 \<and> s + t \<le> 1)"
proof
  assume "Face_isPointOnFace f p"
  then obtain s t where
    st: "getSTFrom3Vectors (getVectorFrom2Points (Vertex_point (Face_vertex1 f)) p)
           (Face_vector1 f) (Face_vector2 f) = Some (s, t)"
    and c: "s \<ge> 0" "t \<ge> 0" "s + t \<le> 1"
    by (auto simp: Face_isPointOnFace_def split: option.splits)
  from getSTFrom3Vectors_Some [OF st plane]
  have "p = Point_move (Vertex_point (Face_vertex1 f))
              (Vector_combination s (Face_vector1 f) t (Face_vector2 f))"
    by (simp add: getVectorFrom2Points_move)
  with c show "\<exists>s t. p = Point_move (Vertex_point (Face_vertex1 f))
                      (Vector_combination s (Face_vector1 f) t (Face_vector2 f))
                \<and> s \<ge> 0 \<and> t \<ge> 0 \<and> s + t \<le> 1"
    by blast
next
  assume "\<exists>s t. p = Point_move (Vertex_point (Face_vertex1 f))
                      (Vector_combination s (Face_vector1 f) t (Face_vector2 f))
                \<and> s \<ge> 0 \<and> t \<ge> 0 \<and> s + t \<le> 1"
  then obtain s t where
    p: "getVectorFrom2Points (Vertex_point (Face_vertex1 f)) p
          = Vector_combination s (Face_vector1 f) t (Face_vector2 f)"
    and c: "s \<ge> 0" "t \<ge> 0" "s + t \<le> 1"
    by (auto simp: getVectorFrom2Points_move)
  show "Face_isPointOnFace f p"
    unfolding Face_isPointOnFace_def p getSTFrom3Vectors_combination [OF nondeg]
    using c by simp
qed


lemma getIntersectionWithPlane_on_plane:
  assumes "getIntersectionWithPlane r pl = Some p"
  shows "Plane_value pl p = 0"
proof (cases r)
  case (IsEdge e)
  with assms have "getIntersectionFromLineAndPlane (Edge_line e) pl = Some p"
    by (simp add: Edge_getIntersectionWithPlane_Some)
  then show ?thesis by (rule getIntersectionFromLineAndPlane_Some)
next
  case (IsHalfLine h)
  with assms have "getIntersectionFromLineAndPlane (HalfLine_line h) pl = Some p"
    by (auto simp: HalfLine_getIntersectionWithPlane_def split: option.splits if_splits)
  then show ?thesis by (rule getIntersectionFromLineAndPlane_Some)
qed

lemma new_Face_sel [simp]:
  "Face_vertex1 (new_Face v1 v2 v3 c ro) = v1"
  "Face_vector1 (new_Face v1 v2 v3 c ro) = getVectorFrom2Points (Vertex_point v1) (Vertex_point v2)"
  "Face_vector2 (new_Face v1 v2 v3 c ro) = getVectorFrom2Points (Vertex_point v1) (Vertex_point v3)"
  "Face_normalVector (new_Face v1 v2 v3 c ro) =
     getCrossProduct (getVectorFrom2Points (Vertex_point v1) (Vertex_point v2))
                     (getVectorFrom2Points (Vertex_point v1) (Vertex_point v3))"
  "Face_plane (new_Face v1 v2 v3 c ro) =
     getPlaneFromVectorAndPoint
       (getCrossProduct (getVectorFrom2Points (Vertex_point v1) (Vertex_point v2))
                        (getVectorFrom2Points (Vertex_point v1) (Vertex_point v3)))
       (Vertex_point v1)"
  by (simp_all add: new_Face_def Let_def)

lemma Face_inv_new: "Face_inv (new_Face v1 v2 v3 c ro)"
  by (simp add: Face_inv_def new_Face_def Let_def)

lemma getIntersectionWithPlane_slope:
  assumes "getIntersectionWithPlane r pl = Some p"
  shows "Vector (Plane_a pl) (Plane_b pl) (Plane_c pl) \<noteq> Vector 0 0 0"
proof -
  have "\<exists>l. getIntersectionFromLineAndPlane l pl = Some p"
  proof (cases r)
    case (IsEdge e)
    with assms show ?thesis by (auto dest: Edge_getIntersectionWithPlane_Some)
  next
    case (IsHalfLine h)
    with assms show ?thesis
      by (auto simp: HalfLine_getIntersectionWithPlane_def split: option.splits if_splits)
  qed
  then obtain l where "Plane_slope pl (Line_vector l) \<noteq> 0"
    by (auto dest: getIntersectionFromLineAndPlane_Some(1))
  then show ?thesis by (auto simp: Plane_slope_def)
qed

lemma hit_inside_triangle:
  assumes inv: "Face_inv f" and p: "getIntersectionWithPlane r (Face_plane f) = Some p"
  shows "Face_isPointOnFace f p \<longleftrightarrow> inside_triangle f p"
proof -
  have pl: "Face_plane f = getPlaneFromVectorAndPoint (getCrossProduct (Face_vector1 f) (Face_vector2 f))
                             (Vertex_point (Face_vertex1 f))"
    using inv by (simp add: Face_inv_def)
  from getIntersectionWithPlane_slope [OF p]
  have n: "getCrossProduct (Face_vector1 f) (Face_vector2 f) \<noteq> Vector 0 0 0"
    unfolding pl by (cases "getCrossProduct (Face_vector1 f) (Face_vector2 f)")
      (simp add: getPlaneFromVectorAndPoint_def)
  from getIntersectionWithPlane_on_plane [OF p]
  have "getInnerProduct (getVectorFrom2Points (Vertex_point (Face_vertex1 f)) p)
          (getCrossProduct (Face_vector1 f) (Face_vector2 f)) = 0"
    unfolding pl by (simp add: Plane_value_getPlane)
  with n show ?thesis
    unfolding inside_triangle_def by (rule Face_isPointOnFace_iff)
qed

text \<open>
  Claim C8. For a face whose vectors, normal vector and plane are those of its vertices,
  the vertices not being on one line, and a point on the plane of the face,
  \<open>isPointOnFace\<close> holds exactly when the point lies inside the triangle: it is
  \<open>vertex1 + s\<cdot>vector1 + t\<cdot>vector2\<close> for some \<open>s \<ge> 0\<close> and \<open>t \<ge> 0\<close> with
  \<open>s + t \<le> 1\<close>. \<open>getIntersectionEdgeOrHalfLineAndFace\<close> returns \<open>null\<close> when the
  edge or half-line has no intersection with the plane of the face within its range, and
  when the intersection is not inside the triangle; otherwise it returns the
  intersection.
\<close>

theorem face_intersection_barycentric:
  assumes inv: "Face_inv f"
    and nondeg: "Face_normalVector f \<noteq> Vector 0 0 0"
  shows "(Plane_value (Face_plane f) p = 0 \<longrightarrow> Face_isPointOnFace f p = inside_triangle f p)
       \<and> (getIntersectionWithPlane r (Face_plane f) = None \<longrightarrow>
            getIntersectionEdgeOrHalfLineAndFace r f = None)
       \<and> (getIntersectionWithPlane r (Face_plane f) = Some q \<longrightarrow>
            getIntersectionEdgeOrHalfLineAndFace r f = (if inside_triangle f q then Some q else None))"
proof -
  have n: "getCrossProduct (Face_vector1 f) (Face_vector2 f) \<noteq> Vector 0 0 0"
    using inv nondeg by (simp add: Face_inv_def)
  have pl: "Face_plane f = getPlaneFromVectorAndPoint (getCrossProduct (Face_vector1 f) (Face_vector2 f))
                             (Vertex_point (Face_vertex1 f))"
    using inv by (simp add: Face_inv_def)
  have on: "Face_isPointOnFace f p = inside_triangle f p"
    if "Plane_value (Face_plane f) p = 0" for p
    unfolding inside_triangle_def
    using Face_isPointOnFace_iff [OF n, of p] that
    by (simp add: pl Plane_value_getPlane)
  have "getIntersectionEdgeOrHalfLineAndFace r f = (if inside_triangle f q then Some q else None)"
    if q: "getIntersectionWithPlane r (Face_plane f) = Some q"
  proof -
    from q have "Plane_value (Face_plane f) q = 0" by (rule getIntersectionWithPlane_on_plane)
    from on [OF this] show ?thesis
      by (simp add: getIntersectionEdgeOrHalfLineAndFace_def q)
  qed
  with on show ?thesis
    by (simp add: getIntersectionEdgeOrHalfLineAndFace_def)
qed

theorem face_intersection_barycentric_witness:
  "Face_inv (new_Face (new_Vertex (- 1) (- 1) 1 5) (new_Vertex 3 (- 1) 1 6) (new_Vertex (- 1) 3 1 7) None None)
   \<and> Face_normalVector (new_Face (new_Vertex (- 1) (- 1) 1 5) (new_Vertex 3 (- 1) 1 6) (new_Vertex (- 1) 3 1 7) None None)
        \<noteq> Vector 0 0 0
   \<and> Plane_value (Face_plane (new_Face (new_Vertex (- 1) (- 1) 1 5) (new_Vertex 3 (- 1) 1 6) (new_Vertex (- 1) 3 1 7) None None))
        (Point 0 0 1) = 0
   \<and> inside_triangle (new_Face (new_Vertex (- 1) (- 1) 1 5) (new_Vertex 3 (- 1) 1 6) (new_Vertex (- 1) 3 1 7) None None)
        (Point 0 0 1)
   \<and> Face_isPointOnFace (new_Face (new_Vertex (- 1) (- 1) 1 5) (new_Vertex 3 (- 1) 1 6) (new_Vertex (- 1) 3 1 7) None None)
        (Point 0 0 1)
   \<and> getIntersectionWithPlane (IsHalfLine (new_HalfLine (Point 0 0 0) (Vector 0 0 1)))
        (Face_plane (new_Face (new_Vertex (- 1) (- 1) 1 5) (new_Vertex 3 (- 1) 1 6) (new_Vertex (- 1) 3 1 7) None None))
       = Some (Point 0 0 1)
   \<and> getIntersectionEdgeOrHalfLineAndFace (IsHalfLine (new_HalfLine (Point 0 0 0) (Vector 0 0 1)))
        (new_Face (new_Vertex (- 1) (- 1) 1 5) (new_Vertex 3 (- 1) 1 6) (new_Vertex (- 1) 3 1 7) None None)
       = Some (Point 0 0 1)
   \<and> getIntersectionWithPlane (IsHalfLine (new_HalfLine (Point 0 0 2) (Vector 0 0 1)))
        (Face_plane (new_Face (new_Vertex (- 1) (- 1) 1 5) (new_Vertex 3 (- 1) 1 6) (new_Vertex (- 1) 3 1 7) None None))
       = None
   \<and> getIntersectionEdgeOrHalfLineAndFace (IsHalfLine (new_HalfLine (Point 0 0 2) (Vector 0 0 1)))
        (new_Face (new_Vertex (- 1) (- 1) 1 5) (new_Vertex 3 (- 1) 1 6) (new_Vertex (- 1) 3 1 7) None None)
       = None
   \<and> getIntersectionWithPlane (IsHalfLine (new_HalfLine (Point 5 5 0) (Vector 0 0 1)))
        (Face_plane (new_Face (new_Vertex (- 1) (- 1) 1 5) (new_Vertex 3 (- 1) 1 6) (new_Vertex (- 1) 3 1 7) None None))
       = Some (Point 5 5 1)
   \<and> \<not> inside_triangle (new_Face (new_Vertex (- 1) (- 1) 1 5) (new_Vertex 3 (- 1) 1 6) (new_Vertex (- 1) 3 1 7) None None)
        (Point 5 5 1)
   \<and> getIntersectionEdgeOrHalfLineAndFace (IsHalfLine (new_HalfLine (Point 5 5 0) (Vector 0 0 1)))
        (new_Face (new_Vertex (- 1) (- 1) 1 5) (new_Vertex 3 (- 1) 1 6) (new_Vertex (- 1) 3 1 7) None None)
       = None"
proof -
  let ?v1 = "new_Vertex (- 1) (- 1) 1 5"
  let ?f = "new_Face ?v1 (new_Vertex 3 (- 1) 1 6) (new_Vertex (- 1) 3 1 7) None None"
  let ?r = "IsHalfLine (new_HalfLine (Point 0 0 0) (Vector 0 0 1))"
  let ?r' = "IsHalfLine (new_HalfLine (Point 0 0 2) (Vector 0 0 1))"
  let ?r'' = "IsHalfLine (new_HalfLine (Point 5 5 0) (Vector 0 0 1))"
  have inv: "Face_inv ?f" by (rule Face_inv_new)
  have pl: "Face_plane ?f = Plane 0 0 16 (- 16)"
    by (simp add: getVectorFrom2Points_def getCrossProduct_def getPlaneFromVectorAndPoint_def)
  have n: "Face_normalVector ?f \<noteq> Vector 0 0 0"
    by (simp add: getVectorFrom2Points_def getCrossProduct_def)
  have on: "Plane_value (Face_plane ?f) (Point 0 0 1) = 0"
    and on'': "Plane_value (Face_plane ?f) (Point 5 5 1) = 0"
    unfolding pl by (simp_all add: Plane_value_def)
  have hit: "getIntersectionWithPlane ?r (Face_plane ?f) = Some (Point 0 0 1)"
    and miss: "getIntersectionWithPlane ?r' (Face_plane ?f) = None"
    and hit'': "getIntersectionWithPlane ?r'' (Face_plane ?f) = Some (Point 5 5 1)"
    unfolding pl
    by (simp_all add: HalfLine_getIntersectionWithPlane_def new_HalfLine_def
          getIntersectionFromLineAndPlane_def Plane_value_def HalfLine_isPointInRange_def)
  have "Point 0 0 1 = Point_move (Vertex_point ?v1)
           (Vector_combination (1 / 4) (Face_vector1 ?f) (1 / 4) (Face_vector2 ?f))
        \<and> (1 / 4 :: real) \<ge> 0 \<and> (1 / 4 :: real) \<ge> 0 \<and> (1 / 4 + 1 / 4 :: real) \<le> 1"
    by (simp add: Point_move_def Vector_combination_def getVectorFrom2Points_def)
  then have inside: "inside_triangle ?f (Point 0 0 1)"
    unfolding inside_triangle_def new_Face_sel by blast
  have test'': "\<not> Face_isPointOnFace ?f (Point 5 5 1)"
    by (simp add: Face_isPointOnFace_def getSTFrom3Vectors_def getInnerProduct_def
          getVectorFrom2Points_def)
  from face_intersection_barycentric [OF inv n, of "Point 0 0 1" ?r "Point 0 0 1"] on hit inside
  have a: "Face_isPointOnFace ?f (Point 0 0 1)"
    and b: "getIntersectionEdgeOrHalfLineAndFace ?r ?f = Some (Point 0 0 1)"
    by simp_all
  from face_intersection_barycentric [OF inv n, of _ ?r'] miss
  have c: "getIntersectionEdgeOrHalfLineAndFace ?r' ?f = None"
    by simp
  from face_intersection_barycentric [OF inv n, of "Point 5 5 1" ?r'' "Point 5 5 1"] on'' hit'' test''
  have d: "\<not> inside_triangle ?f (Point 5 5 1)"
    and e: "getIntersectionEdgeOrHalfLineAndFace ?r'' ?f = None"
    by simp_all
  from inv n on inside a hit b miss c hit'' d e show ?thesis by blast
qed

lemma collectIntersections_eq:
  "collectIntersections r faces acc = acc @ List.map_filter (hit_of r) faces"
proof (induction faces arbitrary: acc)
  case Nil
  show ?case by (simp add: List.map_filter_simps)
next
  case (Cons face faces)
  show ?case
  proof (cases "getIntersectionEdgeOrHalfLineAndFace r face")
    case None
    then show ?thesis
      by (simp add: Cons.IH List.map_filter_simps hit_of_def)
  next
    case (Some p)
    have "hit_of r face =
            Some \<lparr> Hit_face = face, Hit_intersection = p,
                   Hit_length = (case r of
                        IsEdge e \<Rightarrow> getLengthFrom2Points (Vertex_point (Edge_vertex1 e)) p
                      | IsHalfLine h \<Rightarrow> getLengthFrom2Points (HalfLine_point h) p) \<rparr>"
      using Some by (cases r) (simp_all add: hit_of_def origin_def)
    then show ?thesis
      by (simp add: Cons.IH List.map_filter_simps Some)
  qed
qed

lemma set_map_filter_hit_of:
  "h \<in> set (List.map_filter (hit_of r) faces) \<longleftrightarrow>
   (\<exists>f p. f \<in> set faces \<and> getIntersectionWithPlane r (Face_plane f) = Some p \<and> Face_isPointOnFace f p
      \<and> h = \<lparr> Hit_face = f, Hit_intersection = p, Hit_length = getLengthFrom2Points (origin r) p \<rparr>)"
proof -
  have "hit_of r f = Some h \<longleftrightarrow>
          (\<exists>p. getIntersectionWithPlane r (Face_plane f) = Some p \<and> Face_isPointOnFace f p
             \<and> h = \<lparr> Hit_face = f, Hit_intersection = p, Hit_length = getLengthFrom2Points (origin r) p \<rparr>)"
    for f
    by (auto simp: hit_of_def getIntersectionEdgeOrHalfLineAndFace_def split: option.splits if_splits)
  moreover have "h \<in> set (List.map_filter (hit_of r) faces) \<longleftrightarrow> (\<exists>f \<in> set faces. hit_of r f = Some h)"
    by (induction faces) (auto simp: List.map_filter_simps split: option.splits)
  ultimately show ?thesis by blast
qed

lemma example_hits:
  "getIntersectionEdgeOrHalfLineAndFace (IsHalfLine (new_HalfLine (Point 0 0 0) (Vector 0 0 1)))
     (new_Face (new_Vertex (- 1) (- 1) 1 5) (new_Vertex 1 (- 1) 1 6) (new_Vertex 1 1 1 7) None None)
     = Some (Point 0 0 1)"
  "getIntersectionEdgeOrHalfLineAndFace (IsHalfLine (new_HalfLine (Point 0 0 0) (Vector 0 0 1)))
     (new_Face (new_Vertex (- 1) (- 1) 1 5) (new_Vertex 1 1 1 7) (new_Vertex (- 1) 1 1 8) None None)
     = Some (Point 0 0 1)"
  "getIntersectionEdgeOrHalfLineAndFace (IsHalfLine (new_HalfLine (Point 0 0 2) (Vector 0 0 1)))
     (new_Face (new_Vertex (- 1) (- 1) 1 5) (new_Vertex 1 (- 1) 1 6) (new_Vertex 1 1 1 7) None None)
     = None"
  "getLengthFrom2Points (Point 0 0 0) (Point 0 0 1) = 1"
  by (simp_all add: getIntersectionEdgeOrHalfLineAndFace_def HalfLine_getIntersectionWithPlane_def
        new_HalfLine_def getIntersectionFromLineAndPlane_def Plane_value_def HalfLine_isPointInRange_def
        getVectorFrom2Points_def getCrossProduct_def getPlaneFromVectorAndPoint_def
        Face_isPointOnFace_def getSTFrom3Vectors_def getInnerProduct_def
        getLengthFrom2Points_def Vector_length_def)

text \<open>
  Claim C2, as stated, fails: the result need not be strictly ascending. Two faces that
  share a side are both hit, at the same distance, by a half-line through a point of
  that side. Here the half-line from \<open>(0,0,0)\<close> along \<open>(0,0,1)\<close> meets the two
  triangles of the square with the corners \<open>(\<plusminus>1,\<plusminus>1,1)\<close> on their common diagonal, at
  the distance 1 each.
\<close>

theorem getIntersections_strict_counterexample:
  "map Hit_face (getIntersectionsEdgeOrHalfLineAndFaces
       (IsHalfLine (new_HalfLine (Point 0 0 0) (Vector 0 0 1)))
       [new_Face (new_Vertex (- 1) (- 1) 1 5) (new_Vertex 1 (- 1) 1 6) (new_Vertex 1 1 1 7) None None,
        new_Face (new_Vertex (- 1) (- 1) 1 5) (new_Vertex 1 1 1 7) (new_Vertex (- 1) 1 1 8) None None])
     = [new_Face (new_Vertex (- 1) (- 1) 1 5) (new_Vertex 1 (- 1) 1 6) (new_Vertex 1 1 1 7) None None,
        new_Face (new_Vertex (- 1) (- 1) 1 5) (new_Vertex 1 1 1 7) (new_Vertex (- 1) 1 1 8) None None]
   \<and> map Hit_length (getIntersectionsEdgeOrHalfLineAndFaces
       (IsHalfLine (new_HalfLine (Point 0 0 0) (Vector 0 0 1)))
       [new_Face (new_Vertex (- 1) (- 1) 1 5) (new_Vertex 1 (- 1) 1 6) (new_Vertex 1 1 1 7) None None,
        new_Face (new_Vertex (- 1) (- 1) 1 5) (new_Vertex 1 1 1 7) (new_Vertex (- 1) 1 1 8) None None])
     = [1, 1]
   \<and> \<not> sorted_wrt (<) (map Hit_length (getIntersectionsEdgeOrHalfLineAndFaces
       (IsHalfLine (new_HalfLine (Point 0 0 0) (Vector 0 0 1)))
       [new_Face (new_Vertex (- 1) (- 1) 1 5) (new_Vertex 1 (- 1) 1 6) (new_Vertex 1 1 1 7) None None,
        new_Face (new_Vertex (- 1) (- 1) 1 5) (new_Vertex 1 1 1 7) (new_Vertex (- 1) 1 1 8) None None]))"
proof -
  have p: "HalfLine_point (new_HalfLine (Point 0 0 0) (Vector 0 0 1)) = Point 0 0 0"
    by (simp add: new_HalfLine_def)
  show ?thesis
    by (simp add: getIntersectionsEdgeOrHalfLineAndFaces_def example_hits p)
qed


text \<open>
  Claim C2, amended. The result of \<open>getIntersectionsEdgeOrHalfLineAndFaces\<close> is sorted
  ascending by the distance, not always strictly: elements of the same distance keep the
  order of the face list. It holds, as often as the face occurs in the list, one element
  for each face whose plane the edge or half-line meets within its range at a point for
  which \<open>isPointOnFace\<close> holds, with that point and its distance from the origin of
  the edge or half-line, and nothing else. For faces whose vectors and plane are those
  of their vertices, these are the faces hit inside their triangle. When no face is hit
  the result is the empty list.
\<close>

theorem getIntersections_sorted_hits:
  "sorted (map Hit_length (getIntersectionsEdgeOrHalfLineAndFaces r faces))
   \<and> mset (getIntersectionsEdgeOrHalfLineAndFaces r faces) = mset (List.map_filter (hit_of r) faces)
   \<and> filter (\<lambda>h. Hit_length h = k) (getIntersectionsEdgeOrHalfLineAndFaces r faces)
       = filter (\<lambda>h. Hit_length h = k) (List.map_filter (hit_of r) faces)
   \<and> (h \<in> set (getIntersectionsEdgeOrHalfLineAndFaces r faces) \<longleftrightarrow>
        (\<exists>f p. f \<in> set faces \<and> getIntersectionWithPlane r (Face_plane f) = Some p
            \<and> Face_isPointOnFace f p
            \<and> h = \<lparr> Hit_face = f, Hit_intersection = p,
                     Hit_length = getLengthFrom2Points (origin r) p \<rparr>))
   \<and> ((\<forall>f \<in> set faces. Face_inv f) \<longrightarrow>
        (h \<in> set (getIntersectionsEdgeOrHalfLineAndFaces r faces) \<longleftrightarrow>
          (\<exists>f p. f \<in> set faces \<and> getIntersectionWithPlane r (Face_plane f) = Some p
              \<and> inside_triangle f p
              \<and> h = \<lparr> Hit_face = f, Hit_intersection = p,
                       Hit_length = getLengthFrom2Points (origin r) p \<rparr>)))
   \<and> ((\<forall>f \<in> set faces. getIntersectionEdgeOrHalfLineAndFace r f = None)
        \<longrightarrow> getIntersectionsEdgeOrHalfLineAndFaces r faces = [])"
proof -
  have eq: "getIntersectionsEdgeOrHalfLineAndFaces r faces
              = sort_key Hit_length (List.map_filter (hit_of r) faces)"
    by (simp add: getIntersectionsEdgeOrHalfLineAndFaces_def collectIntersections_eq)
  have none: "List.map_filter (hit_of r) faces = []"
    if "\<forall>f \<in> set faces. getIntersectionEdgeOrHalfLineAndFace r f = None"
    using that by (induction faces) (simp_all add: List.map_filter_simps hit_of_def)
  have inside: "(\<exists>f p. f \<in> set faces \<and> getIntersectionWithPlane r (Face_plane f) = Some p
            \<and> Face_isPointOnFace f p
            \<and> h = \<lparr> Hit_face = f, Hit_intersection = p,
                     Hit_length = getLengthFrom2Points (origin r) p \<rparr>)
      \<longleftrightarrow> (\<exists>f p. f \<in> set faces \<and> getIntersectionWithPlane r (Face_plane f) = Some p
            \<and> inside_triangle f p
            \<and> h = \<lparr> Hit_face = f, Hit_intersection = p,
                     Hit_length = getLengthFrom2Points (origin r) p \<rparr>)"
    if "\<forall>f \<in> set faces. Face_inv f"
    using that hit_inside_triangle [of _ r] by blast
  from none inside show ?thesis
    unfolding eq
    by (simp add: sort_key_stable set_map_filter_hit_of)
qed

theorem getIntersections_sorted_hits_witness:
  "sorted (map Hit_length (getIntersectionsEdgeOrHalfLineAndFaces
       (IsHalfLine (new_HalfLine (Point 0 0 0) (Vector 0 0 1)))
       [new_Face (new_Vertex (- 1) (- 1) 1 5) (new_Vertex 1 (- 1) 1 6) (new_Vertex 1 1 1 7) None None,
        new_Face (new_Vertex (- 1) (- 1) 1 5) (new_Vertex 1 1 1 7) (new_Vertex (- 1) 1 1 8) None None]))
   \<and> Face_inv (new_Face (new_Vertex (- 1) (- 1) 1 5) (new_Vertex 1 (- 1) 1 6) (new_Vertex 1 1 1 7) None None)
   \<and> Face_inv (new_Face (new_Vertex (- 1) (- 1) 1 5) (new_Vertex 1 1 1 7) (new_Vertex (- 1) 1 1 8) None None)
   \<and> inside_triangle (new_Face (new_Vertex (- 1) (- 1) 1 5) (new_Vertex 1 1 1 7) (new_Vertex (- 1) 1 1 8) None None)
        (Point 0 0 1)
   \<and> \<lparr> Hit_face = new_Face (new_Vertex (- 1) (- 1) 1 5) (new_Vertex 1 1 1 7) (new_Vertex (- 1) 1 1 8) None None,
        Hit_intersection = Point 0 0 1, Hit_length = 1 \<rparr>
       \<in> set (getIntersectionsEdgeOrHalfLineAndFaces
       (IsHalfLine (new_HalfLine (Point 0 0 0) (Vector 0 0 1)))
       [new_Face (new_Vertex (- 1) (- 1) 1 5) (new_Vertex 1 (- 1) 1 6) (new_Vertex 1 1 1 7) None None,
        new_Face (new_Vertex (- 1) (- 1) 1 5) (new_Vertex 1 1 1 7) (new_Vertex (- 1) 1 1 8) None None])
   \<and> getIntersectionEdgeOrHalfLineAndFace (IsHalfLine (new_HalfLine (Point 0 0 2) (Vector 0 0 1)))
        (new_Face (new_Vertex (- 1) (- 1) 1 5) (new_Vertex 1 (- 1) 1 6) (new_Vertex 1 1 1 7) None None) = None
   \<and> getIntersectionsEdgeOrHalfLineAndFaces (IsHalfLine (new_HalfLine (Point 0 0 2) (Vector 0 0 1)))
        [new_Face (new_Vertex (- 1) (- 1) 1 5) (new_Vertex 1 (- 1) 1 6) (new_Vertex 1 1 1 7) None None] = []"
proof -
  let ?r = "IsHalfLine (new_HalfLine (Point 0 0 0) (Vector 0 0 1))"
  let ?r' = "IsHalfLine (new_HalfLine (Point 0 0 2) (Vector 0 0 1))"
  let ?T1 = "new_Face (new_Vertex (- 1) (- 1) 1 5) (new_Vertex 1 (- 1) 1 6) (new_Vertex 1 1 1 7) None None"
  let ?T2 = "new_Face (new_Vertex (- 1) (- 1) 1 5) (new_Vertex 1 1 1 7) (new_Vertex (- 1) 1 1 8) None None"
  let ?h = "\<lparr> Hit_face = ?T2, Hit_intersection = Point 0 0 1, Hit_length = 1 \<rparr>"
  have o: "origin ?r = Point 0 0 0" by (simp add: origin_def new_HalfLine_def)
  have inv: "Face_inv ?T1" "Face_inv ?T2" by (rule Face_inv_new)+
  then have invs: "\<forall>f \<in> set [?T1, ?T2]. Face_inv f" by simp
  have "getIntersectionEdgeOrHalfLineAndFace ?r ?T2 = Some (Point 0 0 1)"
    by (rule example_hits)
  then have hit: "getIntersectionWithPlane ?r (Face_plane ?T2) = Some (Point 0 0 1)"
      "Face_isPointOnFace ?T2 (Point 0 0 1)"
    by (auto simp: getIntersectionEdgeOrHalfLineAndFace_def split: option.splits if_splits)
  have "\<exists>f p. f \<in> set [?T1, ?T2] \<and> getIntersectionWithPlane ?r (Face_plane f) = Some p
          \<and> Face_isPointOnFace f p
          \<and> ?h = \<lparr> Hit_face = f, Hit_intersection = p, Hit_length = getLengthFrom2Points (origin ?r) p \<rparr>"
    apply (rule exI [of _ ?T2])
    apply (rule exI [of _ "Point 0 0 1"])
    using hit by (simp add: o example_hits)
  with getIntersections_sorted_hits [of ?r "[?T1, ?T2]" 1 ?h]
  have a: "sorted (map Hit_length (getIntersectionsEdgeOrHalfLineAndFaces ?r [?T1, ?T2]))"
    and b: "?h \<in> set (getIntersectionsEdgeOrHalfLineAndFaces ?r [?T1, ?T2])"
    by blast+
  from getIntersections_sorted_hits [of ?r "[?T1, ?T2]" 1 ?h] invs b
  have "\<exists>f p. f \<in> set [?T1, ?T2] \<and> getIntersectionWithPlane ?r (Face_plane f) = Some p
          \<and> inside_triangle f p
          \<and> ?h = \<lparr> Hit_face = f, Hit_intersection = p, Hit_length = getLengthFrom2Points (origin ?r) p \<rparr>"
    by blast
  then have c: "inside_triangle ?T2 (Point 0 0 1)" by auto
  have miss: "getIntersectionEdgeOrHalfLineAndFace ?r' ?T1 = None" by (rule example_hits)
  then have "\<forall>f \<in> set [?T1]. getIntersectionEdgeOrHalfLineAndFace ?r' f = None" by simp
  with getIntersections_sorted_hits [of ?r' "[?T1]"]
  have d: "getIntersectionsEdgeOrHalfLineAndFaces ?r' [?T1] = []" by blast
  from a inv b c miss d show ?thesis by blast
qed


section \<open>Properties of Camera\<close>

lemma scenario_Camera_fields:
  "Camera_pos scenario_Camera = Point 0 (- 1) 0"
  "Camera_rx scenario_Camera = 0" "Camera_rz scenario_Camera = 0"
  "Camera_expandingRatio scenario_Camera = 64"
  "Camera_canW scenario_Camera = 204.8" "Camera_canH scenario_Camera = 115.2"
  "Camera_normalVector scenario_Camera = Vector 0 3 0"
  "Camera_focus scenario_Camera = Point 0 (- 4) 0"
  "Camera_plane scenario_Camera = Plane 0 3 0 3"
  by (simp_all add: scenario_Camera_def Camera_updateGeometry_def Camera_updatePlane_def
        Camera_updateFocusPoint_def Camera_updateNormalVector_def Vector_rotate_def
        sin_deg_def cos_deg_def getPlaneFromVectorAndPoint_def)

text \<open>
  Claim C3. For a vertex that is not in front of the plane of the camera,
  \<open>getProjectedVertex\<close> returns \<open>null\<close>, and so does \<open>getToDrawVertex\<close>; neither
  throws.
\<close>

theorem getProjectedVertex_behind:
  assumes "\<not> isPointInFrontOf (Camera_plane this) (Vertex_point vertex)"
  shows "Camera_getProjectedVertex this vertex = Inr None
       \<and> Camera_getToDrawVertex this vertex = Inr None"
  using assms by (simp add: Camera_getProjectedVertex_def Camera_getToDrawVertex_def)

theorem getProjectedVertex_behind_witness:
  "\<not> isPointInFrontOf (Camera_plane scenario_Camera) (Vertex_point (new_Vertex 0 (- 2) 0 0))
   \<and> Camera_getProjectedVertex scenario_Camera (new_Vertex 0 (- 2) 0 0) = Inr None
   \<and> Camera_getToDrawVertex scenario_Camera (new_Vertex 0 (- 2) 0 0) = Inr None"
proof -
  have "\<not> isPointInFrontOf (Camera_plane scenario_Camera) (Vertex_point (new_Vertex 0 (- 2) 0 0))"
    by (simp add: scenario_Camera_fields isPointInFrontOf_def Plane_value_def)
  with getProjectedVertex_behind [of scenario_Camera "new_Vertex 0 (- 2) 0 0"]
  show ?thesis by simp
qed

lemma sin_cos_deg [simp]: "sin_deg a * sin_deg a + cos_deg a * cos_deg a = 1"
  using sin_cos_squared_add [of "a * pi / 180"]
  by (simp add: sin_deg_def cos_deg_def power2_eq_square)

lemma sin_deg_minus [simp]: "sin_deg (- a) = - sin_deg a"
  by (simp add: sin_deg_def)

lemma cos_deg_minus [simp]: "cos_deg (- a) = cos_deg a"
  by (simp add: cos_deg_def)

lemma sin_deg_0 [simp]: "sin_deg 0 = 0"
  by (simp add: sin_deg_def)

lemma cos_deg_0 [simp]: "cos_deg 0 = 1"
  by (simp add: cos_deg_def)

lemma sin_deg_90 [simp]: "sin_deg 90 = 1"
  by (simp add: sin_deg_def)

lemma cos_deg_90 [simp]: "cos_deg 90 = 0"
  by (simp add: cos_deg_def)

text \<open>A turn in a plane keeps the inner product, and the opposite turn undoes it.\<close>

lemma turn_inner:
  fixes s c :: real
  assumes "s * s + c * c = 1"
  shows "(c * x + s * y) * (c * x' + s * y') + (- s * x + c * y) * (- s * x' + c * y') = x * x' + y * y'"
proof -
  have "(c * x + s * y) * (c * x' + s * y') + (- s * x + c * y) * (- s * x' + c * y')
          = (s * s + c * c) * (x * x' + y * y')"
    by (simp add: algebra_simps)
  with assms show ?thesis by simp
qed

lemma turn_back:
  fixes s c :: real
  assumes "s * s + c * c = 1"
  shows "c * (c * x + s * y) - s * (- s * x + c * y) = x"
    and "s * (c * x + s * y) + c * (- s * x + c * y) = y"
proof -
  have "c * (c * x + s * y) - s * (- s * x + c * y) = (s * s + c * c) * x"
    by (simp add: algebra_simps)
  with assms show "c * (c * x + s * y) - s * (- s * x + c * y) = x" by simp
  have "s * (c * x + s * y) + c * (- s * x + c * y) = (s * s + c * c) * y"
    by (simp add: algebra_simps)
  with assms show "s * (c * x + s * y) + c * (- s * x + c * y) = y" by simp
qed

lemma turn_forth:
  fixes s c :: real
  assumes "s * s + c * c = 1"
  shows "c * (c * x - s * y) + s * (s * x + c * y) = x"
    and "- s * (c * x - s * y) + c * (s * x + c * y) = y"
proof -
  have "c * (c * x - s * y) + s * (s * x + c * y) = (s * s + c * c) * x"
    by (simp add: algebra_simps)
  with assms show "c * (c * x - s * y) + s * (s * x + c * y) = x" by simp
  have "- s * (c * x - s * y) + c * (s * x + c * y) = (s * s + c * c) * y"
    by (simp add: algebra_simps)
  with assms show "- s * (c * x - s * y) + c * (s * x + c * y) = y" by simp
qed

text \<open>The rotation keeps inner products, hence lengths and angles, and is linear.\<close>

lemma Vector_rotate_inner:
  "getInnerProduct (Vector_rotate u rx rz) (Vector_rotate v rx rz) = getInnerProduct u v"
proof -
  have 1: "sin_deg rz * sin_deg rz + cos_deg rz * cos_deg rz = 1" by simp
  have 2: "sin_deg (- rx) * sin_deg (- rx) + cos_deg (- rx) * cos_deg (- rx) = 1"
    by (rule sin_cos_deg)
  show ?thesis
    using turn_inner [OF 1, of "Vector_x u" "cos_deg rx * Vector_y u - sin_deg rx * Vector_z u"
                        "Vector_x v" "cos_deg rx * Vector_y v - sin_deg rx * Vector_z v"]
          turn_inner [OF 2, of "Vector_y u" "Vector_z u" "Vector_y v" "Vector_z v"]
    by (simp add: Vector_rotate_def getInnerProduct_def Let_def algebra_simps)
qed

lemma Vector_rotate_combination:
  "Vector_rotate (Vector_combination k u l v) rx rz
     = Vector_combination k (Vector_rotate u rx rz) l (Vector_rotate v rx rz)"
  by (simp add: Vector_rotate_def Vector_combination_def Let_def algebra_simps)

text \<open>
  The conversion of \<open>getConvertedVertex\<close> undoes the rotation of the camera (spec,
  section 4.3, step 3): a vertex at the coordinates \<open>w\<close> in the frame of the camera is
  placed at the position of the camera moved by \<open>w\<close>.
\<close>

lemma Camera_getConvertedVertex_local:
  assumes "Vertex_point vertex = Camera_local this w"
  shows "Camera_getConvertedVertex this vertex
           = new_Vertex (Point_x (Camera_pos this) + Vector_x w) (Point_y (Camera_pos this) + Vector_y w)
                        (Point_z (Camera_pos this) + Vector_z w) (Vertex_i vertex)"
proof -
  have 1: "sin_deg (Camera_rz this) * sin_deg (Camera_rz this)
             + cos_deg (Camera_rz this) * cos_deg (Camera_rz this) = 1"
    by simp
  have 2: "sin_deg (- Camera_rx this) * sin_deg (- Camera_rx this)
             + cos_deg (- Camera_rx this) * cos_deg (- Camera_rx this) = 1"
    by (rule sin_cos_deg)
  let ?y1 = "cos_deg (Camera_rx this) * Vector_y w - sin_deg (Camera_rx this) * Vector_z w"
  note z = turn_back [OF 1, of "Vector_x w" ?y1]
  note x = turn_back [OF 2, of "Vector_y w" "Vector_z w"]
  show ?thesis
    using z x
    by (simp add: Camera_getConvertedVertex_def assms Camera_local_def Point_move_def
          Vector_rotate_def getVectorFrom2Points_def Let_def)
qed

text \<open>Every point is at its coordinates in the frame of the camera.\<close>

lemma Camera_local_coordinates: "Camera_local this (Camera_coordinates this p) = p"
proof -
  have 1: "sin_deg (Camera_rz this) * sin_deg (Camera_rz this)
             + cos_deg (Camera_rz this) * cos_deg (Camera_rz this) = 1"
    by simp
  have 2: "sin_deg (- Camera_rx this) * sin_deg (- Camera_rx this)
             + cos_deg (- Camera_rx this) * cos_deg (- Camera_rx this) = 1"
    by (rule sin_cos_deg)
  let ?x = "Point_x p - Point_x (Camera_pos this)"
  let ?y = "Point_y p - Point_y (Camera_pos this)"
  let ?z = "Point_z p - Point_z (Camera_pos this)"
  let ?y1 = "sin_deg (Camera_rz this) * ?x + cos_deg (Camera_rz this) * ?y"
  note a = turn_forth [OF 2, of ?y1 ?z]
  note b = turn_forth [OF 1, of ?x ?y]
  show ?thesis
    using a b
    by (cases p) (simp add: Camera_local_def Camera_coordinates_def Camera_getConvertedVertex_def
          Point_move_def Vector_rotate_def getVectorFrom2Points_def Let_def)
qed

lemma Camera_updateGeometry_fields:
  "Camera_pos (Camera_updateGeometry c) = Camera_pos c"
  "Camera_rx (Camera_updateGeometry c) = Camera_rx c"
  "Camera_rz (Camera_updateGeometry c) = Camera_rz c"
  "Camera_focalLength (Camera_updateGeometry c) = Camera_focalLength c"
  "Camera_expandingRatio (Camera_updateGeometry c) = Camera_expandingRatio c"
  "Camera_canW (Camera_updateGeometry c) = Camera_canW c"
  "Camera_canH (Camera_updateGeometry c) = Camera_canH c"
  "Camera_normalVector (Camera_updateGeometry c)
     = Vector_rotate (Vector 0 (Camera_focalLength c) 0) (Camera_rx c) (Camera_rz c)"
  "Camera_focus (Camera_updateGeometry c)
     = Point (Point_x (Camera_pos c) - Vector_x (Camera_normalVector (Camera_updateGeometry c)))
             (Point_y (Camera_pos c) - Vector_y (Camera_normalVector (Camera_updateGeometry c)))
             (Point_z (Camera_pos c) - Vector_z (Camera_normalVector (Camera_updateGeometry c)))"
  "Camera_plane (Camera_updateGeometry c)
     = getPlaneFromVectorAndPoint (Camera_normalVector (Camera_updateGeometry c)) (Camera_pos c)"
  by (simp_all add: Camera_updateGeometry_def Camera_updatePlane_def Camera_updateFocusPoint_def
        Camera_updateNormalVector_def)

lemma Camera_geometry:
  assumes "this = Camera_updateGeometry c"
  shows "Camera_focus this
           = Point_move (Camera_pos this) (Vector_multiplication (Camera_normalVector this) (- 1))"
    and "Camera_plane this = getPlaneFromVectorAndPoint (Camera_normalVector this) (Camera_pos this)"
    and "Camera_normalVector this
           = Vector_rotate (Vector 0 (Camera_focalLength this) 0) (Camera_rx this) (Camera_rz this)"
  by (simp_all add: assms Camera_updateGeometry_fields Point_move_def Vector_multiplication_def)

text \<open>
  The ray from a focus behind the plane through a point in front of the plane meets the
  plane, within the range of the half-line, at the fraction \<open>k\<close> of the way.
\<close>

lemma ray_intersection:
  assumes focus: "focus = Point_move pos (Vector_multiplication n (- 1))"
    and plane: "plane = getPlaneFromVectorAndPoint n pos"
    and front: "isPointInFrontOf plane p"
    and k: "k = getInnerProduct n n / (Plane_value plane p + getInnerProduct n n)"
  shows "0 < k"
    and "HalfLine_isOnIntersectionWithPlane (new_HalfLine focus (getVectorFrom2Points focus p)) plane
           = Some (Point_move focus (Vector_multiplication (getVectorFrom2Points focus p) k))"
proof -
  let ?ray = "getVectorFrom2Points focus p"
  let ?nn = "getInnerProduct n n"
  have v: "Plane_value plane p > 0" using front by (simp add: isPointInFrontOf_def)
  have nn0: "0 \<le> ?nn" by (simp add: getInnerProduct_def)
  have "?nn \<noteq> 0"
  proof
    assume "?nn = 0"
    then have "Vector_x n = 0 \<and> Vector_y n = 0 \<and> Vector_z n = 0"
      by (auto simp: getInnerProduct_def add_nonneg_eq_0_iff)
    then have "Plane_value plane p = 0"
      by (simp add: plane Plane_value_getPlane getInnerProduct_def)
    with v show False by simp
  qed
  with nn0 have nn: "0 < ?nn" by simp
  have vf: "Plane_value plane focus = - ?nn"
    by (simp add: plane focus Plane_value_getPlane getInnerProduct_def getVectorFrom2Points_def
          Point_move_def Vector_multiplication_def)
  have slope: "Plane_slope plane ?ray = Plane_value plane p + ?nn"
    by (simp add: Plane_slope_diff vf)
  with v nn have pos: "0 < Plane_slope plane ?ray" by simp
  from v nn show kpos: "0 < k" by (simp add: k)
  have t: "- Plane_value plane focus / Plane_slope plane ?ray = k"
    by (simp add: vf slope k)
  from pos have "getIntersectionFromLineAndPlane (Line focus ?ray) plane \<noteq> None"
    by (simp add: getIntersectionFromLineAndPlane_None)
  then obtain q where q: "getIntersectionFromLineAndPlane (Line focus ?ray) plane = Some q"
    by blast
  from getIntersectionFromLineAndPlane_Some(2) [OF q] t
  have qeq: "q = Point_move focus (Vector_multiplication ?ray k)" by simp
  have range: "HalfLine_isPointInRange (new_HalfLine focus ?ray) q"
    using kpos by (simp add: HalfLine_isPointInRange_def new_HalfLine_def qeq Point_move_def
          Vector_multiplication_def sgn_mult)
  show "HalfLine_isOnIntersectionWithPlane (new_HalfLine focus ?ray) plane
           = Some (Point_move focus (Vector_multiplication ?ray k))"
    using range q
    by (simp add: HalfLine_isOnIntersectionWithPlane_def HalfLine_getIntersectionWithPlane_def
          new_HalfLine_def qeq)
qed

text \<open>
  For a camera as the update leaves it, the ray of \<open>getProjectedVertex\<close> to a point in
  front of the plane is not parallel to the plane.
\<close>

lemma ray_not_parallel:
  assumes "this = Camera_updateGeometry c"
    and "isPointInFrontOf (Camera_plane this) p"
  shows "getIntersectionFromLineAndPlane
           (HalfLine_line (new_HalfLine (Camera_focus this) (getVectorFrom2Points (Camera_focus this) p)))
           (Camera_plane this) \<noteq> None"
  using ray_intersection(2) [OF Camera_geometry(1) [OF assms(1)] Camera_geometry(2) [OF assms(1)]
          assms(2) refl]
  by (auto simp: HalfLine_isOnIntersectionWithPlane_def HalfLine_getIntersectionWithPlane_def
        split: option.splits)

text \<open>
  The plane equation of the camera measures the second coordinate in the frame of the
  camera, the distance from the view plane, in units of \<open>1/focalLength\<close>; the normal
  vector has the focal length as its length.
\<close>

lemma local_value:
  assumes "this = Camera_updateGeometry c"
  shows "Plane_value (Camera_plane this) (Camera_local this (Vector a b d)) = Camera_focalLength this * b"
proof -
  have "getVectorFrom2Points (Camera_pos this) (Camera_local this (Vector a b d))
          = Vector_rotate (Vector a b d) (Camera_rx this) (Camera_rz this)"
    by (simp add: getVectorFrom2Points_move Camera_local_def)
  then show ?thesis
    by (simp add: Camera_geometry [OF assms] Plane_value_getPlane Vector_rotate_inner)
       (simp add: getInnerProduct_def)
qed

lemma normal_square:
  assumes "this = Camera_updateGeometry c"
  shows "getInnerProduct (Camera_normalVector this) (Camera_normalVector this)
           = Camera_focalLength this * Camera_focalLength this"
  by (simp add: Camera_geometry(3) [OF assms] Vector_rotate_inner) (simp add: getInnerProduct_def)

text \<open>
  The point at the fraction \<open>k = f/(f+b)\<close> of the way from the focus to the point at
  \<open>(a,b,d)\<close> in the frame of the camera is at \<open>(k\<cdot>a, 0, k\<cdot>d)\<close> in that frame.
\<close>

lemma projected_local:
  assumes cam: "this = Camera_updateGeometry c"
    and f: "0 < Camera_focalLength this" and b: "0 < b"
    and k: "k = Camera_focalLength this / (Camera_focalLength this + b)"
    and p: "p = Camera_local this (Vector a b d)"
  shows "Point_move (Camera_focus this) (Vector_multiplication (getVectorFrom2Points (Camera_focus this) p) k)
           = Camera_local this (Vector (k * a) 0 (k * d))"
proof -
  let ?f = "Camera_focalLength this"
  let ?n = "Camera_normalVector this"
  let ?R = "Vector_rotate (Vector a b d) (Camera_rx this) (Camera_rz this)"
  from f b have ne: "?f + b \<noteq> 0" "?f \<noteq> 0" by simp_all
  from ne have 1: "1 - k = b / (?f + b)" by (simp add: k field_simps)
  from ne have 2: "k * b / ?f = b / (?f + b)" by (simp add: k)
  from 1 2 have kb: "1 - k = k * b / ?f" by simp
  have "Vector (k * a) 0 (k * d) = Vector_combination k (Vector a b d) (- (k * b / ?f)) (Vector 0 ?f 0)"
    using f by (simp add: Vector_combination_def)
  then have rot: "Vector_rotate (Vector (k * a) 0 (k * d)) (Camera_rx this) (Camera_rz this)
                    = Vector_combination k ?R (- (1 - k)) ?n"
    by (simp only: Vector_rotate_combination Camera_geometry(3) [OF cam] kb)
  have "Camera_local this (Vector (k * a) 0 (k * d))
          = Point_move (Camera_pos this) (Vector_combination k ?R (- (1 - k)) ?n)"
    by (simp only: Camera_local_def rot)
  also have "\<dots> = Point_move (Camera_focus this)
                       (Vector_multiplication (getVectorFrom2Points (Camera_focus this) p) k)"
    by (simp add: p Camera_local_def Camera_geometry(1) [OF cam] Point_move_def
          Vector_multiplication_def Vector_combination_def getVectorFrom2Points_def algebra_simps)
  finally show ?thesis by simp
qed

text \<open>
  The front check and the projection of \<open>getProjectedVertex\<close> for a vertex at
  \<open>(a,b,d)\<close> in the frame of the camera, \<open>b > 0\<close>.
\<close>

lemma Camera_getProjectedVertex_local:
  assumes cam: "this = Camera_updateGeometry c"
    and f: "0 < Camera_focalLength this" and b: "0 < b"
    and k: "k = Camera_focalLength this / (Camera_focalLength this + b)"
    and local: "Vertex_point vertex = Camera_local this (Vector a b d)"
  shows "isPointInFrontOf (Camera_plane this) (Vertex_point vertex)"
    and "Camera_getProjectedVertex this vertex
           = Inr (Some (Vertex_at (Camera_local this (Vector (k * a) 0 (k * d))) (Vertex_i vertex)))"
proof -
  let ?f = "Camera_focalLength this"
  let ?plane = "Camera_plane this"
  let ?p = "Vertex_point vertex"
  let ?n = "Camera_normalVector this"
  have val: "Plane_value ?plane ?p = ?f * b"
    by (simp add: local local_value [OF cam])
  with f b show front: "isPointInFrontOf ?plane ?p"
    by (simp add: isPointInFrontOf_def)
  have k': "k = getInnerProduct ?n ?n / (Plane_value ?plane ?p + getInnerProduct ?n ?n)"
  proof -
    from f b have ne: "?f + b \<noteq> 0" "?f \<noteq> 0" by simp_all
    have "?f * b + ?f * ?f = ?f * (?f + b)" by (simp add: algebra_simps)
    with ne have "?f * ?f / (?f * b + ?f * ?f) = ?f / (?f + b)" by simp
    then show ?thesis by (simp add: val normal_square [OF cam] k)
  qed
  have hit: "HalfLine_isOnIntersectionWithPlane
               (new_HalfLine (Camera_focus this) (getVectorFrom2Points (Camera_focus this) ?p)) ?plane
             = Some (Camera_local this (Vector (k * a) 0 (k * d)))"
    using ray_intersection(2) [OF Camera_geometry(1) [OF cam] Camera_geometry(2) [OF cam] front k']
    by (simp add: projected_local [OF cam f b k local])
  show "Camera_getProjectedVertex this vertex
           = Inr (Some (Vertex_at (Camera_local this (Vector (k * a) 0 (k * d))) (Vertex_i vertex)))"
    using front by (simp add: Camera_getProjectedVertex_def hit Vertex_at_def)
qed

lemma Camera_updateGeometry_idem:
  "Camera_updateGeometry (Camera_updateGeometry c) = Camera_updateGeometry c"
  by (simp add: Camera_updateGeometry_def Camera_updatePlane_def Camera_updateFocusPoint_def
        Camera_updateNormalVector_def)

lemma scenario_Camera_updated: "scenario_Camera = Camera_updateGeometry scenario_Camera"
  by (simp add: scenario_Camera_def Camera_updateGeometry_idem)

lemma scenario_Camera_focalLength: "Camera_focalLength scenario_Camera = 3"
  by (simp add: scenario_Camera_def Camera_updateGeometry_fields)

lemma scenario_Camera_local: "Camera_local scenario_Camera (Vector a b d) = Point a (b - 1) d"
  by (simp add: Camera_local_def scenario_Camera_fields Vector_rotate_def Point_move_def)

text \<open>
  The camera turned by 90 degrees looks along \<open>+x\<close>, the way in which \<open>move\<close> walks
  on the key \<open>w\<close> at \<open>rz = 90\<close>, and has \<open>-y\<close> to its right.
\<close>

lemma turned_Camera_fields:
  "Camera_pos turned_Camera = Point 0 (- 1) 0"
  "Camera_focalLength turned_Camera = 3"
  "Camera_expandingRatio turned_Camera = 64"
  "Camera_canW turned_Camera = 204.8" "Camera_canH turned_Camera = 115.2"
  "Camera_normalVector turned_Camera = Vector 3 0 0"
  "Camera_focus turned_Camera = Point (- 3) (- 1) 0"
  "Camera_plane turned_Camera = Plane 3 0 0 0"
  "Camera_local turned_Camera (Vector a b d) = Point b (- a - 1) d"
  by (simp_all add: turned_Camera_def Camera_updateGeometry_fields scenario_Camera_fields
        scenario_Camera_focalLength Camera_local_def Vector_rotate_def Point_move_def
        getPlaneFromVectorAndPoint_def)

text \<open>
  Claim C6, the pipeline of \<open>getToDrawVertex\<close>. The first five parts are for every
  camera with a positive focal length \<open>f\<close>, turned by any angles, as the update of its
  normal vector, focus and plane leaves it, and for every vertex that is at some
  \<open>(a,b,d)\<close> with \<open>b > 0\<close> in the frame of the camera; \<open>b\<close> is the distance of the
  vertex from the view plane, and \<open>k = f/(f+b)\<close>.
  \<^item> Front check: the vertex is in front of the plane of the camera.
  \<^item> Projection: \<open>getProjectedVertex\<close> returns the vertex with the same number at
    \<open>(k\<cdot>a, 0, k\<cdot>d)\<close> in the frame of the camera, which is on the view plane.
  \<^item> Conversion: \<open>getConvertedVertex\<close> places the projected vertex at the position of
    the camera moved by \<open>(k\<cdot>a, 0, k\<cdot>d)\<close>.
  \<^item> Raster mapping: \<open>getToDrawVertex\<close> returns
    \<open>screen_x = (converted.x - pos.x) \<times> expandingRatio + canvasWidth/2\<close> and
    \<open>screen_y = (converted.z - pos.z) \<times> -expandingRatio + canvasHeight/2\<close>,
  \<^item> which is the pixel \<open>(k\<cdot>a\<cdot>expandingRatio + canvasWidth/2, -k\<cdot>d\<cdot>expandingRatio + canvasHeight/2)\<close>.

  The last four parts are the example scenario: the vertex \<open>(0,3,0)\<close> is in front of
  the plane of the camera, is projected to \<open>(0,-1,0)\<close>, which the conversion leaves
  where it is, and is drawn at \<open>(102.4, 57.6)\<close>.
\<close>

theorem scenario_projection:
  assumes focal: "0 < Camera_focalLength c" and depth: "0 < b"
    and cam: "this = Camera_updateGeometry c"
    and local: "Vertex_point vertex = Camera_local this (Vector a b d)"
    and scale: "k = Camera_focalLength c / (Camera_focalLength c + b)"
    and image: "projected = Vertex_at (Camera_local this (Vector (k * a) 0 (k * d))) (Vertex_i vertex)"
    and converted: "convertedVertex = Camera_getConvertedVertex this projected"
  shows "isPointInFrontOf (Camera_plane this) (Vertex_point vertex)
       \<and> Camera_getProjectedVertex this vertex = Inr (Some projected)
       \<and> Plane_value (Camera_plane this) (Vertex_point projected) = 0
       \<and> convertedVertex
           = Vertex_at (Point_move (Camera_pos this) (Vector (k * a) 0 (k * d))) (Vertex_i vertex)
       \<and> Camera_getToDrawVertex this vertex
           = Inr (Some ((Vertex_x convertedVertex - Point_x (Camera_pos this)) * Camera_expandingRatio this
                           + Camera_canW this / 2,
                        (Vertex_z convertedVertex - Point_z (Camera_pos this)) * - Camera_expandingRatio this
                           + Camera_canH this / 2))
       \<and> Camera_getToDrawVertex this vertex
           = Inr (Some (k * a * Camera_expandingRatio this + Camera_canW this / 2,
                        k * d * - Camera_expandingRatio this + Camera_canH this / 2))
       \<and> isPointInFrontOf (Camera_plane scenario_Camera) (Vertex_point (new_Vertex 0 3 0 0))
       \<and> Camera_getProjectedVertex scenario_Camera (new_Vertex 0 3 0 0) = Inr (Some (new_Vertex 0 (- 1) 0 0))
       \<and> Camera_getConvertedVertex scenario_Camera (new_Vertex 0 (- 1) 0 0) = new_Vertex 0 (- 1) 0 0
       \<and> Camera_getToDrawVertex scenario_Camera (new_Vertex 0 3 0 0) = Inr (Some (102.4, 57.6))"
proof -
  let ?f = "Camera_focalLength this"
  let ?q = "Camera_local this (Vector (k * a) 0 (k * d))"
  have ff: "?f = Camera_focalLength c" by (simp add: cam Camera_updateGeometry_fields)
  with focal have f: "0 < ?f" by simp
  have k: "k = ?f / (?f + b)" by (simp add: scale ff)
  note general = Camera_getProjectedVertex_local [OF cam f depth k local]
  have front: "isPointInFrontOf (Camera_plane this) (Vertex_point vertex)"
    by (rule general(1))
  have proj: "Camera_getProjectedVertex this vertex = Inr (Some projected)"
    by (simp add: general(2) image)
  have pt: "Vertex_point projected = ?q"
    by (simp add: image Vertex_at_def)
  have on: "Plane_value (Camera_plane this) (Vertex_point projected) = 0"
    by (simp add: pt local_value [OF cam])
  have conv: "convertedVertex
                = Vertex_at (Point_move (Camera_pos this) (Vector (k * a) 0 (k * d))) (Vertex_i vertex)"
  proof -
    have "Vertex_i projected = Vertex_i vertex" by (simp add: image Vertex_at_def)
    then show ?thesis
      by (simp add: converted Camera_getConvertedVertex_local [OF pt] Vertex_at_def Point_move_def)
  qed
  have raster: "Camera_getToDrawVertex this vertex
           = Inr (Some ((Vertex_x convertedVertex - Point_x (Camera_pos this)) * Camera_expandingRatio this
                           + Camera_canW this / 2,
                        (Vertex_z convertedVertex - Point_z (Camera_pos this)) * - Camera_expandingRatio this
                           + Camera_canH this / 2))"
    by (simp add: Camera_getToDrawVertex_def proj converted Let_def)
  have pixel: "Camera_getToDrawVertex this vertex
           = Inr (Some (k * a * Camera_expandingRatio this + Camera_canW this / 2,
                        k * d * - Camera_expandingRatio this + Camera_canH this / 2))"
    by (simp add: raster conv Vertex_at_def Point_move_def)
  have front0: "isPointInFrontOf (Camera_plane scenario_Camera) (Vertex_point (new_Vertex 0 3 0 0))"
    by (simp add: scenario_Camera_fields isPointInFrontOf_def Plane_value_def)
  have proj0: "Camera_getProjectedVertex scenario_Camera (new_Vertex 0 3 0 0)
                = Inr (Some (new_Vertex 0 (- 1) 0 0))"
    by (simp add: Camera_getProjectedVertex_def scenario_Camera_fields isPointInFrontOf_def
          Plane_value_def getVectorFrom2Points_def new_HalfLine_def
          HalfLine_isOnIntersectionWithPlane_def HalfLine_getIntersectionWithPlane_def
          getIntersectionFromLineAndPlane_def HalfLine_isPointInRange_def)
  have conv0: "Camera_getConvertedVertex scenario_Camera (new_Vertex 0 (- 1) 0 0) = new_Vertex 0 (- 1) 0 0"
    by (simp add: Camera_getConvertedVertex_def scenario_Camera_fields getVectorFrom2Points_def
          sin_deg_def cos_deg_def)
  have pixel0: "Camera_getToDrawVertex scenario_Camera (new_Vertex 0 3 0 0) = Inr (Some (102.4, 57.6))"
    by (simp add: Camera_getToDrawVertex_def proj0 conv0 scenario_Camera_fields)
  from front proj on conv raster pixel front0 proj0 conv0 pixel0 show ?thesis by simp
qed

theorem scenario_projection_witness:
  "0 < Camera_focalLength scenario_Camera \<and> 0 < (3::real)
   \<and> scenario_Camera = Camera_updateGeometry scenario_Camera
   \<and> Vertex_point (new_Vertex 1 2 1 7) = Camera_local scenario_Camera (Vector 1 3 1)
   \<and> (1 / 2 :: real) = Camera_focalLength scenario_Camera / (Camera_focalLength scenario_Camera + 3)
   \<and> new_Vertex (1 / 2) (- 1) (1 / 2) 7
       = Vertex_at (Camera_local scenario_Camera (Vector (1 / 2 * 1) 0 (1 / 2 * 1))) 7
   \<and> isPointInFrontOf (Camera_plane scenario_Camera) (Vertex_point (new_Vertex 1 2 1 7))
   \<and> Camera_getProjectedVertex scenario_Camera (new_Vertex 1 2 1 7)
       = Inr (Some (new_Vertex (1 / 2) (- 1) (1 / 2) 7))
   \<and> Camera_getConvertedVertex scenario_Camera (new_Vertex (1 / 2) (- 1) (1 / 2) 7)
       = new_Vertex (1 / 2) (- 1) (1 / 2) 7
   \<and> Camera_getToDrawVertex scenario_Camera (new_Vertex 1 2 1 7) = Inr (Some (134.4, 25.6))
   \<and> turned_Camera = Camera_updateGeometry (scenario_Camera\<lparr> Camera_rz := 90 \<rparr>)
   \<and> Camera_normalVector turned_Camera = Vector 3 0 0
   \<and> Vertex_point (new_Vertex 3 (- 2) 1 7) = Camera_local turned_Camera (Vector 1 3 1)
   \<and> new_Vertex 0 (- (3 / 2)) (1 / 2) 7
       = Vertex_at (Camera_local turned_Camera (Vector (1 / 2 * 1) 0 (1 / 2 * 1))) 7
   \<and> isPointInFrontOf (Camera_plane turned_Camera) (Vertex_point (new_Vertex 3 (- 2) 1 7))
   \<and> Camera_getProjectedVertex turned_Camera (new_Vertex 3 (- 2) 1 7)
       = Inr (Some (new_Vertex 0 (- (3 / 2)) (1 / 2) 7))
   \<and> Camera_getConvertedVertex turned_Camera (new_Vertex 0 (- (3 / 2)) (1 / 2) 7)
       = new_Vertex (1 / 2) (- 1) (1 / 2) 7
   \<and> Camera_getToDrawVertex turned_Camera (new_Vertex 3 (- 2) 1 7) = Inr (Some (134.4, 25.6))"
proof -
  have h: "0 < Camera_focalLength scenario_Camera" "0 < (3::real)"
    "scenario_Camera = Camera_updateGeometry scenario_Camera"
    "Vertex_point (new_Vertex 1 2 1 7) = Camera_local scenario_Camera (Vector 1 3 1)"
    "(1 / 2 :: real) = Camera_focalLength scenario_Camera / (Camera_focalLength scenario_Camera + 3)"
    "new_Vertex (1 / 2) (- 1) (1 / 2) 7
       = Vertex_at (Camera_local scenario_Camera (Vector (1 / 2 * 1) 0 (1 / 2 * 1)))
           (Vertex_i (new_Vertex 1 2 1 7))"
    using scenario_Camera_updated
    by (simp_all add: scenario_Camera_focalLength scenario_Camera_local Vertex_at_def)
  have t: "0 < Camera_focalLength (scenario_Camera\<lparr> Camera_rz := 90 \<rparr>)"
    "turned_Camera = Camera_updateGeometry (scenario_Camera\<lparr> Camera_rz := 90 \<rparr>)"
    "Vertex_point (new_Vertex 3 (- 2) 1 7) = Camera_local turned_Camera (Vector 1 3 1)"
    "(1 / 2 :: real) = Camera_focalLength (scenario_Camera\<lparr> Camera_rz := 90 \<rparr>)
                         / (Camera_focalLength (scenario_Camera\<lparr> Camera_rz := 90 \<rparr>) + 3)"
    "new_Vertex 0 (- (3 / 2)) (1 / 2) 7
       = Vertex_at (Camera_local turned_Camera (Vector (1 / 2 * 1) 0 (1 / 2 * 1)))
           (Vertex_i (new_Vertex 3 (- 2) 1 7))"
    by (simp_all add: scenario_Camera_focalLength turned_Camera_fields Vertex_at_def)
       (simp add: turned_Camera_def)
  note a = scenario_projection [OF h refl]
  note b = scenario_projection [OF t(1) h(2) t(2) t(3) t(4) t(5) refl]
  have n: "Camera_normalVector turned_Camera = Vector 3 0 0" by (rule turned_Camera_fields)
  from a have a': "isPointInFrontOf (Camera_plane scenario_Camera) (Vertex_point (new_Vertex 1 2 1 7))
   \<and> Camera_getProjectedVertex scenario_Camera (new_Vertex 1 2 1 7)
       = Inr (Some (new_Vertex (1 / 2) (- 1) (1 / 2) 7))
   \<and> Camera_getConvertedVertex scenario_Camera (new_Vertex (1 / 2) (- 1) (1 / 2) 7)
       = new_Vertex (1 / 2) (- 1) (1 / 2) 7
   \<and> Camera_getToDrawVertex scenario_Camera (new_Vertex 1 2 1 7) = Inr (Some (134.4, 25.6))"
    by (simp add: scenario_Camera_fields Vertex_at_def Point_move_def)
  from b have b': "isPointInFrontOf (Camera_plane turned_Camera) (Vertex_point (new_Vertex 3 (- 2) 1 7))
   \<and> Camera_getProjectedVertex turned_Camera (new_Vertex 3 (- 2) 1 7)
       = Inr (Some (new_Vertex 0 (- (3 / 2)) (1 / 2) 7))
   \<and> Camera_getConvertedVertex turned_Camera (new_Vertex 0 (- (3 / 2)) (1 / 2) 7)
       = new_Vertex (1 / 2) (- 1) (1 / 2) 7
   \<and> Camera_getToDrawVertex turned_Camera (new_Vertex 3 (- 2) 1 7) = Inr (Some (134.4, 25.6))"
    by (simp add: turned_Camera_fields Vertex_at_def Point_move_def)
  from h t(2) t(3) t(5) n a' b' show ?thesis by simp
qed


lemma Camera_getToDrawVertex_imported:
  "Camera_getToDrawVertex (this\<lparr> Camera_importedVertexes := vs, Camera_importedEdges := es \<rparr>) v
     = Camera_getToDrawVertex this v"
proof -
  let ?c = "this\<lparr> Camera_importedVertexes := vs, Camera_importedEdges := es \<rparr>"
  have p: "Camera_getProjectedVertex ?c v = Camera_getProjectedVertex this v" for v
    by (simp add: Camera_getProjectedVertex_def)
  have c: "Camera_getConvertedVertex ?c v = Camera_getConvertedVertex this v" for v
    by (simp add: Camera_getConvertedVertex_def)
  show ?thesis
    by (simp add: Camera_getToDrawVertex_def p c split: sum.splits option.splits)
qed

lemma Camera_drawEdge_imported:
  "Camera_drawEdge (this\<lparr> Camera_importedVertexes := vs, Camera_importedEdges := es \<rparr>) edge
     = Camera_drawEdge this edge"
  by (simp add: Camera_drawEdge_def Camera_drawConvertedEdge_def Camera_getToDrawVertex_imported
        cong: sum.case_cong option.case_cong)

lemma Camera_drawEdge_cases:
  assumes "Edge_setVertexInFrontOfCamera (Edge_getClone edge) (Camera_plane this) = Some (clone, convertedEdge)"
    and "Camera_getToDrawVertex this (Edge_vertex1 convertedEdge) = Inr toDrawVertex1"
    and "Camera_getToDrawVertex this (Edge_vertex2 convertedEdge) = Inr toDrawVertex2"
  shows "Camera_drawEdge this edge =
           Some (case (toDrawVertex1, toDrawVertex2) of
                   (None, None) \<Rightarrow> Inr []
                 | (Some (dx1, dy1), Some (dx2, dy2)) \<Rightarrow> Inr [DrawLine dx1 dy1 dx2 dy2]
                 | _ \<Rightarrow> Inl TypeError)"
  using assms by (simp add: Camera_drawEdge_def Camera_drawConvertedEdge_def split: option.splits)

text \<open>
  Claim C5 has an edge drawn from the endpoints that are there when only one of the two
  projections is \<open>null\<close>. The loop of \<open>drawEdges\<close> goes on to the next edge only when
  both are \<open>null\<close>, and then reads \<open>x\<close> of both: with one \<open>null\<close> it throws. In the
  example scenario the edge from \<open>(0,-2,0)\<close>, behind the plane, to \<open>(0,-1,0)\<close>, on
  the plane, is clipped to the edge from \<open>(0,-0.9999,0)\<close> to \<open>(0,-1,0)\<close>. The first
  vertex has the place \<open>(102.4, 57.6)\<close> on the canvas, the second is not in front of
  the plane and has none, and the loop throws: nothing is drawn in this update, not the
  edge and not the vertex \<open>(0,3,0)\<close> in front of the camera.
\<close>

theorem drawEdge_one_null:
  "map_option snd (Edge_setVertexInFrontOfCamera
       (Edge_getClone (new_Edge (new_Vertex 0 (- 2) 0 5) (new_Vertex 0 (- 1) 0 6)))
       (Camera_plane scenario_Camera))
     = Some (new_Edge (new_Vertex 0 (- (9999 / 10000)) 0 5) (new_Vertex 0 (- 1) 0 6))
   \<and> Camera_getToDrawVertex scenario_Camera (new_Vertex 0 (- (9999 / 10000)) 0 5) = Inr (Some (102.4, 57.6))
   \<and> Camera_getToDrawVertex scenario_Camera (new_Vertex 0 (- 1) 0 6) = Inr None
   \<and> Camera_drawEdge scenario_Camera (new_Edge (new_Vertex 0 (- 2) 0 5) (new_Vertex 0 (- 1) 0 6))
       = Some (Inl TypeError)
   \<and> Camera_update_draw
         (scenario_Camera\<lparr> Camera_importedVertexes := [new_Vertex 0 3 0 0],
                            Camera_importedEdges := [new_Edge (new_Vertex 0 (- 2) 0 5) (new_Vertex 0 (- 1) 0 6)] \<rparr>) []
       = Some ([], Some TypeError)"
proof -
  let ?e = "new_Edge (new_Vertex 0 (- 2) 0 5) (new_Vertex 0 (- 1) 0 6)"
  let ?c = "new_Edge (new_Vertex 0 (- (9999 / 10000)) 0 5) (new_Vertex 0 (- 1) 0 6)"
  let ?recv = "(Edge_getClone ?e)\<lparr> Edge_vertex1 := new_Vertex 0 (- (9999 / 10000)) 0 5 \<rparr>"
  have clip: "Edge_setVertexInFrontOfCamera (Edge_getClone ?e) (Camera_plane scenario_Camera)
                = Some (?recv, ?c)"
    by (simp add: Edge_setVertexInFrontOfCamera_def Edge_getIntersectionWithPlane_def
          Edge_getClone_def Vertex_getClone_def scenario_Camera_fields
          getIntersectionFromLineAndPlane_def Edge_isPointInRange_def isPointInFrontOf_def
          Plane_value_def getVectorFrom2Points_def Vector_changeLength_def Vector_length_def
          Vector_multiplication_def Point_move_def Let_def)
  have proj: "Camera_getProjectedVertex scenario_Camera (new_Vertex 0 (- (9999 / 10000)) 0 5)
                = Inr (Some (new_Vertex 0 (- 1) 0 5))"
    by (simp add: Camera_getProjectedVertex_def scenario_Camera_fields isPointInFrontOf_def
          Plane_value_def getVectorFrom2Points_def new_HalfLine_def
          HalfLine_isOnIntersectionWithPlane_def HalfLine_getIntersectionWithPlane_def
          getIntersectionFromLineAndPlane_def HalfLine_isPointInRange_def)
  have conv: "Camera_getConvertedVertex scenario_Camera (new_Vertex 0 (- 1) 0 5) = new_Vertex 0 (- 1) 0 5"
    by (simp add: Camera_getConvertedVertex_def scenario_Camera_fields getVectorFrom2Points_def
          sin_deg_def cos_deg_def)
  have d1: "Camera_getToDrawVertex scenario_Camera (new_Vertex 0 (- (9999 / 10000)) 0 5) = Inr (Some (102.4, 57.6))"
    by (simp add: Camera_getToDrawVertex_def proj conv scenario_Camera_fields)
  have d2: "Camera_getToDrawVertex scenario_Camera (new_Vertex 0 (- 1) 0 6) = Inr None"
    by (simp add: Camera_getToDrawVertex_def Camera_getProjectedVertex_def scenario_Camera_fields
          isPointInFrontOf_def Plane_value_def)
  have e: "Camera_drawEdge scenario_Camera ?e = Some (Inl TypeError)"
    using Camera_drawEdge_cases [OF clip, of "Some (102.4, 57.6)" None] d1 d2 by simp
  have "Camera_drawEdge (scenario_Camera\<lparr> Camera_importedVertexes := vs, Camera_importedEdges := es \<rparr>) ?e
          = Camera_drawEdge scenario_Camera ?e" for vs es
    by (rule Camera_drawEdge_imported)
  with e have "Camera_update_draw
         (scenario_Camera\<lparr> Camera_importedVertexes := [new_Vertex 0 3 0 0],
                            Camera_importedEdges := [?e] \<rparr>) [] = Some ([], Some TypeError)"
    by (simp add: Camera_update_draw_def Camera_drawEdges_def)
  with clip d1 d2 e show ?thesis by simp
qed


section \<open>Properties of the store\<close>

lemma Store_keeps_refl: "Store_keeps nv ne s s"
  by (simp add: Store_keeps_def)

lemma Store_keeps_trans:
  assumes "Store_keeps nv ne s s'" and "Store_keeps nv ne s' s''"
  shows "Store_keeps nv ne s s''"
  using assms by (auto simp: Store_keeps_def)

lemma Store_new_Vertex_props:
  assumes "Store_new_Vertex s x y z i = (s', a)"
  shows "a = Store_vertexes_next s"
    and "Store_vertexes_next s' = Store_vertexes_next s + 1"
    and "Store_edges_next s' = Store_edges_next s"
    and "Store_edges s' = Store_edges s"
    and "Store_vertexes s' = (Store_vertexes s)(a := new_Vertex x y z i)"
  using assms by (auto simp: Store_new_Vertex_def Let_def)

lemma Store_new_Vertex_keeps:
  assumes "nv \<le> Store_vertexes_next s" and "Store_new_Vertex s x y z i = (s', a)"
  shows "Store_keeps nv ne s s'"
  using assms by (auto simp: Store_new_Vertex_def Let_def Store_keeps_def)

lemma Store_new_Vertex_inv:
  assumes "Store_inv s" and "Store_new_Vertex s x y z i = (s', a)"
  shows "Store_inv s'"
  using assms by (auto simp: Store_new_Vertex_def Let_def Store_inv_def)

lemma Store_Vertex_getClone_keeps:
  assumes "nv \<le> Store_vertexes_next s" and "Store_Vertex_getClone s this = (s', a)"
  shows "Store_keeps nv ne s s'"
  using assms by (auto simp: Store_Vertex_getClone_def Let_def intro: Store_new_Vertex_keeps)

lemma Store_Vertex_getClone_inv:
  assumes "Store_inv s" and "Store_Vertex_getClone s this = (s', a)"
  shows "Store_inv s'"
  using assms by (auto simp: Store_Vertex_getClone_def Let_def intro: Store_new_Vertex_inv)

lemma Store_Vertex_getClone_edges:
  assumes "Store_Vertex_getClone s this = (s', a)"
  shows "Store_edges s' = Store_edges s" and "Store_edges_next s' = Store_edges_next s"
  using assms by (auto simp: Store_Vertex_getClone_def Store_new_Vertex_def Let_def)

lemma Store_new_Edge_props:
  assumes "Store_new_Edge s v1 v2 = (s', a)"
  shows "a = Store_edges_next s"
    and "Store_edges_next s' = Store_edges_next s + 1"
    and "Store_vertexes_next s' = Store_vertexes_next s"
    and "Store_vertexes s' = Store_vertexes s"
  using assms by (auto simp: Store_new_Edge_def Let_def)

lemma Store_new_Edge_keeps:
  assumes "ne \<le> Store_edges_next s" and "Store_new_Edge s v1 v2 = (s', a)"
  shows "Store_keeps nv ne s s'"
  using assms by (auto simp: Store_new_Edge_def Let_def Store_keeps_def)

lemma Store_new_Edge_inv:
  assumes "Store_inv s" and "Store_new_Edge s v1 v2 = (s', a)"
  shows "Store_inv s'"
  using assms by (auto simp: Store_new_Edge_def Let_def Store_inv_def less_Suc_eq)

lemma Store_keeps_next:
  assumes "Store_keeps nv ne s s'"
  shows "Store_vertexes_next s \<le> Store_vertexes_next s'" and "Store_edges_next s \<le> Store_edges_next s'"
  using assms by (simp_all add: Store_keeps_def)

lemma Store_Edge_getClone_keeps:
  assumes nv: "nv \<le> Store_vertexes_next s" and ne: "ne \<le> Store_edges_next s"
    and c: "Store_Edge_getClone s this = (s', a)"
  shows "Store_keeps nv ne s s'"
proof -
  obtain s1 c1 where 1: "Store_Vertex_getClone s (EdgeObject_vertex1 (Store_edges s this)) = (s1, c1)"
    by (cases "Store_Vertex_getClone s (EdgeObject_vertex1 (Store_edges s this))")
  obtain s2 c2 where 2: "Store_Vertex_getClone s1 (EdgeObject_vertex2 (Store_edges s1 this)) = (s2, c2)"
    by (cases "Store_Vertex_getClone s1 (EdgeObject_vertex2 (Store_edges s1 this))")
  from c 1 2 have 3: "Store_new_Edge s2 c1 c2 = (s', a)"
    by (simp add: Store_Edge_getClone_def)
  have k1: "Store_keeps nv ne s s1" using nv 1 by (rule Store_Vertex_getClone_keeps)
  have k2: "Store_keeps nv ne s1 s2"
    using nv Store_keeps_next(1) [OF k1] 2 by (auto intro: Store_Vertex_getClone_keeps)
  have "ne \<le> Store_edges_next s2"
    using ne Store_keeps_next(2) [OF k1] Store_keeps_next(2) [OF k2] by simp
  then have k3: "Store_keeps nv ne s2 s'" using 3 by (rule Store_new_Edge_keeps)
  from k1 k2 k3 show ?thesis by (blast intro: Store_keeps_trans)
qed

lemma Store_Edge_getClone_inv:
  assumes "Store_inv s" and c: "Store_Edge_getClone s this = (s', a)"
  shows "Store_inv s'" and "a = Store_edges_next s" and "Store_edges_next s' = a + 1"
proof -
  obtain s1 c1 where 1: "Store_Vertex_getClone s (EdgeObject_vertex1 (Store_edges s this)) = (s1, c1)"
    by (cases "Store_Vertex_getClone s (EdgeObject_vertex1 (Store_edges s this))")
  obtain s2 c2 where 2: "Store_Vertex_getClone s1 (EdgeObject_vertex2 (Store_edges s1 this)) = (s2, c2)"
    by (cases "Store_Vertex_getClone s1 (EdgeObject_vertex2 (Store_edges s1 this))")
  from c 1 2 have 3: "Store_new_Edge s2 c1 c2 = (s', a)"
    by (simp add: Store_Edge_getClone_def)
  have "Store_inv s1" using assms(1) 1 by (rule Store_Vertex_getClone_inv)
  then have "Store_inv s2" using 2 by (rule Store_Vertex_getClone_inv)
  then show "Store_inv s'" using 3 by (rule Store_new_Edge_inv)
  have "Store_edges_next s2 = Store_edges_next s"
    using Store_Vertex_getClone_edges(2) [OF 1] Store_Vertex_getClone_edges(2) [OF 2] by simp
  with Store_new_Edge_props(1,2) [OF 3]
  show "a = Store_edges_next s" and "Store_edges_next s' = a + 1" by simp_all
qed


lemma Store_assign_keeps:
  assumes "ne \<le> this"
  shows "Store_keeps nv ne s (s\<lparr> Store_edges := (Store_edges s)(this := e) \<rparr>)"
  using assms by (simp add: Store_keeps_def)

lemma Store_assign_vertex_inv:
  assumes "Store_inv s"
  shows "Store_inv (s\<lparr> Store_edges := (Store_edges s)(this := (Store_edges s this)\<lparr> EdgeObject_vertex1 := v \<rparr>) \<rparr>)"
    and "Store_inv (s\<lparr> Store_edges := (Store_edges s)(this := (Store_edges s this)\<lparr> EdgeObject_vertex2 := v \<rparr>) \<rparr>)"
  using assms by (simp_all add: Store_inv_def)

lemma Store_Edge_setVertexInFrontOfCamera_keeps:
  assumes nv: "nv \<le> Store_vertexes_next s" and ne: "ne \<le> Store_edges_next s"
    and rcv: "ne \<le> this"
    and c: "Store_Edge_setVertexInFrontOfCamera s this plane = Some (s', r)"
  shows "Store_keeps nv ne s s'"
proof (cases "Edge_getIntersectionWithPlane (Store_Edge s this) plane")
  case None
  with c have "Store_new_Edge s (EdgeObject_vertex1 (Store_edges s this))
                 (EdgeObject_vertex2 (Store_edges s this)) = (s', r)"
    by (simp add: Store_Edge_setVertexInFrontOfCamera_def)
  with ne show ?thesis by (rule Store_new_Edge_keeps)
next
  case (Some intersection)
  have step: "Store_keeps nv ne s s'"
    if v: "Store_new_Vertex s x y z i = (s1, a)"
      and e: "Store_new_Edge (s1\<lparr> Store_edges := (Store_edges s1)(this := obj) \<rparr>) v1 v2 = (s', r)"
    for x y z i s1 a obj v1 v2
  proof -
    have k1: "Store_keeps nv ne s s1" using nv v by (rule Store_new_Vertex_keeps)
    have k2: "Store_keeps nv ne s1 (s1\<lparr> Store_edges := (Store_edges s1)(this := obj) \<rparr>)"
      using rcv by (rule Store_assign_keeps)
    have "ne \<le> Store_edges_next (s1\<lparr> Store_edges := (Store_edges s1)(this := obj) \<rparr>)"
      using ne Store_keeps_next(2) [OF k1] by simp
    then have k3: "Store_keeps nv ne (s1\<lparr> Store_edges := (Store_edges s1)(this := obj) \<rparr>) s'"
      using e by (rule Store_new_Edge_keeps)
    from k1 k2 k3 show ?thesis by (blast intro: Store_keeps_trans)
  qed
  from c Some show ?thesis
    by (auto simp: Store_Edge_setVertexInFrontOfCamera_def Let_def
          split: if_splits option.splits prod.splits intro: step)
qed


lemma Store_Edge_setVertexInFrontOfCamera_inv:
  assumes inv: "Store_inv s"
    and c: "Store_Edge_setVertexInFrontOfCamera s this plane = Some (s', r)"
  shows "Store_inv s'"
proof (cases "Edge_getIntersectionWithPlane (Store_Edge s this) plane")
  case None
  with c have "Store_new_Edge s (EdgeObject_vertex1 (Store_edges s this))
                 (EdgeObject_vertex2 (Store_edges s this)) = (s', r)"
    by (simp add: Store_Edge_setVertexInFrontOfCamera_def)
  with inv show ?thesis by (rule Store_new_Edge_inv)
next
  case (Some intersection)
  have step1: "Store_inv s'"
    if v: "Store_new_Vertex s x y z i = (s1, a)"
      and e: "Store_new_Edge (s1\<lparr> Store_edges := (Store_edges s1)
                 (this := (Store_edges s1 this)\<lparr> EdgeObject_vertex1 := a \<rparr>) \<rparr>) v1 v2 = (s', r)"
    for x y z i s1 a v1 v2
  proof -
    have "Store_inv s1" using inv v by (rule Store_new_Vertex_inv)
    then have "Store_inv (s1\<lparr> Store_edges := (Store_edges s1)
                 (this := (Store_edges s1 this)\<lparr> EdgeObject_vertex1 := a \<rparr>) \<rparr>)"
      by (rule Store_assign_vertex_inv)
    then show ?thesis using e by (rule Store_new_Edge_inv)
  qed
  have step2: "Store_inv s'"
    if v: "Store_new_Vertex s x y z i = (s1, a)"
      and e: "Store_new_Edge (s1\<lparr> Store_edges := (Store_edges s1)
                 (this := (Store_edges s1 this)\<lparr> EdgeObject_vertex2 := a \<rparr>) \<rparr>) v1 v2 = (s', r)"
    for x y z i s1 a v1 v2
  proof -
    have "Store_inv s1" using inv v by (rule Store_new_Vertex_inv)
    then have "Store_inv (s1\<lparr> Store_edges := (Store_edges s1)
                 (this := (Store_edges s1 this)\<lparr> EdgeObject_vertex2 := a \<rparr>) \<rparr>)"
      by (rule Store_assign_vertex_inv)
    then show ?thesis using e by (rule Store_new_Edge_inv)
  qed
  from c Some show ?thesis
    by (auto simp: Store_Edge_setVertexInFrontOfCamera_def Let_def
          split: if_splits option.splits prod.splits intro: step1 step2)
qed

lemma Store_Edge_setVertexInFrontOfCamera_returns:
  assumes inv: "Store_inv s" and rcv: "this < Store_edges_next s"
  shows "\<exists>s' r. Store_Edge_setVertexInFrontOfCamera s this plane = Some (s', r)"
proof (cases "Edge_getIntersectionWithPlane (Store_Edge s this) plane")
  case None
  then show ?thesis
    by (simp add: Store_Edge_setVertexInFrontOfCamera_def split: prod.splits)
next
  case (Some intersection)
  then have "getIntersectionFromLineAndPlane (Edge_line (Store_Edge s this)) plane = Some intersection"
    by (rule Edge_getIntersectionWithPlane_Some)
  then have "Plane_slope plane (Line_vector (Edge_line (Store_Edge s this))) \<noteq> 0"
    by (rule getIntersectionFromLineAndPlane_Some)
  moreover have "Line_vector (Edge_line (Store_Edge s this)) = EdgeObject_vector (Store_edges s this)"
    using inv rcv by (simp add: Store_inv_def Store_Edge_def)
  ultimately have "0 < Vector_length (EdgeObject_vector (Store_edges s this))"
    using Plane_slope_length_pos [of plane "EdgeObject_vector (Store_edges s this)"] by simp
  then have "Vector_changeLength (EdgeObject_vector (Store_edges s this)) k
               = Some (Vector_multiplication (EdgeObject_vector (Store_edges s this))
                         (k / Vector_length (EdgeObject_vector (Store_edges s this))))" for k
    by (simp add: Vector_changeLength_def)
  with Some show ?thesis
    by (simp add: Store_Edge_setVertexInFrontOfCamera_def Let_def split: prod.splits)
qed


lemma Store_map_Vertex_getClone_props:
  assumes "Store_inv s" and "nv \<le> Store_vertexes_next s"
    and "Store_map_Vertex_getClone s vertexes = (s', cs)"
  shows "Store_inv s' \<and> Store_keeps nv ne s s'"
  using assms
proof (induction vertexes arbitrary: s s' cs)
  case Nil
  then show ?case by (simp add: Store_keeps_refl)
next
  case (Cons vertex vertexes)
  obtain s1 c where 1: "Store_Vertex_getClone s vertex = (s1, c)"
    by (cases "Store_Vertex_getClone s vertex")
  obtain s2 cs' where 2: "Store_map_Vertex_getClone s1 vertexes = (s2, cs')"
    by (cases "Store_map_Vertex_getClone s1 vertexes")
  from Cons.prems(3) 1 2 have s': "s' = s2" by simp
  have i1: "Store_inv s1" using Cons.prems(1) 1 by (rule Store_Vertex_getClone_inv)
  have k1: "Store_keeps nv ne s s1" using Cons.prems(2) 1 by (rule Store_Vertex_getClone_keeps)
  have "nv \<le> Store_vertexes_next s1" using Cons.prems(2) Store_keeps_next(1) [OF k1] by simp
  from Cons.IH [OF i1 this 2] k1 show ?case
    unfolding s' by (blast intro: Store_keeps_trans)
qed

lemma Store_map_Edge_getClone_props:
  assumes "Store_inv s" and "nv \<le> Store_vertexes_next s" and "ne \<le> Store_edges_next s"
    and "Store_map_Edge_getClone s edges = (s', cs)"
  shows "Store_inv s' \<and> Store_keeps nv ne s s'
         \<and> (\<forall>c \<in> set cs. Store_edges_next s \<le> c \<and> c < Store_edges_next s')"
  using assms
proof (induction edges arbitrary: s s' cs)
  case Nil
  then show ?case by (auto simp: Store_keeps_refl)
next
  case (Cons edge edges)
  obtain s1 c where 1: "Store_Edge_getClone s edge = (s1, c)"
    by (cases "Store_Edge_getClone s edge")
  obtain s2 cs' where 2: "Store_map_Edge_getClone s1 edges = (s2, cs')"
    by (cases "Store_map_Edge_getClone s1 edges")
  from Cons.prems(4) 1 2 have s': "s' = s2" and cs: "cs = c # cs'" by simp_all
  have i1: "Store_inv s1" and c: "c = Store_edges_next s" and n1: "Store_edges_next s1 = c + 1"
    using Store_Edge_getClone_inv [OF Cons.prems(1) 1] by simp_all
  have k1: "Store_keeps nv ne s s1"
    using Cons.prems(2,3) 1 by (rule Store_Edge_getClone_keeps)
  have nv1: "nv \<le> Store_vertexes_next s1" using Cons.prems(2) Store_keeps_next(1) [OF k1] by simp
  have ne1: "ne \<le> Store_edges_next s1" using Cons.prems(3) Store_keeps_next(2) [OF k1] by simp
  from Cons.IH [OF i1 nv1 ne1 2]
  have i2: "Store_inv s2" and k2: "Store_keeps nv ne s1 s2"
    and r2: "\<forall>c \<in> set cs'. Store_edges_next s1 \<le> c \<and> c < Store_edges_next s2"
    by simp_all
  have "Store_edges_next s1 \<le> Store_edges_next s2" using k2 by (rule Store_keeps_next)
  with r2 c n1 have "\<forall>c \<in> set cs. Store_edges_next s \<le> c \<and> c < Store_edges_next s2"
    unfolding cs by auto
  with i2 k1 k2 show ?case
    unfolding s' by (blast intro: Store_keeps_trans)
qed

lemma Store_importShapes_props:
  assumes "Store_inv s" and "nv \<le> Store_vertexes_next s" and "ne \<le> Store_edges_next s"
    and "Store_importShapes s scene = (s', importedVertexes, importedEdges)"
  shows "Store_inv s' \<and> Store_keeps nv ne s s'
         \<and> (\<forall>c \<in> set importedEdges. ne \<le> c \<and> c < Store_edges_next s')"
proof -
  obtain s1 vs where 1: "Store_map_Vertex_getClone s (Scene_vertexes scene) = (s1, vs)"
    by (cases "Store_map_Vertex_getClone s (Scene_vertexes scene)")
  obtain s2 es where 2: "Store_map_Edge_getClone s1 (Scene_edges scene) = (s2, es)"
    by (cases "Store_map_Edge_getClone s1 (Scene_edges scene)")
  from assms(4) 1 2 have s': "s' = s2" and es: "importedEdges = es"
    by (simp_all add: Store_importShapes_def)
  from Store_map_Vertex_getClone_props [OF assms(1,2) 1, of ne]
  have i1: "Store_inv s1" and k1: "Store_keeps nv ne s s1" by simp_all
  have nv1: "nv \<le> Store_vertexes_next s1" using assms(2) Store_keeps_next(1) [OF k1] by simp
  have ne1: "ne \<le> Store_edges_next s1" using assms(3) Store_keeps_next(2) [OF k1] by simp
  from Store_map_Edge_getClone_props [OF i1 nv1 ne1 2]
  have i2: "Store_inv s2" and k2: "Store_keeps nv ne s1 s2"
    and r: "\<forall>c \<in> set es. Store_edges_next s1 \<le> c \<and> c < Store_edges_next s2"
    by simp_all
  from r ne1 have "\<forall>c \<in> set es. ne \<le> c \<and> c < Store_edges_next s2" by auto
  with i2 k1 k2 show ?thesis
    unfolding s' es by (blast intro: Store_keeps_trans)
qed


lemma Store_drawEdges_props:
  assumes "Store_inv s" and "nv \<le> Store_vertexes_next s" and "ne \<le> Store_edges_next s"
  shows "\<exists>s' e. Store_drawEdges this s edges = Some (s', e) \<and> Store_inv s' \<and> Store_keeps nv ne s s'"
  using assms
proof (induction edges arbitrary: s)
  case Nil
  then show ?case by (simp add: Store_keeps_refl)
next
  case (Cons edge edges)
  obtain s1 clone where 1: "Store_Edge_getClone s edge = (s1, clone)"
    by (cases "Store_Edge_getClone s edge")
  have i1: "Store_inv s1" and c: "clone = Store_edges_next s" and n1: "Store_edges_next s1 = clone + 1"
    using Store_Edge_getClone_inv [OF Cons.prems(1) 1] by simp_all
  have k1: "Store_keeps nv ne s s1"
    using Cons.prems(2,3) 1 by (rule Store_Edge_getClone_keeps)
  have nv1: "nv \<le> Store_vertexes_next s1" using Cons.prems(2) Store_keeps_next(1) [OF k1] by simp
  have ne1: "ne \<le> Store_edges_next s1" using Cons.prems(3) Store_keeps_next(2) [OF k1] by simp
  have "clone < Store_edges_next s1" using n1 by simp
  from Store_Edge_setVertexInFrontOfCamera_returns [OF i1 this]
  obtain s2 r where 2: "Store_Edge_setVertexInFrontOfCamera s1 clone (Camera_plane this) = Some (s2, r)"
    by blast
  have "ne \<le> clone" using c Cons.prems(3) by simp
  with nv1 ne1 have k2: "Store_keeps nv ne s1 s2"
    using 2 by (rule Store_Edge_setVertexInFrontOfCamera_keeps)
  have i2: "Store_inv s2" using i1 2 by (rule Store_Edge_setVertexInFrontOfCamera_inv)
  have k: "Store_keeps nv ne s s2" using k1 k2 by (rule Store_keeps_trans)
  show ?case
  proof (cases "Camera_drawConvertedEdge this (Store_Edge s2 r)")
    case (Inl e)
    with 1 2 i2 k show ?thesis by simp
  next
    case (Inr calls)
    have nv2: "nv \<le> Store_vertexes_next s2" using Cons.prems(2) Store_keeps_next(1) [OF k] by simp
    have ne2: "ne \<le> Store_edges_next s2" using Cons.prems(3) Store_keeps_next(2) [OF k] by simp
    from Cons.IH [OF i2 nv2 ne2] obtain s' e where
      "Store_drawEdges this s2 edges = Some (s', e)" "Store_inv s'" "Store_keeps nv ne s2 s'"
      by blast
    with 1 2 Inr k show ?thesis
      by (auto intro: Store_keeps_trans)
  qed
qed

lemma Store_updates_props:
  assumes "Store_inv s" and "nv \<le> Store_vertexes_next s" and "ne \<le> Store_edges_next s"
  shows "\<exists>s'. Store_updates cameras importedEdges s = Some s' \<and> Store_inv s' \<and> Store_keeps nv ne s s'"
  using assms
proof (induction cameras arbitrary: s)
  case Nil
  then show ?case by (simp add: Store_keeps_refl)
next
  case (Cons this cameras)
  from Store_drawEdges_props [OF Cons.prems] obtain s1 e where
    1: "Store_drawEdges this s importedEdges = Some (s1, e)" and i1: "Store_inv s1"
    and k1: "Store_keeps nv ne s s1"
    by blast
  have nv1: "nv \<le> Store_vertexes_next s1" using Cons.prems(2) Store_keeps_next(1) [OF k1] by simp
  have ne1: "ne \<le> Store_edges_next s1" using Cons.prems(3) Store_keeps_next(2) [OF k1] by simp
  from Cons.IH [OF i1 nv1 ne1] obtain s' where
    "Store_updates cameras importedEdges s1 = Some s'" "Store_inv s'" "Store_keeps nv ne s1 s'"
    by blast
  with 1 k1 show ?case by (auto intro: Store_keeps_trans)
qed

lemma Store_draw_first_props:
  assumes "Store_inv s" and "nv \<le> Store_vertexes_next s" and "ne \<le> Store_edges_next s"
    and "\<forall>c \<in> set edges. ne \<le> c \<and> c < Store_edges_next s"
  shows "\<exists>s'. Store_draw_first plane s edges = Some s' \<and> Store_inv s' \<and> Store_keeps nv ne s s'"
  using assms
proof (induction edges arbitrary: s)
  case Nil
  then show ?case by (simp add: Store_keeps_refl)
next
  case (Cons edge edges)
  from Cons.prems(4) have e: "ne \<le> edge" "edge < Store_edges_next s" by simp_all
  from Store_Edge_setVertexInFrontOfCamera_returns [OF Cons.prems(1) e(2)]
  obtain s1 r where 1: "Store_Edge_setVertexInFrontOfCamera s edge plane = Some (s1, r)"
    by blast
  have k1: "Store_keeps nv ne s s1"
    using Cons.prems(2,3) e(1) 1 by (rule Store_Edge_setVertexInFrontOfCamera_keeps)
  have i1: "Store_inv s1" using Cons.prems(1) 1 by (rule Store_Edge_setVertexInFrontOfCamera_inv)
  have nv1: "nv \<le> Store_vertexes_next s1" using Cons.prems(2) Store_keeps_next(1) [OF k1] by simp
  have ne1: "ne \<le> Store_edges_next s1" using Cons.prems(3) Store_keeps_next(2) [OF k1] by simp
  have r1: "\<forall>c \<in> set edges. ne \<le> c \<and> c < Store_edges_next s1"
    using Cons.prems(4) Store_keeps_next(2) [OF k1] by auto
  obtain s2 c1 where 2: "Store_Vertex_getClone s1 (EdgeObject_vertex1 (Store_edges s1 edge)) = (s2, c1)"
    by (cases "Store_Vertex_getClone s1 (EdgeObject_vertex1 (Store_edges s1 edge))")
  obtain s3 c2 where 3: "Store_Vertex_getClone s2 (EdgeObject_vertex2 (Store_edges s2 edge)) = (s3, c2)"
    by (cases "Store_Vertex_getClone s2 (EdgeObject_vertex2 (Store_edges s2 edge))")
  have i2: "Store_inv s2" using i1 2 by (rule Store_Vertex_getClone_inv)
  have i3: "Store_inv s3" using i2 3 by (rule Store_Vertex_getClone_inv)
  have k2: "Store_keeps nv ne s1 s2" using nv1 2 by (rule Store_Vertex_getClone_keeps)
  have "nv \<le> Store_vertexes_next s2" using nv1 Store_keeps_next(1) [OF k2] by simp
  then have k3: "Store_keeps nv ne s2 s3" using 3 by (rule Store_Vertex_getClone_keeps)
  have k13: "Store_keeps nv ne s1 s3" using k2 k3 by (rule Store_keeps_trans)
  have nv3: "nv \<le> Store_vertexes_next s3" using nv1 Store_keeps_next(1) [OF k13] by simp
  have ne3: "ne \<le> Store_edges_next s3" using ne1 Store_keeps_next(2) [OF k13] by simp
  have r3: "\<forall>c \<in> set edges. ne \<le> c \<and> c < Store_edges_next s3"
    using r1 Store_keeps_next(2) [OF k13] by auto
  from Cons.IH [OF i1 nv1 ne1 r1] obtain sa where
    a: "Store_draw_first plane s1 edges = Some sa" "Store_inv sa" "Store_keeps nv ne s1 sa"
    by blast
  from Cons.IH [OF i3 nv3 ne3 r3] obtain sb where
    b: "Store_draw_first plane s3 edges = Some sb" "Store_inv sb" "Store_keeps nv ne s3 sb"
    by blast
  have ka: "Store_keeps nv ne s sa" using k1 a(3) by (rule Store_keeps_trans)
  have kb: "Store_keeps nv ne s sb" using k1 k13 b(3) by (blast intro: Store_keeps_trans)
  from 1 2 3 a b ka kb show ?case
    by (auto simp: Let_def)
qed

lemma Store_updates_first_props:
  assumes "Store_inv s" and "nv \<le> Store_vertexes_next s" and "ne \<le> Store_edges_next s"
  shows "\<exists>s'. Store_updates_first planes scene s = Some s' \<and> Store_inv s' \<and> Store_keeps nv ne s s'"
  using assms
proof (induction planes arbitrary: s)
  case Nil
  then show ?case by (simp add: Store_keeps_refl)
next
  case (Cons plane planes)
  obtain s1 vs es where 1: "Store_importShapes s scene = (s1, vs, es)"
    by (cases "Store_importShapes s scene")
  from Store_importShapes_props [OF Cons.prems 1]
  have i1: "Store_inv s1" and k1: "Store_keeps nv ne s s1"
    and r: "\<forall>c \<in> set es. ne \<le> c \<and> c < Store_edges_next s1"
    by simp_all
  have nv1: "nv \<le> Store_vertexes_next s1" using Cons.prems(2) Store_keeps_next(1) [OF k1] by simp
  have ne1: "ne \<le> Store_edges_next s1" using Cons.prems(3) Store_keeps_next(2) [OF k1] by simp
  from Store_draw_first_props [OF i1 nv1 ne1 r] obtain s2 where
    2: "Store_draw_first plane s1 es = Some s2" and i2: "Store_inv s2" and k2: "Store_keeps nv ne s1 s2"
    by blast
  have k: "Store_keeps nv ne s s2" using k1 k2 by (rule Store_keeps_trans)
  have nv2: "nv \<le> Store_vertexes_next s2" using Cons.prems(2) Store_keeps_next(1) [OF k] by simp
  have ne2: "ne \<le> Store_edges_next s2" using Cons.prems(3) Store_keeps_next(2) [OF k] by simp
  from Cons.IH [OF i2 nv2 ne2] obtain s' where
    "Store_updates_first planes scene s2 = Some s'" "Store_inv s'" "Store_keeps nv ne s2 s'"
    by blast
  with 1 2 k show ?case by (auto intro: Store_keeps_trans)
qed


text \<open>
  On edge objects whose vertices are in the store, \<open>getClone\<close> and
  \<open>setVertexInFrontOfCamera\<close> on the store do what they do on the edge read from it.
\<close>

lemma Store_Edge_getClone_Edge:
  assumes c: "Store_Edge_getClone s this = (s', clone)"
    and refs: "EdgeObject_vertex1 (Store_edges s this) < Store_vertexes_next s"
      "EdgeObject_vertex2 (Store_edges s this) < Store_vertexes_next s"
  shows "Store_Edge s' clone = Edge_getClone (Store_Edge s this)"
  using assms
  by (auto simp: Store_Edge_getClone_def Store_Vertex_getClone_def Store_new_Vertex_def
        Store_new_Edge_def Store_Edge_def Edge_getClone_def Vertex_getClone_def new_Edge_def Let_def)

lemma Store_Edge_setVertexInFrontOfCamera_Edge:
  assumes c: "Store_Edge_setVertexInFrontOfCamera s this plane = Some (s', returned)"
    and refs: "EdgeObject_vertex1 (Store_edges s this) < Store_vertexes_next s"
      "EdgeObject_vertex2 (Store_edges s this) < Store_vertexes_next s"
      "this < Store_edges_next s"
  shows "Edge_setVertexInFrontOfCamera (Store_Edge s this) plane
           = Some (Store_Edge s' this, Store_Edge s' returned)"
proof (cases "Edge_getIntersectionWithPlane (Store_Edge s this) plane")
  case None
  with c refs show ?thesis
    by (auto simp: Store_Edge_setVertexInFrontOfCamera_def Edge_setVertexInFrontOfCamera_def
          Store_new_Edge_def Store_Edge_def new_Edge_def Let_def)
next
  case (Some intersection)
  have sel: "Edge_vertex1 (Store_Edge s this) = Store_vertexes s (EdgeObject_vertex1 (Store_edges s this))"
    "Edge_vertex2 (Store_Edge s this) = Store_vertexes s (EdgeObject_vertex2 (Store_edges s this))"
    "Edge_vector (Store_Edge s this) = EdgeObject_vector (Store_edges s this)"
    by (simp_all add: Store_Edge_def)
  from c Some refs show ?thesis
    unfolding Store_Edge_setVertexInFrontOfCamera_def Edge_setVertexInFrontOfCamera_def sel
    by (auto simp: Store_new_Vertex_def Store_new_Edge_def Store_Edge_def new_Edge_def Let_def
          split: if_splits option.splits)
qed

lemma Store_keeps_Scene_read:
  assumes k: "Store_keeps (Store_vertexes_next s) (Store_edges_next s) s s'"
    and a: "Scene_allocated scene s"
  shows "Scene_read s' scene = Scene_read s scene"
proof -
  have v: "Store_vertexes s' v = Store_vertexes s v" if "v < Store_vertexes_next s" for v
    using k that by (simp add: Store_keeps_def)
  have e: "Store_edges s' e = Store_edges s e" if "e < Store_edges_next s" for e
    using k that by (simp add: Store_keeps_def)
  have "Store_vertexes s' v = Store_vertexes s v" if "v \<in> set (Scene_vertexes scene)" for v
    using a that by (simp add: Scene_allocated_def v)
  moreover have "Store_edges s' e = Store_edges s e \<and> Store_Edge s' e = Store_Edge s e"
    if "e \<in> set (Scene_edges scene)" for e
    using a that by (simp add: Scene_allocated_def Store_Edge_def e v)
  ultimately show ?thesis
    by (simp add: Scene_read_def)
qed

text \<open>
  Claim C9. The objects of the scene are in the store, and every edge object of the
  store was made by the constructor. Then any number of frames of the camera, of the
  second class (the scene imported by the constructor, the edges drawn in every
  \<open>update\<close>) and of the first (the scene imported and drawn in every \<open>update\<close>), with
  any position of the camera in each frame, come to an end and leave every object that
  was in the store before as it was: the caller reads from its scene the same vertices,
  with the same coordinates and numbers, and the same edges between the same vertices.
\<close>

theorem scene_unchanged:
  assumes inv: "Store_inv s" and a: "Scene_allocated scene s"
  shows "(\<exists>s'. Store_Camera_frames cameras scene s = Some s'
            \<and> Store_keeps (Store_vertexes_next s) (Store_edges_next s) s s'
            \<and> Scene_read s' scene = Scene_read s scene)
       \<and> (\<exists>s'. Store_updates_first planes scene s = Some s'
            \<and> Store_keeps (Store_vertexes_next s) (Store_edges_next s) s s'
            \<and> Scene_read s' scene = Scene_read s scene)"
proof
  obtain s1 vs es where 1: "Store_importShapes s scene = (s1, vs, es)"
    by (cases "Store_importShapes s scene")
  from Store_importShapes_props [OF inv order_refl order_refl 1]
  have i1: "Store_inv s1" and k1: "Store_keeps (Store_vertexes_next s) (Store_edges_next s) s s1"
    by simp_all
  from Store_updates_props [OF i1 Store_keeps_next [OF k1]] obtain s' where
    2: "Store_updates cameras es s1 = Some s'"
    and k2: "Store_keeps (Store_vertexes_next s) (Store_edges_next s) s1 s'"
    by blast
  have k: "Store_keeps (Store_vertexes_next s) (Store_edges_next s) s s'"
    using k1 k2 by (rule Store_keeps_trans)
  from 1 2 have "Store_Camera_frames cameras scene s = Some s'"
    by (simp add: Store_Camera_frames_def)
  with k Store_keeps_Scene_read [OF k a]
  show "\<exists>s'. Store_Camera_frames cameras scene s = Some s'
            \<and> Store_keeps (Store_vertexes_next s) (Store_edges_next s) s s'
            \<and> Scene_read s' scene = Scene_read s scene"
    by blast
next
  from Store_updates_first_props [OF inv order_refl order_refl] obtain s' where
    "Store_updates_first planes scene s = Some s'"
    and k: "Store_keeps (Store_vertexes_next s) (Store_edges_next s) s s'"
    by blast
  with Store_keeps_Scene_read [OF k a]
  show "\<exists>s'. Store_updates_first planes scene s = Some s'
            \<and> Store_keeps (Store_vertexes_next s) (Store_edges_next s) s s'
            \<and> Scene_read s' scene = Scene_read s scene"
    by blast
qed

lemma example_Store_eq:
  "example_Store =
     \<lparr> Store_vertexes = (\<lambda>a. new_Vertex 0 0 0 0)(0 := new_Vertex 0 1 0 0, Suc 0 := new_Vertex 0 (- 1) 0 1),
       Store_vertexes_next = 2,
       Store_edges = (\<lambda>a. \<lparr> EdgeObject_vertex1 = 0, EdgeObject_vertex2 = 0,
                             EdgeObject_vector = Vector 0 0 0,
                             EdgeObject_line = Line (Point 0 0 0) (Vector 0 0 0) \<rparr>)
                     (0 := \<lparr> EdgeObject_vertex1 = 0, EdgeObject_vertex2 = Suc 0,
                             EdgeObject_vector = Vector 0 (- 2) 0,
                             EdgeObject_line = Line (Point 0 1 0) (Vector 0 (- 2) 0) \<rparr>),
       Store_edges_next = 1 \<rparr>"
  by (simp add: example_Store_def empty_Store_def Store_new_Vertex_def Store_new_Edge_def
        getVectorFrom2Points_def Let_def)

lemma example_Store_props:
  "Store_inv example_Store" "Scene_allocated example_Scene example_Store"
  by (simp_all add: example_Store_eq Store_inv_def Scene_allocated_def example_Scene_def)

theorem scene_unchanged_witness:
  "Store_inv example_Store \<and> Scene_allocated example_Scene example_Store
   \<and> (\<exists>s'. Store_Camera_frames [scenario_Camera, scenario_Camera] example_Scene example_Store = Some s'
         \<and> Scene_read s' example_Scene = Scene_read example_Store example_Scene)
   \<and> (\<exists>s'. Store_updates_first [Plane 0 1 0 0, Plane 0 3 0 3] example_Scene example_Store = Some s'
         \<and> Scene_read s' example_Scene = Scene_read example_Store example_Scene)"
  using scene_unchanged [OF example_Store_props,
      of "[scenario_Camera, scenario_Camera]" "[Plane 0 1 0 0, Plane 0 3 0 3]"]
    example_Store_props
  by blast


lemma example_first_frame:
  "\<exists>s'. Store_updates_first [Plane 0 1 0 0] example_Scene example_Store = Some s'
      \<and> Store_Edge s' 0 = new_Edge (new_Vertex 0 1 0 0) (new_Vertex 0 (- 1) 0 1)
      \<and> Store_Edge s' 1 =
           \<lparr> Edge_vertex1 = new_Vertex 0 1 0 0, Edge_vertex2 = new_Vertex 0 (1 / 10000) 0 1,
             Edge_vector = Vector 0 (- 2) 0, Edge_line = Line (Point 0 1 0) (Vector 0 (- 2) 0) \<rparr>"
  by (simp add: example_Store_eq example_Scene_def Store_importShapes_def
        Store_Vertex_getClone_def Store_Edge_getClone_def Store_new_Vertex_def Store_new_Edge_def
        Store_Edge_setVertexInFrontOfCamera_def Store_Edge_def
        Edge_getIntersectionWithPlane_def getIntersectionFromLineAndPlane_def
        Edge_isPointInRange_def isPointInFrontOf_def Plane_value_def getVectorFrom2Points_def
        Vector_changeLength_def Vector_length_def Vector_multiplication_def Point_move_def
        new_Edge_def new_Vertex_def Let_def)


end
